theory Spec2Isabelle
  imports Complex_Main "HOL-Library.Log_Nat"
begin

section \<open>TTL cache (utils/cache.ts, class TTLCache)\<close>

text \<open>
  The cache is a JavaScript \<open>Map\<close> from keys to \<open>{value, expiresAt}\<close>. A \<open>Map\<close> keeps its
  entries in insertion order, writing an existing key keeps the key's position, and
  \<open>keys().next().value\<close> is the first key in that order. It is modelled as an association
  list in insertion order. \<open>Date.now()\<close> is passed in as the argument \<open>now\<close>.
\<close>

type_synonym ('k, 'v) js_map = "('k \<times> 'v) list"

fun Map_get :: "('k, 'v) js_map \<Rightarrow> 'k \<Rightarrow> 'v option" where
  "Map_get [] k = None"
| "Map_get ((k', v) # m) k = (if k' = k then Some v else Map_get m k)"

fun Map_delete :: "'k \<Rightarrow> ('k, 'v) js_map \<Rightarrow> ('k, 'v) js_map" where
  "Map_delete k [] = []"
| "Map_delete k ((k', v) # m) = (if k' = k then Map_delete k m else (k', v) # Map_delete k m)"

fun Map_set :: "'k \<Rightarrow> 'v \<Rightarrow> ('k, 'v) js_map \<Rightarrow> ('k, 'v) js_map" where
  "Map_set k v [] = [(k, v)]"
| "Map_set k v ((k', v') # m) = (if k' = k then (k, v) # m else (k', v') # Map_set k v m)"

definition Map_keys :: "('k, 'v) js_map \<Rightarrow> 'k list" where
  "Map_keys m = map fst m"

record ('k, 'v) TTLCache =
  cache :: "('k, 'v \<times> int) js_map"
  ttlMs :: int
  maxSize :: int

definition TTLCache_new :: "int \<Rightarrow> int \<Rightarrow> ('k, 'v) TTLCache" where
  "TTLCache_new ttl msize = \<lparr>cache = [], ttlMs = ttl, maxSize = msize\<rparr>"

text \<open>\<open>get(key)\<close>: the value and the cache after the call (an expired entry is deleted).\<close>

definition TTLCache_get :: "int \<Rightarrow> 'k \<Rightarrow> ('k, 'v) TTLCache \<Rightarrow> 'v option \<times> ('k, 'v) TTLCache" where
  "TTLCache_get now key c =
     (case Map_get (cache c) key of
        None \<Rightarrow> (None, c)
      | Some (v, expiresAt) \<Rightarrow>
          if now > expiresAt then (None, c\<lparr>cache := Map_delete key (cache c)\<rparr>)
          else (Some v, c))"

text \<open>
  \<open>set(key, value)\<close>: when \<open>cache.size >= maxSize\<close> the first key of the map (if there is
  one) is deleted, then the entry is written with \<open>expiresAt = now + ttlMs\<close>.
\<close>

definition TTLCache_set :: "int \<Rightarrow> 'k \<Rightarrow> 'v \<Rightarrow> ('k, 'v) TTLCache \<Rightarrow> ('k, 'v) TTLCache" where
  "TTLCache_set now key v c =
     (let m = (if int (length (cache c)) \<ge> maxSize c
               then (case Map_keys (cache c) of [] \<Rightarrow> cache c | firstKey # _ \<Rightarrow> Map_delete firstKey (cache c))
               else cache c)
      in c\<lparr>cache := Map_set key (v, now + ttlMs c) m\<rparr>)"



section \<open>Circuit breaker (utils/cache.ts, class CircuitBreaker)\<close>

text \<open>
  The operation passed to \<open>execute\<close> is a transformer of the outside world \<open>'w\<close> that either
  throws (\<open>Inl\<close> of the error message) or returns a value. \<open>Date.now()\<close> reads the clock of the
  current world. Calls are sequential: no other call touches the breaker while the
  operation is awaited.
\<close>

datatype breaker_state = CLOSED | OPEN | HALF_OPEN

record CircuitBreaker =
  state :: breaker_state
  failureCount :: nat
  successCount :: nat
  nextAttemptTime :: int
  failureThreshold :: nat
  cooldownMs :: int
  successThreshold :: nat

definition CircuitBreaker_new :: "nat \<Rightarrow> int \<Rightarrow> nat \<Rightarrow> CircuitBreaker" where
  "CircuitBreaker_new ft cd st =
     \<lparr>state = CLOSED, failureCount = 0, successCount = 0, nextAttemptTime = 0,
      failureThreshold = ft, cooldownMs = cd, successThreshold = st\<rparr>"

definition breaker_open_error :: string where
  "breaker_open_error = ''Circuit breaker is OPEN - service is unavailable''"

definition onSuccess :: "CircuitBreaker \<Rightarrow> CircuitBreaker" where
  "onSuccess b =
     (let b1 = b\<lparr>failureCount := 0\<rparr> in
      if state b1 = HALF_OPEN then
        (let b2 = b1\<lparr>successCount := successCount b1 + 1\<rparr> in
         if successCount b2 \<ge> successThreshold b2
         then b2\<lparr>state := CLOSED, successCount := 0\<rparr>
         else b2)
      else b1)"

definition onFailure :: "int \<Rightarrow> CircuitBreaker \<Rightarrow> CircuitBreaker" where
  "onFailure now b =
     (let b1 = b\<lparr>failureCount := failureCount b + 1, successCount := 0\<rparr> in
      if state b1 = HALF_OPEN \<or> failureCount b1 \<ge> failureThreshold b1
      then b1\<lparr>state := OPEN, nextAttemptTime := now + cooldownMs b1\<rparr>
      else b1)"

definition execute ::
  "('w \<Rightarrow> int) \<Rightarrow> ('w \<Rightarrow> (string + 'a) \<times> 'w) \<Rightarrow> CircuitBreaker \<times> 'w
     \<Rightarrow> (string + 'a) \<times> CircuitBreaker \<times> 'w" where
  "execute clock fn bw =
     (case bw of (b, w) \<Rightarrow>
        let now = clock w in
        if state b = OPEN \<and> now < nextAttemptTime b then (Inl breaker_open_error, b, w)
        else
          let b1 = (if state b = OPEN then b\<lparr>state := HALF_OPEN, successCount := 0\<rparr> else b) in
          (case fn w of
             (Inr r, w') \<Rightarrow> (Inr r, onSuccess b1, w')
           | (Inl e, w') \<Rightarrow> (Inl e, onFailure (clock w') b1, w')))"

text \<open>A run of consecutive \<open>execute\<close> calls, one per operation of the list.\<close>

fun execute_all ::
  "('w \<Rightarrow> int) \<Rightarrow> ('w \<Rightarrow> (string + 'a) \<times> 'w) list \<Rightarrow> CircuitBreaker \<times> 'w
     \<Rightarrow> (string + 'a) list \<times> CircuitBreaker \<times> 'w" where
  "execute_all clock [] bw = ([], bw)"
| "execute_all clock (fn # fns) bw =
     (case execute clock fn bw of
        (r, bw') \<Rightarrow> (case execute_all clock fns bw' of (rs, bw'') \<Rightarrow> (r # rs, bw'')))"

text \<open>The operations of a list invoked one after the other, with no breaker in front.\<close>

fun run_ops :: "('w \<Rightarrow> (string + 'a) \<times> 'w) list \<Rightarrow> 'w \<Rightarrow> (string + 'a) list \<times> 'w" where
  "run_ops [] w = ([], w)"
| "run_ops (fn # fns) w =
     (case fn w of (r, w') \<Rightarrow> (case run_ops fns w' of (rs, w'') \<Rightarrow> (r # rs, w'')))"

text \<open>Operations that throw on every call, and operations that return on every call.\<close>

definition always_fails :: "('w \<Rightarrow> (string + 'a) \<times> 'w) \<Rightarrow> bool" where
  "always_fails fn \<longleftrightarrow> (\<forall>w. isl (fst (fn w)))"

definition always_succeeds :: "('w \<Rightarrow> (string + 'a) \<times> 'w) \<Rightarrow> bool" where
  "always_succeeds fn \<longleftrightarrow> (\<forall>w. \<not> isl (fst (fn w)))"

text \<open>
  A concrete world for examples: the world is the wall-clock time in milliseconds, and an
  operation takes 10 ms.
\<close>

definition wall_clock :: "int \<Rightarrow> int" where
  "wall_clock w = w"

definition failing_op :: "int \<Rightarrow> (string + nat) \<times> int" where
  "failing_op w = (Inl ''HTTP 500'', w + 10)"

definition succeeding_op :: "int \<Rightarrow> (string + nat) \<times> int" where
  "succeeding_op w = (Inr 42, w + 10)"

text \<open>The breaker of the examples after two failures at times 10 and 20.\<close>

definition opened_breaker :: CircuitBreaker where
  "opened_breaker =
     \<lparr>state = OPEN, failureCount = 2, successCount = 0, nextAttemptTime = 60020,
      failureThreshold = 2, cooldownMs = 60000, successThreshold = 2\<rparr>"

section \<open>JavaScript numbers and strings\<close>

text \<open>
  A JavaScript number is a finite value, \<open>NaN\<close>, \<open>Infinity\<close> or \<open>-Infinity\<close>. Finite values
  are taken as exact reals: the rounding of results to 64-bit floats, overflow to infinity
  and the sign of zero are not modelled. What the operators do with \<open>NaN\<close>, the infinities
  and a zero divisor is written out.
\<close>

datatype jsnum = Num real | NaN | PosInf | NegInf

fun js_neg :: "jsnum \<Rightarrow> jsnum" where
  "js_neg (Num x) = Num (- x)"
| "js_neg NaN = NaN"
| "js_neg PosInf = NegInf"
| "js_neg NegInf = PosInf"

fun js_add :: "jsnum \<Rightarrow> jsnum \<Rightarrow> jsnum" where
  "js_add NaN b = NaN"
| "js_add a NaN = NaN"
| "js_add (Num x) (Num y) = Num (x + y)"
| "js_add PosInf NegInf = NaN"
| "js_add NegInf PosInf = NaN"
| "js_add PosInf b = PosInf"
| "js_add a PosInf = PosInf"
| "js_add NegInf b = NegInf"
| "js_add a NegInf = NegInf"

definition js_sub :: "jsnum \<Rightarrow> jsnum \<Rightarrow> jsnum" where
  "js_sub a b = js_add a (js_neg b)"

text \<open>The sign of a number that is not \<open>NaN\<close>: -1, 0 or 1.\<close>

fun js_sign :: "jsnum \<Rightarrow> int" where
  "js_sign (Num x) = (if x < 0 then -1 else if x = 0 then 0 else 1)"
| "js_sign PosInf = 1"
| "js_sign NegInf = -1"
| "js_sign NaN = 0"

definition signed_inf :: "int \<Rightarrow> jsnum" where
  "signed_inf s = (if s = 0 then NaN else if s > 0 then PosInf else NegInf)"

fun js_mul :: "jsnum \<Rightarrow> jsnum \<Rightarrow> jsnum" where
  "js_mul NaN b = NaN"
| "js_mul a NaN = NaN"
| "js_mul (Num x) (Num y) = Num (x * y)"
| "js_mul a b = signed_inf (js_sign a * js_sign b)"

fun js_div :: "jsnum \<Rightarrow> jsnum \<Rightarrow> jsnum" where
  "js_div NaN b = NaN"
| "js_div a NaN = NaN"
| "js_div (Num x) (Num y) = (if y \<noteq> 0 then Num (x / y) else signed_inf (js_sign (Num x)))"
| "js_div (Num x) b = Num 0"
| "js_div a (Num y) = signed_inf (js_sign a * (if y < 0 then -1 else 1))"
| "js_div a b = NaN"

text \<open>The comparison \<open>a >= b\<close>: false when either side is \<open>NaN\<close>.\<close>

fun js_ge :: "jsnum \<Rightarrow> jsnum \<Rightarrow> bool" where
  "js_ge NaN b = False"
| "js_ge a NaN = False"
| "js_ge (Num x) (Num y) = (x \<ge> y)"
| "js_ge PosInf b = True"
| "js_ge a NegInf = True"
| "js_ge a b = False"

text \<open>\<open>Math.min\<close> and \<open>Math.max\<close> of two arguments: \<open>NaN\<close> when either is \<open>NaN\<close>.\<close>

definition Math_min :: "jsnum \<Rightarrow> jsnum \<Rightarrow> jsnum" where
  "Math_min a b = (if a = NaN \<or> b = NaN then NaN else if js_ge b a then a else b)"

definition Math_max :: "jsnum \<Rightarrow> jsnum \<Rightarrow> jsnum" where
  "Math_max a b = (if a = NaN \<or> b = NaN then NaN else if js_ge a b then a else b)"

fun Math_sqrt :: "jsnum \<Rightarrow> jsnum" where
  "Math_sqrt (Num x) = (if x < 0 then NaN else Num (sqrt x))"
| "Math_sqrt PosInf = PosInf"
| "Math_sqrt a = NaN"

fun Math_round :: "jsnum \<Rightarrow> jsnum" where
  "Math_round (Num x) = Num (of_int \<lfloor>x + 1 / 2\<rfloor>)"
| "Math_round a = a"

text \<open>Template-literal formatting of a non-negative integer.\<close>

definition digit_char :: "nat \<Rightarrow> char" where
  "digit_char d = ''0123456789'' ! d"

fun show_nat :: "nat \<Rightarrow> string" where
  "show_nat n = (if n < 10 then [digit_char n] else show_nat (n div 10) @ [digit_char (n mod 10)])"

declare show_nat.simps [simp del]

text \<open>\<open>String.prototype.startsWith\<close> and \<open>includes\<close>.\<close>

fun startsWith :: "string \<Rightarrow> string \<Rightarrow> bool" where
  "startsWith s [] = True"
| "startsWith [] (c # p) = False"
| "startsWith (d # s) (c # p) = (d = c \<and> startsWith s p)"

fun str_includes :: "string \<Rightarrow> string \<Rightarrow> bool" where
  "str_includes [] sub = (sub = [])"
| "str_includes (c # s) sub = (startsWith (c # s) sub \<or> str_includes s sub)"

section \<open>Retrying HTTP client (utils/http.ts, HttpUtils.fetchWithRetry)\<close>

text \<open>
  What one call of \<open>fetch\<close> gives: a rejection (network failure, or the abort of the 30 s
  timeout) with its message, or a response. Of a response the code reads \<open>status\<close>,
  \<open>statusText\<close>, the headers \<open>retry-after\<close> and \<open>content-type\<close>, and the result of
  \<open>response.json()\<close>, which rejects with a message on a malformed body.
\<close>

record 'a Response =
  status :: nat
  statusText :: string
  retry_after :: "string option"
  content_type :: "string option"
  json :: "string + 'a"

datatype 'a fetch_result = Rejected string | Responded "'a Response"

definition ok :: "'a Response \<Rightarrow> bool" where
  "ok r \<longleftrightarrow> 200 \<le> status r \<and> status r \<le> 299"

text \<open>The observable effects of a call, in order: the attempts made and the sleeps.\<close>

datatype event = Attempt nat | Sleep jsnum

fun is_Attempt :: "event \<Rightarrow> bool" where
  "is_Attempt (Attempt k) = True"
| "is_Attempt (Sleep d) = False"

text \<open>
  The environment of a call: the result of the \<open>k\<close>-th \<open>fetch\<close>, the value of
  \<open>Math.random()\<close> drawn at attempt \<open>k\<close>, and the built-ins \<open>parseInt\<close> and \<open>new URL\<close> (whether
  it accepts the string).
\<close>

record 'a http_env =
  fetch :: "nat \<Rightarrow> 'a fetch_result"
  Math_random :: "nat \<Rightarrow> real"
  parseInt :: "string \<Rightarrow> jsnum"
  URL_valid :: "string \<Rightarrow> bool"

definition calculateBackoffDelay :: "real \<Rightarrow> nat \<Rightarrow> real \<Rightarrow> jsnum" where
  "calculateBackoffDelay random attempt baseDelay =
     (if baseDelay < 0 then Num 1000
      else
        let exponentialDelay = baseDelay * 2 ^ (min attempt 10);
            jitter = random * (1 / 10) * exponentialDelay
        in Num (min (exponentialDelay + jitter) 30000))"

text \<open>
  One pass through the body of the \<open>for\<close> loop: it returns the parsed body, or continues
  after the sleep of the 429 branch, or throws into the \<open>catch\<close> of the loop.
\<close>

datatype 'a attempt_result = Returned 'a | Continued jsnum | Thrown string

definition attempt_body :: "'a http_env \<Rightarrow> nat \<Rightarrow> real \<Rightarrow> nat \<Rightarrow> 'a attempt_result" where
  "attempt_body env maxRetries baseDelay attempt =
     (case fetch env attempt of
        Rejected msg \<Rightarrow> Thrown msg
      | Responded response \<Rightarrow>
          if \<not> ok response then
            (if status response = 429 \<and> attempt < maxRetries then
               Continued
                 (case retry_after response of
                    None \<Rightarrow> calculateBackoffDelay (Math_random env attempt) attempt baseDelay
                  | Some retryAfter \<Rightarrow>
                      if retryAfter = [] then
                        calculateBackoffDelay (Math_random env attempt) attempt baseDelay
                      else js_mul (parseInt env retryAfter) (Num 1000))
             else Thrown (''HTTP '' @ show_nat (status response) @ '': '' @ statusText response))
          else
            (case content_type response of
               None \<Rightarrow> Thrown ''Invalid response headers''
             | Some contentType \<Rightarrow>
                 if \<not> str_includes contentType ''application/json''
                 then Thrown ''Invalid response headers''
                 else (case json response of Inl msg \<Rightarrow> Thrown msg | Inr v \<Rightarrow> Returned v)))"

text \<open>
  The loop \<open>for (attempt = 0; attempt <= maxRetries; attempt++)\<close>, from the attempt given,
  with the \<open>lastError\<close> so far and the effects so far.
\<close>

function retry_loop ::
  "'a http_env \<Rightarrow> nat \<Rightarrow> real \<Rightarrow> nat \<Rightarrow> string option \<Rightarrow> event list
     \<Rightarrow> (string + 'a) \<times> event list" where
  "retry_loop env maxRetries baseDelay attempt lastError trace =
     (if attempt \<le> maxRetries then
        (case attempt_body env maxRetries baseDelay attempt of
           Returned v \<Rightarrow> (Inr v, trace @ [Attempt attempt])
         | Continued delay \<Rightarrow>
             retry_loop env maxRetries baseDelay (attempt + 1) lastError
               (trace @ [Attempt attempt, Sleep delay])
         | Thrown msg \<Rightarrow>
             retry_loop env maxRetries baseDelay (attempt + 1) (Some msg)
               (if attempt < maxRetries
                then trace @ [Attempt attempt,
                       Sleep (calculateBackoffDelay (Math_random env attempt) attempt baseDelay)]
                else trace @ [Attempt attempt]))
      else
        (case lastError of
           None \<Rightarrow> (Inl ''Cannot read properties of undefined (reading 'message')'', trace)
         | Some msg \<Rightarrow>
             (Inl (''Request failed after '' @ show_nat (maxRetries + 1) @ '' attempts: '' @ msg),
              trace)))"
  by pat_completeness auto
termination
  by (relation "measure (\<lambda>(env, maxRetries, baseDelay, attempt, lastError, trace).
        maxRetries + 1 - attempt)") auto

declare retry_loop.simps [simp del]

text \<open>
  \<open>fetchWithRetry(url, options, maxRetries, baseDelay)\<close>. The scheduling of the call through
  the Bottleneck limiter delays it and changes nothing else, and is left out.
\<close>

definition fetchWithRetry ::
  "'a http_env \<Rightarrow> string \<Rightarrow> int \<Rightarrow> real \<Rightarrow> (string + 'a) \<times> event list" where
  "fetchWithRetry env url maxRetries baseDelay =
     (if url = [] then (Inl ''Valid URL is required'', [])
      else if maxRetries < 0 \<or> baseDelay < 0
      then (Inl ''maxRetries and baseDelay must be non-negative'', [])
      else if \<not> URL_valid env url then (Inl (''Invalid URL format: '' @ url), [])
      else retry_loop env (nat maxRetries) baseDelay 0 None [])"

text \<open>
  An attempt fails when the loop body does not return: it throws (any non-2xx status, a
  rejected \<open>fetch\<close>, a content type that is not JSON, a body that does not parse) or it
  takes the 429 branch.
\<close>

definition attempt_fails :: "'a http_env \<Rightarrow> nat \<Rightarrow> real \<Rightarrow> nat \<Rightarrow> bool" where
  "attempt_fails env maxRetries baseDelay k =
     (case attempt_body env maxRetries baseDelay k of Returned v \<Rightarrow> False | _ \<Rightarrow> True)"

text \<open>
  The sleep that follows a failed attempt \<open>k < maxRetries\<close>: the delay of the 429 branch when
  the body took it, the backoff delay of the \<open>catch\<close> otherwise. The effects of the failed
  attempts \<open>a, ..., k - 1\<close> are each attempt followed by its sleep.
\<close>

definition retry_delay :: "'a http_env \<Rightarrow> nat \<Rightarrow> real \<Rightarrow> nat \<Rightarrow> jsnum" where
  "retry_delay env maxRetries baseDelay k =
     (case attempt_body env maxRetries baseDelay k of
        Continued delay \<Rightarrow> delay
      | _ \<Rightarrow> calculateBackoffDelay (Math_random env k) k baseDelay)"

definition retries :: "'a http_env \<Rightarrow> nat \<Rightarrow> real \<Rightarrow> nat \<Rightarrow> nat \<Rightarrow> event list" where
  "retries env maxRetries baseDelay a k =
     concat (map (\<lambda>j. [Attempt j, Sleep (retry_delay env maxRetries baseDelay j)]) [a..<k])"

text \<open>
  Example environments: an endpoint that gives the same response to every request (with
  status 404 or 500, with a 200 that is not JSON, with a 200 whose body does not parse).
\<close>

definition error_response :: "nat \<Rightarrow> string \<Rightarrow> 'a Response" where
  "error_response code msg =
     \<lparr>status = code, statusText = msg, retry_after = None,
      content_type = Some ''text/html'', json = Inl ''Unexpected token <''\<rparr>"

definition endpoint_always :: "nat \<Rightarrow> string \<Rightarrow> 'a http_env" where
  "endpoint_always code msg =
     \<lparr>fetch = (\<lambda>k. Responded (error_response code msg)), Math_random = (\<lambda>k. 0),
      parseInt = (\<lambda>s. NaN), URL_valid = (\<lambda>s. True)\<rparr>"

definition endpoint_responding :: "'a Response \<Rightarrow> 'a http_env" where
  "endpoint_responding response =
     \<lparr>fetch = (\<lambda>k. Responded response), Math_random = (\<lambda>k. 0),
      parseInt = (\<lambda>s. NaN), URL_valid = (\<lambda>s. True)\<rparr>"

definition html_response :: "'a Response" where
  "html_response =
     \<lparr>status = 200, statusText = ''OK'', retry_after = None,
      content_type = Some ''text/html'', json = Inl ''Unexpected token <''\<rparr>"

definition malformed_response :: "'a Response" where
  "malformed_response =
     \<lparr>status = 200, statusText = ''OK'', retry_after = None,
      content_type = Some ''application/json'', json = Inl ''Unexpected end of JSON input''\<rparr>"

definition example_url :: string where
  "example_url = ''https://dln.debridge.finance/v1.0/dln/order/create-tx''"

section \<open>Decimal arithmetic (utils/decimal.ts, class DecimalUtils)\<close>

text \<open>
  The class computes with decimal.js, a library the repository depends on and whose source
  is not part of it; its values and operations are modelled here as the library documents
  them, under its default configuration (the repository never configures it). A \<open>Decimal\<close>
  is a finite decimal number, \<open>NaN\<close> or an infinity with its sign (\<open>True\<close> for positive). The
  sign of a zero is not modelled: it only shows in the sign of the infinity that a
  division by zero gives.
\<close>

datatype decimal = Dec rat | DecNaN | DecInf bool

text \<open>
  The defaults of the library: results are rounded to \<open>precision\<close> significant digits with
  rounding mode \<open>ROUND_HALF_UP\<close> (to the nearest, a tie away from zero); a result whose
  decimal exponent is above \<open>maxE\<close> is an infinity, and one whose exponent is below \<open>minE\<close>
  is zero.
\<close>

definition precision :: nat where
  "precision = 20"

definition maxE :: int where
  "maxE = 9000000000000000"

definition minE :: int where
  "minE = - 9000000000000000"

text \<open>
  \<open>ilog b a\<close> is the exponent of a positive \<open>a\<close> in base \<open>b\<close>: the integer \<open>e\<close> with
  \<open>b^e \<le> a < b^(e + 1)\<close>, counted from the digits of the integer part of \<open>a\<close> when \<open>a \<ge> 1\<close> and
  of \<open>1 / a\<close> otherwise.
\<close>

definition ilog :: "nat \<Rightarrow> rat \<Rightarrow> int" where
  "ilog b a =
     (if 1 \<le> a then int (floorlog b (nat \<lfloor>a\<rfloor>)) - 1
      else - int (floorlog b (nat \<lceil>1 / a\<rceil> - 1)))"

definition round_half_up :: "rat \<Rightarrow> int" where
  "round_half_up x = (if 0 \<le> x then \<lfloor>x + 1 / 2\<rfloor> else - \<lfloor>- x + 1 / 2\<rfloor>)"

definition round_half_even :: "rat \<Rightarrow> int" where
  "round_half_even x =
     (let f = \<lfloor>x\<rfloor>; d = x - of_int f in
      if d < 1 / 2 then f else if 1 / 2 < d then f + 1 else if even f then f else f + 1)"

text \<open>Rounding to \<open>sd\<close> significant decimal digits, half up.\<close>

definition round_sig :: "nat \<Rightarrow> rat \<Rightarrow> rat" where
  "round_sig sd x =
     (if x = 0 then 0
      else let q = 10 powi (ilog 10 \<bar>x\<bar> - (int sd - 1)) in of_int (round_half_up (x / q)) * q)"

text \<open>
  \<open>finalise\<close> is what the library does to the exact result of an operation: it rounds it
  to \<open>precision\<close> significant digits and then checks the exponent. \<open>in_exponent_range\<close> says
  of a rounded value that this check leaves it as it is.
\<close>

definition in_exponent_range :: "rat \<Rightarrow> bool" where
  "in_exponent_range y \<longleftrightarrow> y = 0 \<or> (minE \<le> ilog 10 \<bar>y\<bar> \<and> ilog 10 \<bar>y\<bar> \<le> maxE)"

definition finalise :: "rat \<Rightarrow> decimal" where
  "finalise x =
     (let y = round_sig precision x in
      if y = 0 then Dec 0
      else if maxE < ilog 10 \<bar>y\<bar> then DecInf (0 < y)
      else if ilog 10 \<bar>y\<bar> < minE then Dec 0
      else Dec y)"

text \<open>
  \<open>div\<close>, \<open>minus\<close>, \<open>times\<close>, \<open>abs\<close> and \<open>isZero\<close>. None of them throws. On finite arguments
  the exact result is finalised (\<open>abs\<close> does not round); a division of a nonzero number by
  zero is an infinity, and \<open>0 / 0\<close>, \<open>Infinity / Infinity\<close>, \<open>Infinity - Infinity\<close> and
  \<open>0 * Infinity\<close> are \<open>NaN\<close>.
\<close>

fun dec_div :: "decimal \<Rightarrow> decimal \<Rightarrow> decimal" where
  "dec_div DecNaN b = DecNaN"
| "dec_div a DecNaN = DecNaN"
| "dec_div (DecInf s) (DecInf t) = DecNaN"
| "dec_div (DecInf s) (Dec y) = DecInf (s = (0 \<le> y))"
| "dec_div (Dec x) (DecInf t) = Dec 0"
| "dec_div (Dec x) (Dec y) =
     (if y = 0 then (if x = 0 then DecNaN else DecInf (0 < x)) else finalise (x / y))"

fun dec_minus :: "decimal \<Rightarrow> decimal \<Rightarrow> decimal" where
  "dec_minus DecNaN b = DecNaN"
| "dec_minus a DecNaN = DecNaN"
| "dec_minus (DecInf s) (DecInf t) = (if s = t then DecNaN else DecInf s)"
| "dec_minus (DecInf s) (Dec y) = DecInf s"
| "dec_minus (Dec x) (DecInf t) = DecInf (\<not> t)"
| "dec_minus (Dec x) (Dec y) = finalise (x - y)"

fun dec_times :: "decimal \<Rightarrow> decimal \<Rightarrow> decimal" where
  "dec_times DecNaN b = DecNaN"
| "dec_times a DecNaN = DecNaN"
| "dec_times (DecInf s) (DecInf t) = DecInf (s = t)"
| "dec_times (DecInf s) (Dec y) = (if y = 0 then DecNaN else DecInf (s = (0 < y)))"
| "dec_times (Dec x) (DecInf t) = (if x = 0 then DecNaN else DecInf (t = (0 < x)))"
| "dec_times (Dec x) (Dec y) = finalise (x * y)"

fun dec_abs :: "decimal \<Rightarrow> decimal" where
  "dec_abs (Dec x) = Dec \<bar>x\<bar>"
| "dec_abs DecNaN = DecNaN"
| "dec_abs (DecInf s) = DecInf True"

definition isZero :: "decimal \<Rightarrow> bool" where
  "isZero a \<longleftrightarrow> a = Dec 0"

text \<open>
  \<open>new Decimal(10).pow(n)\<close> for an integer decimals count \<open>n \<ge> 0\<close>: the power is exact, and
  it is an infinity when its exponent \<open>n\<close> is above \<open>maxE\<close>.
\<close>

definition pow10 :: "int \<Rightarrow> decimal" where
  "pow10 n = (if n \<le> maxE then Dec (10 ^ nat n) else DecInf True)"

text \<open>
  \<open>toNumber()\<close> converts the decimal to a JavaScript number, that is to the nearest IEEE 754
  double (a tie to the even significand): a double is \<open>n * 2^(e - 52)\<close> with \<open>n \<le> 2^53\<close> and
  \<open>e \<ge> -1022\<close>; what rounds to \<open>2^1024\<close> or more is an infinity, and what rounds to \<open>n = 0\<close>
  is zero. The decimals that reach \<open>toNumber\<close> below have at most 20 significant digits, for
  which the conversion of the language is this rounding.
\<close>

definition to_double :: "rat \<Rightarrow> jsnum" where
  "to_double x =
     (if x = 0 then Num 0
      else
        let e = max (ilog 2 \<bar>x\<bar>) (- 1022);
            q = 2 powi (e - 52);
            n = round_half_even (\<bar>x\<bar> / q)
        in if 1023 < e \<or> (e = 1023 \<and> n = 2 ^ 53) then (if 0 < x then PosInf else NegInf)
           else Num (of_rat (sgn x * of_int n * q)))"

fun toNumber :: "decimal \<Rightarrow> jsnum" where
  "toNumber (Dec x) = to_double x"
| "toNumber DecNaN = NaN"
| "toNumber (DecInf s) = (if s then PosInf else NegInf)"

text \<open>
  \<open>calculateEffectiveRate(fromAmount, toAmount, fromDecimals, toDecimals)\<close>. The constructor
  \<open>new Decimal(string)\<close> is the parameter \<open>Decimal\<close>: it throws (\<open>Inl\<close> of the message) on a
  string it cannot read and gives the value otherwise. The decimals counts are integers,
  as the contract's schema has them. The first check throws outside the \<open>try\<close>; what is
  thrown inside the \<open>try\<close> is caught and thrown again with the prefix
  \<open>Decimal calculation failed: \<close>.
\<close>

definition calculateEffectiveRate ::
  "(string \<Rightarrow> string + decimal) \<Rightarrow> string \<Rightarrow> string \<Rightarrow> int \<Rightarrow> int \<Rightarrow> string + jsnum" where
  "calculateEffectiveRate Decimal fromAmount toAmount fromDecimals toDecimals =
     (if fromAmount = [] \<or> toAmount = [] \<or> fromDecimals < 0 \<or> toDecimals < 0
      then Inl ''Invalid input parameters for rate calculation''
      else
        (case
           (case Decimal fromAmount of
              Inl msg \<Rightarrow> Inl msg
            | Inr f \<Rightarrow>
                let fromDecimal = dec_div f (pow10 fromDecimals) in
                (case Decimal toAmount of
                   Inl msg \<Rightarrow> Inl msg
                 | Inr t \<Rightarrow>
                     let toDecimal = dec_div t (pow10 toDecimals) in
                     if isZero fromDecimal then Inl ''From amount cannot be zero''
                     else Inr (toNumber (dec_div toDecimal fromDecimal))))
         of
           Inl msg \<Rightarrow> Inl (''Decimal calculation failed: '' @ msg)
         | Inr rate \<Rightarrow> Inr rate))"

text \<open>
  \<open>calculateSlippageBps(expectedRate, actualRate)\<close>. The constructor does not throw on a
  number: it reads \<open>NaN\<close> as \<open>NaN\<close>, an infinity as that infinity, and a finite number as the
  decimal value of its shortest representation (\<open>expectedRate.toString()\<close>). The two
  arguments are given by what the constructor reads from them, \<open>expected\<close> and \<open>actual\<close>.
\<close>

definition calculateSlippageBps :: "decimal \<Rightarrow> decimal \<Rightarrow> jsnum" where
  "calculateSlippageBps expected actual =
     (if isZero expected then Num 0
      else toNumber (dec_abs (dec_times (dec_div (dec_minus expected actual) expected) (Dec 10000))))"

text \<open>
  Modelled from the spec: the constructor of decimal.js on the amounts of the data model,
  integer strings in smallest units: an optional sign and decimal digits, read exactly.
  Any other string is rejected here (the library also reads fractions, exponents, other
  bases, \<open>Infinity\<close> and \<open>NaN\<close>).
\<close>

fun position :: "char \<Rightarrow> string \<Rightarrow> nat option" where
  "position c [] = None"
| "position c (d # ds) = (if c = d then Some 0 else map_option Suc (position c ds))"

definition digit_val :: "char \<Rightarrow> nat option" where
  "digit_val c = position c ''0123456789''"

fun digits_val :: "nat \<Rightarrow> string \<Rightarrow> nat option" where
  "digits_val acc [] = Some acc"
| "digits_val acc (c # cs) =
     (case digit_val c of None \<Rightarrow> None | Some d \<Rightarrow> digits_val (10 * acc + d) cs)"

definition int_of_string :: "string \<Rightarrow> int option" where
  "int_of_string s =
     (case s of
        [] \<Rightarrow> None
      | c # cs \<Rightarrow>
          if c = CHR ''-'' then (if cs = [] then None else map_option (\<lambda>n. - int n) (digits_val 0 cs))
          else if c = CHR ''+'' then (if cs = [] then None else map_option int (digits_val 0 cs))
          else map_option int (digits_val 0 s))"

definition Decimal_of_integer_string :: "string \<Rightarrow> string + decimal" where
  "Decimal_of_integer_string s =
     (case int_of_string s of
        None \<Rightarrow> Inl (''[DecimalError] Invalid argument: '' @ s)
      | Some i \<Rightarrow> Inr (Dec (of_int i)))"

section \<open>The data provider service (service.ts): data\<close>

record Asset =
  chainId :: string
  assetId :: string
  symbol :: string
  decimals :: int

record Route =
  source :: Asset
  destination :: Asset

text \<open>
  Of a quote of the provider (\<open>DeBridgeQuote\<close>) the service reads the fields below. The
  JSON is cast, not validated, so every field may be missing: \<open>None\<close> is \<open>undefined\<close>.
\<close>

record Token =
  amount :: "string option"
  recommendedAmount :: "string option"
  maxTheoreticalAmount :: "string option"
  approximateUsdValue :: "jsnum option"
  originApproximateUsdValue :: "jsnum option"
  recommendedApproximateUsdValue :: "jsnum option"
  maxTheoreticalApproximateUsdValue :: "jsnum option"

record Estimation =
  srcChainTokenIn :: "Token option"
  dstChainTokenOut :: "Token option"

record Quote =
  estimation :: "Estimation option"

text \<open>The nullish coalescing \<open>a ?? b\<close>.\<close>

definition coalesce :: "'a option \<Rightarrow> 'a option \<Rightarrow> 'a option" where
  "coalesce a b = (case a of None \<Rightarrow> b | Some x \<Rightarrow> Some x)"

record Rate =
  rate_source :: Asset
  rate_destination :: Asset
  amountIn :: string
  amountOut :: string
  effectiveRate :: jsnum
  totalFeesUsd :: "jsnum option"
  quotedAt :: int

record LiquidityDepthPoint =
  maxAmountIn :: string
  slippageBps :: nat

record LiquidityDepth =
  liquidity_route :: Route
  thresholds :: "LiquidityDepthPoint list"
  liquidity_measuredAt :: int

datatype window = W24h | W7d | W30d

record VolumeWindow =
  volume_window :: window
  volumeUsd :: jsnum
  volume_measuredAt :: int

record ListedAssets =
  listed_assets :: "Asset list"
  listed_measuredAt :: int

record RouteIntelligence =
  intelligence_route :: Route
  maxCapacityUsd :: "nat option"
  optimalRangeUsd :: "(nat \<times> nat) option"
  feeEfficiencyScore :: "jsnum option"
  at1k :: "jsnum option"
  at10k :: "jsnum option"
  at100k :: "jsnum option"
  intelligence_measuredAt :: int

record ProviderSnapshot =
  snapshot_volumes :: "VolumeWindow list"
  snapshot_rates :: "Rate list"
  snapshot_liquidity :: "LiquidityDepth list"
  snapshot_listedAssets :: ListedAssets
  snapshot_routeIntelligence :: "RouteIntelligence list option"

text \<open>What the service reads of the volume aggregator's and the token list's answers.\<close>

record DefiLlamaBridgeResponse =
  lastDailyVolume :: jsnum
  weeklyVolume :: jsnum
  monthlyVolume :: jsnum

record DeBridgeTokenInfo =
  token_address :: "string option"
  token_symbol :: "string option"
  token_decimals :: int

text \<open>
  A raw answer: the status is ok or not, and \<open>response.json()\<close> rejects or gives the body
  (for the volumes, as read by \<open>parseDefiLlamaResponse\<close>: \<open>None\<close> when fields are missing;
  for the token list, its \<open>tokens\<close> in the order of \<open>Object.values\<close>, \<open>None\<close> when absent).
\<close>

record 'b RawResponse =
  raw_ok :: bool
  raw_json :: "string + 'b"

text \<open>
  The environment of the service. The world \<open>'w\<close> is everything outside the service's own
  fields: the network, the clock and the rate limiters. An operation on it may throw.
  \<^item> \<open>Date_now\<close>: the clock;
  \<^item> \<open>http_fetchWithRetry\<close>: \<open>HttpUtils.fetchWithRetry\<close> on the quote URL of a route and a
    notional;
  \<^item> \<open>fetchQuoteWithRetry\<close>: the service's method of that name (a quote, \<open>null\<close>, or a throw);
  \<^item> \<open>fetch_volumes\<close>, \<open>fetch_token_list\<close>: \<open>rateLimiter.acquire()\<close> followed by \<open>fetch\<close> of
    the aggregator's URL, or of the token list of a chain;
  \<^item> \<open>pause\<close>: \<open>setTimeout\<close> for the milliseconds given;
  \<^item> \<open>js_Number\<close>, \<open>js_BigInt\<close>, \<open>new_Decimal\<close>, \<open>toLowerCase\<close>: the built-ins \<open>Number(string)\<close>,
    \<open>BigInt(string)\<close> (\<open>None\<close> when it throws), the constructor of decimal.js, and
    \<open>String.prototype.toLowerCase\<close>;
  \<^item> \<open>probe_amount\<close>: \<open>String(Math.floor(sizeUsd * Math.pow(10, decimals)))\<close>.
\<close>

record 'w service_env =
  Date_now :: "'w \<Rightarrow> int"
  http_fetchWithRetry :: "Route \<Rightarrow> string \<Rightarrow> 'w \<Rightarrow> (string + Quote) \<times> 'w"
  fetchQuoteWithRetry :: "Asset \<Rightarrow> Asset \<Rightarrow> string \<Rightarrow> 'w \<Rightarrow> (string + Quote option) \<times> 'w"
  fetch_volumes :: "'w \<Rightarrow> (string + DefiLlamaBridgeResponse option RawResponse) \<times> 'w"
  fetch_token_list :: "string \<Rightarrow> 'w \<Rightarrow> (string + DeBridgeTokenInfo list option RawResponse) \<times> 'w"
  pause :: "nat \<Rightarrow> 'w \<Rightarrow> 'w"
  js_Number :: "string \<Rightarrow> jsnum"
  js_BigInt :: "string \<Rightarrow> int option"
  new_Decimal :: "string \<Rightarrow> string + decimal"
  toLowerCase :: "string \<Rightarrow> string"
  probe_amount :: "nat \<Rightarrow> int \<Rightarrow> string"

text \<open>The mutable fields of the service.\<close>

record ServiceState =
  quoteCache :: "(string, Quote) TTLCache"
  dlnCircuit :: CircuitBreaker
  volumeCache :: "(DefiLlamaBridgeResponse option \<times> int) option"
  tokenListCache :: "(string, Asset list \<times> int) js_map"

definition initial_state :: ServiceState where
  "initial_state =
     \<lparr>quoteCache = TTLCache_new (5 * 60 * 1000) 1000,
      dlnCircuit = CircuitBreaker_new 5 60000 2,
      volumeCache = None,
      tokenListCache = []\<rparr>"

section \<open>Liquidity depth (DataProviderService.getLiquidityDepth)\<close>

text \<open>\<open>BigInt\<close> division truncates toward zero; \<open>toString()\<close> of a \<open>BigInt\<close>.\<close>

definition bigint_div :: "int \<Rightarrow> int \<Rightarrow> int" where
  "bigint_div a b = sgn a * sgn b * (\<bar>a\<bar> div \<bar>b\<bar>)"

definition show_int :: "int \<Rightarrow> string" where
  "show_int i = (if i < 0 then CHR ''-'' # show_nat (nat (- i)) else show_nat (nat i))"

text \<open>
  The 100 bps amount: \<open>srcAmount\<close> unless \<open>maxDest\<close> is truthy and \<open>recommendedDest\<close> is
  not the string \<open>0\<close>; then, when the three strings read as \<open>BigInt\<close>s and the recommended
  one is positive, \<open>srcBig * maxBig / recommendedBig\<close>. A \<open>BigInt\<close> that throws is caught
  and leaves \<open>srcAmount\<close>.
\<close>

definition maxSource :: "'w service_env \<Rightarrow> string \<Rightarrow> string \<Rightarrow> string option \<Rightarrow> string" where
  "maxSource env srcAmount recommendedDest maxDest =
     (case maxDest of
        None \<Rightarrow> srcAmount
      | Some maxDestStr \<Rightarrow>
          if maxDestStr \<noteq> [] \<and> recommendedDest \<noteq> ''0'' then
            (case js_BigInt env srcAmount of
               None \<Rightarrow> srcAmount
             | Some srcBig \<Rightarrow>
                 (case js_BigInt env recommendedDest of
                    None \<Rightarrow> srcAmount
                  | Some recommendedBig \<Rightarrow>
                      (case js_BigInt env maxDestStr of
                         None \<Rightarrow> srcAmount
                       | Some maxBig \<Rightarrow>
                           if recommendedBig > 0
                           then show_int (bigint_div (srcBig * maxBig) recommendedBig)
                           else srcAmount)))
          else srcAmount)"

text \<open>
  The body of the loop for one route: the entry pushed, if any, and the world after it.
  A negative decimals count makes \<open>10n ** decimals\<close> throw and the route is skipped; a
  throw of \<open>fetchQuoteWithRetry\<close> is caught by the route's \<open>catch\<close>.
\<close>

definition liquidity_of_route ::
  "'w service_env \<Rightarrow> Route \<Rightarrow> 'w \<Rightarrow> LiquidityDepth option \<times> 'w" where
  "liquidity_of_route env route w =
     (if decimals (source route) < 0 then (None, w)
      else
        let referenceAmount = show_nat (1000 * 10 ^ nat (decimals (source route))) in
        (case fetchQuoteWithRetry env (source route) (destination route) referenceAmount w of
           (Inl err, w') \<Rightarrow> (None, w')
         | (Inr quote, w') \<Rightarrow>
             (case Option.bind quote estimation of
                None \<Rightarrow> (None, w')
              | Some est \<Rightarrow>
                  let srcToken = srcChainTokenIn est;
                      dstToken = dstChainTokenOut est;
                      srcAmount = (case Option.bind srcToken amount of
                                     None \<Rightarrow> referenceAmount | Some a \<Rightarrow> a);
                      recommendedDest = coalesce (Option.bind dstToken recommendedAmount)
                                          (Option.bind dstToken amount);
                      maxDest = coalesce (Option.bind dstToken maxTheoreticalAmount) recommendedDest
                  in
                  (case recommendedDest of
                     None \<Rightarrow> (None, w')
                   | Some recommended \<Rightarrow>
                       if srcAmount = [] \<or> recommended = [] then (None, w')
                       else
                         (Some \<lparr>liquidity_route = route,
                                thresholds =
                                  [\<lparr>maxAmountIn = srcAmount, slippageBps = 50\<rparr>,
                                   \<lparr>maxAmountIn = maxSource env srcAmount recommended maxDest,
                                    slippageBps = 100\<rparr>],
                                liquidity_measuredAt = Date_now env w'\<rparr>, w')))))"

fun liquidity_loop ::
  "'w service_env \<Rightarrow> Route list \<Rightarrow> LiquidityDepth list \<Rightarrow> 'w \<Rightarrow> LiquidityDepth list \<times> 'w" where
  "liquidity_loop env [] liquidity w = (liquidity, w)"
| "liquidity_loop env (route # routes) liquidity w =
     (case liquidity_of_route env route w of
        (None, w') \<Rightarrow> liquidity_loop env routes liquidity w'
      | (Some entry, w') \<Rightarrow> liquidity_loop env routes (liquidity @ [entry]) w')"

definition getLiquidityDepth ::
  "'w service_env \<Rightarrow> Route list \<Rightarrow> 'w \<Rightarrow> LiquidityDepth list \<times> 'w" where
  "getLiquidityDepth env routes w = (if routes = [] then ([], w) else liquidity_loop env routes [] w)"

section \<open>Route intelligence (DataProviderService.getRouteIntelligence)\<close>

record ProbeQuote =
  amountUsd :: nat
  probe_rate :: jsnum
  failed :: bool

definition probeSizesUsd :: "nat list" where
  "probeSizesUsd = [1000, 5000, 10000, 50000, 100000, 500000, 1000000, 5000000]"

definition failed_probe :: "nat \<Rightarrow> ProbeQuote" where
  "failed_probe sizeUsd = \<lparr>amountUsd = sizeUsd, probe_rate = Num 0, failed = True\<rparr>"

text \<open>\<open>Number(x)\<close> of a string that may be undefined: \<open>Number(undefined)\<close> is \<open>NaN\<close>.\<close>

definition Number_of :: "'w service_env \<Rightarrow> string option \<Rightarrow> jsnum" where
  "Number_of env s = (case s of None \<Rightarrow> NaN | Some str \<Rightarrow> js_Number env str)"

text \<open>
  The probing loop over the sizes still to probe. A throw or a \<open>null\<close> of
  \<open>fetchQuoteWithRetry\<close>, a quote without estimation, or a \<open>TypeError\<close> on a missing token
  pushes a failed probe and breaks out of the loop; a success pushes the rate, pauses
  200 ms and goes on.
\<close>

fun probe_loop ::
  "'w service_env \<Rightarrow> Route \<Rightarrow> nat list \<Rightarrow> ProbeQuote list \<Rightarrow> 'w \<Rightarrow> ProbeQuote list \<times> 'w" where
  "probe_loop env route [] quotes w = (quotes, w)"
| "probe_loop env route (sizeUsd # sizes) quotes w =
     (let amountIn = probe_amount env sizeUsd (decimals (source route)) in
      case fetchQuoteWithRetry env (source route) (destination route) amountIn w of
        (Inl err, w') \<Rightarrow> (quotes @ [failed_probe sizeUsd], w')
      | (Inr None, w') \<Rightarrow> (quotes @ [failed_probe sizeUsd], w')
      | (Inr (Some quote), w') \<Rightarrow>
          (case estimation quote of
             None \<Rightarrow> (quotes @ [failed_probe sizeUsd], w')
           | Some est \<Rightarrow>
               (case dstChainTokenOut est of
                  None \<Rightarrow> (quotes @ [failed_probe sizeUsd], w')
                | Some dstToken \<Rightarrow>
                    (case srcChainTokenIn est of
                       None \<Rightarrow> (quotes @ [failed_probe sizeUsd], w')
                     | Some srcToken \<Rightarrow>
                         probe_loop env route sizes
                           (quotes @
                              [\<lparr>amountUsd = sizeUsd,
                                probe_rate = js_div (Number_of env (amount dstToken))
                                               (Number_of env (amount srcToken)),
                                failed = False\<rparr>])
                           (pause env 200 w')))))"

definition successfulQuotes :: "ProbeQuote list \<Rightarrow> ProbeQuote list" where
  "successfulQuotes quotes = filter (\<lambda>q. \<not> failed q) quotes"

definition maxCapacity :: "ProbeQuote list \<Rightarrow> nat option" where
  "maxCapacity quotes =
     (let successful = successfulQuotes quotes in
      if length successful > 0 then Some (amountUsd (last successful)) else None)"

text \<open>\<open>rates.reduce((a, b) => a + b, 0)\<close>, and \<open>Math.max(...rates)\<close> (\<open>-Infinity\<close> of no argument).\<close>

definition sum_rates :: "jsnum list \<Rightarrow> jsnum" where
  "sum_rates rs = foldl js_add (Num 0) rs"

definition Math_max_list :: "jsnum list \<Rightarrow> jsnum" where
  "Math_max_list rs = foldl Math_max NegInf rs"

definition feeEfficiency :: "ProbeQuote list \<Rightarrow> jsnum option" where
  "feeEfficiency quotes =
     (let successful = successfulQuotes quotes in
      if length successful \<ge> 2 then
        (let rs = map probe_rate successful;
             avgRate = js_div (sum_rates rs) (Num (real (length rs)));
             variance =
               js_div (foldl (\<lambda>sum r. js_add sum (js_mul (js_sub r avgRate) (js_sub r avgRate)))
                        (Num 0) rs)
                 (Num (real (length rs)));
             stdDev = Math_sqrt variance
         in Some (Math_max (Num 0)
                   (Math_min (Num 100)
                      (js_sub (Num 100) (js_mul (js_div stdDev avgRate) (Num 100))))))
      else None)"

definition optimalRange :: "ProbeQuote list \<Rightarrow> (nat \<times> nat) option" where
  "optimalRange quotes =
     (let successful = successfulQuotes quotes in
      if length successful \<ge> 2 then
        (let bestRate = Math_max_list (map probe_rate successful);
             optimalQuotes =
               filter (\<lambda>q. js_ge (probe_rate q) (js_mul bestRate (Num (99 / 100)))) successful
         in if length optimalQuotes > 0
            then Some (amountUsd (hd optimalQuotes), amountUsd (last optimalQuotes))
            else None)
      else None)"

definition priceImpact :: "ProbeQuote list \<Rightarrow> nat \<Rightarrow> jsnum option" where
  "priceImpact quotes sizeUsd =
     (let successful = successfulQuotes quotes in
      case find (\<lambda>q. amountUsd q = 1000) successful of
        None \<Rightarrow> None
      | Some baselineQuote \<Rightarrow>
          (case find (\<lambda>q. amountUsd q = sizeUsd) successful of
             None \<Rightarrow> None
           | Some quoteAt \<Rightarrow>
               Some (Math_round
                 (js_mul (js_sub (Num 1) (js_div (probe_rate quoteAt) (probe_rate baselineQuote)))
                    (Num 10000)))))"

text \<open>
  The analysis of one route. Nothing after the probing loop can throw, so the \<open>catch\<close>
  that pushes the all-null record is not reached from here.
\<close>

definition analyse_quotes :: "Route \<Rightarrow> int \<Rightarrow> ProbeQuote list \<Rightarrow> RouteIntelligence" where
  "analyse_quotes route now quotes =
     \<lparr>intelligence_route = route,
      maxCapacityUsd = maxCapacity quotes,
      optimalRangeUsd = optimalRange quotes,
      feeEfficiencyScore = feeEfficiency quotes,
      at1k = (case find (\<lambda>q. amountUsd q = 1000) (successfulQuotes quotes) of
                None \<Rightarrow> None | Some baselineQuote \<Rightarrow> Some (Num 0)),
      at10k = priceImpact quotes 10000,
      at100k = priceImpact quotes 100000,
      intelligence_measuredAt = now\<rparr>"

definition intelligence_of_route ::
  "'w service_env \<Rightarrow> int \<Rightarrow> Route \<Rightarrow> 'w \<Rightarrow> RouteIntelligence \<times> 'w" where
  "intelligence_of_route env now route w =
     (case probe_loop env route probeSizesUsd [] w of
        (quotes, w') \<Rightarrow> (analyse_quotes route now quotes, w'))"

fun intelligence_loop ::
  "'w service_env \<Rightarrow> int \<Rightarrow> Route list \<Rightarrow> RouteIntelligence list \<Rightarrow> 'w
     \<Rightarrow> RouteIntelligence list \<times> 'w" where
  "intelligence_loop env now [] intelligence w = (intelligence, w)"
| "intelligence_loop env now (route # routes) intelligence w =
     (case intelligence_of_route env now route w of
        (ri, w') \<Rightarrow> intelligence_loop env now routes (intelligence @ [ri]) w')"

definition getRouteIntelligence ::
  "'w service_env \<Rightarrow> Route list \<Rightarrow> 'w \<Rightarrow> RouteIntelligence list \<times> 'w" where
  "getRouteIntelligence env routes w = intelligence_loop env (Date_now env w) routes [] w"

section \<open>Properties of liquidity entries\<close>

text \<open>
  The upstream condition under which the 100 bps amount cannot fall below the 50 bps one:
  whenever the recommended and the maximum destination amounts of a quote both read as
  integers, the maximum is at least the recommended amount.
\<close>

definition max_ge_recommended :: "'w service_env \<Rightarrow> string \<Rightarrow> string option \<Rightarrow> bool" where
  "max_ge_recommended env recommended maxDest \<longleftrightarrow>
     (\<forall>md r m. maxDest = Some md \<and> js_BigInt env recommended = Some r \<and> js_BigInt env md = Some m
        \<longrightarrow> r \<le> m)"

definition quotes_max_ge_recommended :: "'w service_env \<Rightarrow> bool" where
  "quotes_max_ge_recommended env \<longleftrightarrow>
     (\<forall>src dst amountIn w quote w' est token recommended.
        fetchQuoteWithRetry env src dst amountIn w = (Inr (Some quote), w') \<and>
        estimation quote = Some est \<and> dstChainTokenOut est = Some token \<and>
        coalesce (recommendedAmount token) (amount token) = Some recommended
        \<longrightarrow> max_ge_recommended env recommended (maxTheoreticalAmount token))"

definition depth_points :: "LiquidityDepth \<Rightarrow> bool" where
  "depth_points entry \<longleftrightarrow>
     (\<exists>a b. thresholds entry = [\<lparr>maxAmountIn = a, slippageBps = 50\<rparr>, \<lparr>maxAmountIn = b, slippageBps = 100\<rparr>])"

definition depth_monotone :: "'w service_env \<Rightarrow> LiquidityDepth \<Rightarrow> bool" where
  "depth_monotone env entry \<longleftrightarrow>
     (\<forall>a b x. thresholds entry = [\<lparr>maxAmountIn = a, slippageBps = 50\<rparr>, \<lparr>maxAmountIn = b, slippageBps = 100\<rparr>] \<and>
        js_BigInt env a = Some x \<and> 0 \<le> x \<longrightarrow> b = a \<or> (\<exists>y. b = show_int y \<and> x \<le> y))"

section \<open>Properties of probes\<close>

text \<open>
  A probe succeeds when \<open>fetchQuoteWithRetry\<close> returns a quote with an estimation that has
  both tokens; every other outcome is a failed probe.
\<close>

definition probe_succeeds :: "'w service_env \<Rightarrow> Route \<Rightarrow> nat \<Rightarrow> 'w \<Rightarrow> bool" where
  "probe_succeeds env route sizeUsd w \<longleftrightarrow>
     (\<exists>quote w' est dstToken srcToken.
        fetchQuoteWithRetry env (source route) (destination route)
          (probe_amount env sizeUsd (decimals (source route))) w = (Inr (Some quote), w') \<and>
        estimation quote = Some est \<and> dstChainTokenOut est = Some dstToken \<and>
        srcChainTokenIn est = Some srcToken)"

section \<open>Rates (DataProviderService.getRates)\<close>

text \<open>
  The service is modelled sequentially: the state and the world are threaded through the
  calls in program order, and the request deduplicator, which only matters to calls in
  flight at the same time, passes the operation through.
\<close>

definition cacheKey :: "Route \<Rightarrow> string \<Rightarrow> string" where
  "cacheKey route notional =
     chainId (source route) @ ''-'' @ assetId (source route) @ ''-'' @
     chainId (destination route) @ ''-'' @ assetId (destination route) @ ''-'' @ notional"

text \<open>From a quote to the rate pushed, or the error thrown into the \<open>catch\<close> of the pair.\<close>

definition rate_of_quote :: "'w service_env \<Rightarrow> Route \<Rightarrow> int \<Rightarrow> Quote \<Rightarrow> string + Rate" where
  "rate_of_quote env route now quote =
     (case estimation quote of
        None \<Rightarrow> Inl ''Invalid quote response structure''
      | Some est \<Rightarrow>
          (case srcChainTokenIn est of
             None \<Rightarrow> Inl ''Cannot read properties of undefined (reading 'amount')''
           | Some srcToken \<Rightarrow>
               (case dstChainTokenOut est of
                  None \<Rightarrow> Inl ''Cannot read properties of undefined (reading 'recommendedAmount')''
                | Some dstToken \<Rightarrow>
                    (case (amount srcToken, coalesce (recommendedAmount dstToken) (amount dstToken)) of
                       (Some fromAmount, Some toAmount) \<Rightarrow>
                         if fromAmount = [] \<or> toAmount = []
                         then Inl ''Missing amount data in quote estimation''
                         else
                           let approximateInUsd =
                                 coalesce (approximateUsdValue srcToken)
                                   (originApproximateUsdValue srcToken);
                               approximateOutUsd =
                                 coalesce (recommendedApproximateUsdValue dstToken)
                                   (coalesce (approximateUsdValue dstToken)
                                      (maxTheoreticalApproximateUsdValue dstToken));
                               fees =
                                 (case (approximateInUsd, approximateOutUsd) of
                                    (Some inUsd, Some outUsd) \<Rightarrow>
                                      Some (Math_max (js_sub inUsd outUsd) (Num 0))
                                  | _ \<Rightarrow> None)
                           in
                           (case calculateEffectiveRate (new_Decimal env) fromAmount toAmount
                                   (decimals (source route)) (decimals (destination route)) of
                              Inl err \<Rightarrow> Inl err
                            | Inr rate \<Rightarrow>
                                Inr \<lparr>rate_source = source route,
                                     rate_destination = destination route,
                                     amountIn = fromAmount, amountOut = toAmount,
                                     effectiveRate = rate, totalFeesUsd = fees,
                                     quotedAt = now\<rparr>)
                     | _ \<Rightarrow> Inl ''Missing amount data in quote estimation''))))"

text \<open>
  The \<open>try\<close> block for one (route, notional) pair: the quote comes from the cache, or from
  \<open>fetchWithRetry\<close> through the circuit breaker, and is then cached.
\<close>

definition fetch_rate ::
  "'w service_env \<Rightarrow> Route \<Rightarrow> string \<Rightarrow> ServiceState \<times> 'w \<Rightarrow> (string + Rate) \<times> ServiceState \<times> 'w" where
  "fetch_rate env route notional sw =
     (case sw of (st, w) \<Rightarrow>
        (case TTLCache_get (Date_now env w) (cacheKey route notional) (quoteCache st) of
           (Some quote, qc) \<Rightarrow>
             (rate_of_quote env route (Date_now env w) quote, st\<lparr>quoteCache := qc\<rparr>, w)
         | (None, qc) \<Rightarrow>
             (case execute (Date_now env) (http_fetchWithRetry env route notional) (dlnCircuit st, w) of
                (Inl err, b, w') \<Rightarrow> (Inl err, st\<lparr>quoteCache := qc, dlnCircuit := b\<rparr>, w')
              | (Inr quote, b, w') \<Rightarrow>
                  (rate_of_quote env route (Date_now env w') quote,
                   st\<lparr>quoteCache := TTLCache_set (Date_now env w') (cacheKey route notional) quote qc,
                      dlnCircuit := b\<rparr>,
                   w'))))"

fun rates_of_notionals ::
  "'w service_env \<Rightarrow> Route \<Rightarrow> string list \<Rightarrow> Rate list \<Rightarrow> ServiceState \<times> 'w
     \<Rightarrow> Rate list \<times> ServiceState \<times> 'w" where
  "rates_of_notionals env route [] acc sw = (acc, sw)"
| "rates_of_notionals env route (notional # notionals) acc sw =
     (if notional = [] \<or> js_Number env notional = NaN
      then rates_of_notionals env route notionals acc sw
      else
        (case fetch_rate env route notional sw of
           (Inl err, sw') \<Rightarrow> rates_of_notionals env route notionals acc sw'
         | (Inr rate, sw') \<Rightarrow> rates_of_notionals env route notionals (acc @ [rate]) sw'))"

fun rates_of_routes ::
  "'w service_env \<Rightarrow> Route list \<Rightarrow> string list \<Rightarrow> Rate list \<Rightarrow> ServiceState \<times> 'w
     \<Rightarrow> Rate list \<times> ServiceState \<times> 'w" where
  "rates_of_routes env [] notionals acc sw = (acc, sw)"
| "rates_of_routes env (route # routes) notionals acc sw =
     (case rates_of_notionals env route notionals acc sw of
        (acc', sw') \<Rightarrow> rates_of_routes env routes notionals acc' sw')"

definition getRates ::
  "'w service_env \<Rightarrow> Route list \<Rightarrow> string list \<Rightarrow> ServiceState \<times> 'w
     \<Rightarrow> (string + Rate list) \<times> ServiceState \<times> 'w" where
  "getRates env routes notionals sw =
     (if routes = [] \<or> notionals = []
      then (Inl ''Routes and notionals are required for rate fetching'', sw)
      else (case rates_of_routes env routes notionals [] sw of (acc, sw') \<Rightarrow> (Inr acc, sw')))"

section \<open>Volumes (DataProviderService.getVolumes)\<close>

definition VOLUME_CACHE_TTL :: int where
  "VOLUME_CACHE_TTL = 10 * 60 * 1000"

definition fetch_and_cache_volumes ::
  "'w service_env \<Rightarrow> ServiceState \<times> 'w \<Rightarrow> DefiLlamaBridgeResponse option \<times> ServiceState \<times> 'w" where
  "fetch_and_cache_volumes env sw =
     (case sw of (st, w) \<Rightarrow>
        (case fetch_volumes env w of
           (Inl err, w') \<Rightarrow> (None, st, w')
         | (Inr response, w') \<Rightarrow>
             if \<not> raw_ok response
             then (None, st\<lparr>volumeCache := Some (None, Date_now env w')\<rparr>, w')
             else
               (case raw_json response of
                  Inl err \<Rightarrow> (None, st, w')
                | Inr None \<Rightarrow> (None, st\<lparr>volumeCache := Some (None, Date_now env w')\<rparr>, w')
                | Inr (Some data) \<Rightarrow>
                    (Some data, st\<lparr>volumeCache := Some (Some data, Date_now env w')\<rparr>, w'))))"

definition fetchDefiLlamaVolumes ::
  "'w service_env \<Rightarrow> ServiceState \<times> 'w \<Rightarrow> DefiLlamaBridgeResponse option \<times> ServiceState \<times> 'w" where
  "fetchDefiLlamaVolumes env sw =
     (case sw of (st, w) \<Rightarrow>
        (case volumeCache st of
           None \<Rightarrow> fetch_and_cache_volumes env sw
         | Some (data, fetchedAt) \<Rightarrow>
             if Date_now env w - fetchedAt < VOLUME_CACHE_TTL then (data, st, w)
             else fetch_and_cache_volumes env sw))"

definition volume_of_window :: "DefiLlamaBridgeResponse \<Rightarrow> window \<Rightarrow> jsnum" where
  "volume_of_window bridgeData win =
     (case win of
        W24h \<Rightarrow> lastDailyVolume bridgeData
      | W7d \<Rightarrow> weeklyVolume bridgeData
      | W30d \<Rightarrow> monthlyVolume bridgeData)"

definition getVolumes ::
  "'w service_env \<Rightarrow> window list \<Rightarrow> ServiceState \<times> 'w \<Rightarrow> VolumeWindow list \<times> ServiceState \<times> 'w" where
  "getVolumes env windows sw =
     (case fetchDefiLlamaVolumes env sw of
        (None, st, w) \<Rightarrow> ([], st, w)
      | (Some bridgeData, st, w) \<Rightarrow>
          (map (\<lambda>win. \<lparr>volume_window = win, volumeUsd = volume_of_window bridgeData win,
                       volume_measuredAt = Date_now env w\<rparr>) windows,
           st, w))"

section \<open>Listed assets (DataProviderService.getListedAssets)\<close>

definition TOKEN_LIST_TTL :: int where
  "TOKEN_LIST_TTL = 5 * 60 * 1000"

text \<open>The elements of \<open>new Set(xs)\<close> in iteration order: first occurrences.\<close>

definition Set_of :: "'a list \<Rightarrow> 'a list" where
  "Set_of xs = rev (remdups (rev xs))"

definition asset_key :: "'w service_env \<Rightarrow> string \<Rightarrow> string \<Rightarrow> string" where
  "asset_key env chainIdStr anAssetId = chainIdStr @ '':'' @ toLowerCase env anAssetId"

text \<open>The loop over the cached assets of a chain: those not seen yet are added.\<close>

fun add_cached ::
  "'w service_env \<Rightarrow> string \<Rightarrow> Asset list \<Rightarrow> Asset list \<times> string list \<Rightarrow> Asset list \<times> string list" where
  "add_cached env chainIdStr [] acc = acc"
| "add_cached env chainIdStr (token # tokens) (found, seen) =
     (let key = asset_key env chainIdStr (assetId token) in
      if key \<in> set seen then add_cached env chainIdStr tokens (found, seen)
      else add_cached env chainIdStr tokens (found @ [token], seen @ [key]))"

text \<open>
  The loop over the tokens of a fetched list: the assets of the chain (\<open>chainAssets\<close>), all
  the assets found so far, and the keys seen.
\<close>

fun add_fetched ::
  "'w service_env \<Rightarrow> string \<Rightarrow> DeBridgeTokenInfo list \<Rightarrow> Asset list \<times> Asset list \<times> string list
     \<Rightarrow> Asset list \<times> Asset list \<times> string list" where
  "add_fetched env chainIdStr [] acc = acc"
| "add_fetched env chainIdStr (token # tokens) (chainAssets, found, seen) =
     (case token_address token of
        None \<Rightarrow> add_fetched env chainIdStr tokens (chainAssets, found, seen)
      | Some address \<Rightarrow>
          if address = [] then add_fetched env chainIdStr tokens (chainAssets, found, seen)
          else
            let anAssetId = toLowerCase env address;
                key = chainIdStr @ '':'' @ anAssetId
            in
            if key \<in> set seen then add_fetched env chainIdStr tokens (chainAssets, found, seen)
            else
              let asset = \<lparr>chainId = chainIdStr, assetId = anAssetId,
                           symbol = (case token_symbol token of None \<Rightarrow> address | Some s \<Rightarrow> s),
                           decimals = token_decimals token\<rparr>
              in add_fetched env chainIdStr tokens
                   (chainAssets @ [asset], found @ [asset], seen @ [key]))"

fun assets_of_chains ::
  "'w service_env \<Rightarrow> string list \<Rightarrow> Asset list \<times> string list \<Rightarrow> ServiceState \<times> 'w
     \<Rightarrow> Asset list \<times> ServiceState \<times> 'w" where
  "assets_of_chains env [] acc sw = (fst acc, sw)"
| "assets_of_chains env (chainIdStr # chainIds) acc sw =
     (case sw of (st, w) \<Rightarrow>
        if chainIdStr = [] then assets_of_chains env chainIds acc sw
        else
          (case (case Map_get (tokenListCache st) chainIdStr of
                   None \<Rightarrow> None
                 | Some (cached, fetchedAt) \<Rightarrow>
                     if Date_now env w - fetchedAt < TOKEN_LIST_TTL then Some cached else None) of
             Some cached \<Rightarrow>
               assets_of_chains env chainIds (add_cached env chainIdStr cached acc) sw
           | None \<Rightarrow>
               (case fetch_token_list env chainIdStr w of
                  (Inl err, w') \<Rightarrow> assets_of_chains env chainIds acc (st, w')
                | (Inr response, w') \<Rightarrow>
                    if \<not> raw_ok response then assets_of_chains env chainIds acc (st, w')
                    else
                      (case raw_json response of
                         Inl err \<Rightarrow> assets_of_chains env chainIds acc (st, w')
                       | Inr None \<Rightarrow> assets_of_chains env chainIds acc (st, w')
                       | Inr (Some tokens) \<Rightarrow>
                           (case add_fetched env chainIdStr tokens ([], acc) of
                              (chainAssets, acc') \<Rightarrow>
                                assets_of_chains env chainIds acc'
                                  (st\<lparr>tokenListCache :=
                                        Map_set chainIdStr (chainAssets, Date_now env w')
                                          (tokenListCache st)\<rparr>, w'))))))"

definition getListedAssets ::
  "'w service_env \<Rightarrow> Route list \<Rightarrow> ServiceState \<times> 'w \<Rightarrow> ListedAssets \<times> ServiceState \<times> 'w" where
  "getListedAssets env routes sw =
     (let measuredAt = Date_now env (snd sw);
          chainIds = Set_of (concat (map (\<lambda>route. [chainId (source route), chainId (destination route)])
                                routes))
      in case assets_of_chains env chainIds ([], []) sw of
           (found, sw') \<Rightarrow> (\<lparr>listed_assets = found, listed_measuredAt = measuredAt\<rparr>, sw'))"

section \<open>The snapshot (DataProviderService.getSnapshot)\<close>

record SnapshotParams =
  param_routes :: "Route list"
  param_notionals :: "string list"
  includeWindows :: "window list option"
  includeIntelligence :: bool

text \<open>
  \<open>getSnapshot\<close>: the \<open>Effect\<close> fails (\<open>Inl\<close>) or succeeds with the snapshot. The four
  fetches of \<open>Promise.all\<close> run here one after the other, in the order they are started.
  An error thrown by one of them is wrapped twice, by the inner \<open>catch\<close> and by the
  \<open>catch\<close> of \<open>Effect.tryPromise\<close>.
\<close>

definition getSnapshot ::
  "'w service_env \<Rightarrow> SnapshotParams \<Rightarrow> ServiceState \<times> 'w
     \<Rightarrow> (string + ProviderSnapshot) \<times> ServiceState \<times> 'w" where
  "getSnapshot env params sw =
     (if param_routes params = [] \<or> param_notionals params = []
      then (Inl ''Routes and notionals are required'', sw)
      else
        (case getVolumes env (case includeWindows params of None \<Rightarrow> [W24h] | Some ws \<Rightarrow> ws) sw of
           (vols, sw1) \<Rightarrow>
             (case getRates env (param_routes params) (param_notionals params) sw1 of
                (Inl err, sw2) \<Rightarrow>
                  (Inl (''Failed to fetch snapshot: Snapshot fetch failed: '' @ err), sw2)
              | (Inr rs, st2, w2) \<Rightarrow>
                  (case getLiquidityDepth env (param_routes params) w2 of
                     (liq, w3) \<Rightarrow>
                       (case getListedAssets env (param_routes params) (st2, w3) of
                          (listed, st4, w4) \<Rightarrow>
                            if includeIntelligence params then
                              (case getRouteIntelligence env (param_routes params) w4 of
                                 (intel, w5) \<Rightarrow>
                                   (Inr \<lparr>snapshot_volumes = vols, snapshot_rates = rs,
                                         snapshot_liquidity = liq, snapshot_listedAssets = listed,
                                         snapshot_routeIntelligence = Some intel\<rparr>, st4, w5))
                            else
                              (Inr \<lparr>snapshot_volumes = vols, snapshot_rates = rs,
                                    snapshot_liquidity = liq, snapshot_listedAssets = listed,
                                    snapshot_routeIntelligence = None\<rparr>, st4, w4))))))"

section \<open>Example routes, quotes and environments\<close>

definition usdc_ethereum :: Asset where
  "usdc_ethereum =
     \<lparr>chainId = ''1'', assetId = ''0xa0b86991c6218b36c1d19d4a2e9eb0ce3606eb48'',
      symbol = ''USDC'', decimals = 6\<rparr>"

definition usdc_polygon :: Asset where
  "usdc_polygon =
     \<lparr>chainId = ''137'', assetId = ''0x3c499c542cef5e3811e1192ce70d8cc03d5c3359'',
      symbol = ''USDC'', decimals = 6\<rparr>"

definition usdc_route :: Route where
  "usdc_route = \<lparr>source = usdc_ethereum, destination = usdc_polygon\<rparr>"

text \<open>A quote with the source amount, the destination amount and the maximum given.\<close>

definition token_of :: "string \<Rightarrow> string option \<Rightarrow> Token" where
  "token_of a m =
     \<lparr>amount = Some a, recommendedAmount = None, maxTheoreticalAmount = m,
      approximateUsdValue = None, originApproximateUsdValue = None,
      recommendedApproximateUsdValue = None, maxTheoreticalApproximateUsdValue = None\<rparr>"

definition quote_of :: "string \<Rightarrow> string \<Rightarrow> string option \<Rightarrow> Quote" where
  "quote_of srcAmount dstAmount maxAmount =
     \<lparr>estimation = Some \<lparr>srcChainTokenIn = Some (token_of srcAmount None),
                          dstChainTokenOut = Some (token_of dstAmount maxAmount)\<rparr>\<rparr>"

text \<open>
  Modelled from the spec: \<open>Number(string)\<close> on the integer strings of the data model; any
  other string is read as \<open>NaN\<close> here.
\<close>

definition Number_of_integer_string :: "string \<Rightarrow> jsnum" where
  "Number_of_integer_string s =
     (case int_of_string s of None \<Rightarrow> NaN | Some i \<Rightarrow> Num (of_int i))"

text \<open>
  An endpoint that answers 429 with \<open>Retry-After: 5\<close>, then 503, then a JSON body. On the
  header's digits \<open>parseInt\<close> reads what \<open>Number\<close> reads.
\<close>

definition flaky_endpoint :: "nat http_env" where
  "flaky_endpoint =
     \<lparr>fetch = (\<lambda>k.
        if k = 0 then
          Responded \<lparr>status = 429, statusText = ''Too Many Requests'', retry_after = Some ''5'',
                     content_type = Some ''text/html'', json = Inl ''Unexpected token <''\<rparr>
        else if k = 1 then Responded (error_response 503 ''Service Unavailable'')
        else
          Responded \<lparr>status = 200, statusText = ''OK'', retry_after = None,
                     content_type = Some ''application/json; charset=utf-8'', json = Inr 7\<rparr>),
      Math_random = (\<lambda>k. 0), parseInt = Number_of_integer_string, URL_valid = (\<lambda>s. True)\<rparr>"

text \<open>
  An environment whose world is the time in milliseconds. Every call of
  \<open>HttpUtils.fetchWithRetry\<close> and every call of \<open>fetchQuoteWithRetry\<close> takes 100 ms and has
  the result given; the aggregator and the token list are unreachable.
\<close>

definition example_env :: "(string + Quote) \<Rightarrow> (string + Quote option) \<Rightarrow> int service_env" where
  "example_env http_result probe_result =
     \<lparr>Date_now = (\<lambda>w. w),
      http_fetchWithRetry = (\<lambda>route notional w. (http_result, w + 100)),
      fetchQuoteWithRetry = (\<lambda>src dst amountIn w. (probe_result, w + 100)),
      fetch_volumes = (\<lambda>w. (Inl ''fetch failed'', w + 100)),
      fetch_token_list = (\<lambda>chain w. (Inl ''fetch failed'', w + 100)),
      pause = (\<lambda>ms w. w + int ms),
      js_Number = Number_of_integer_string,
      js_BigInt = int_of_string,
      new_Decimal = Decimal_of_integer_string,
      toLowerCase = (\<lambda>s. s),
      probe_amount = (\<lambda>sizeUsd d. show_nat (sizeUsd * 10 ^ nat d))\<rparr>"

text \<open>What \<open>fetchWithRetry\<close> gives for a quote endpoint that always answers HTTP 500.\<close>

definition http_500_result :: "string + Quote" where
  "http_500_result =
     fst (fetchWithRetry (endpoint_always 500 ''Internal Server Error'') example_url 3 1000)"

definition http_500_env :: "int service_env" where
  "http_500_env = example_env http_500_result (Inr None)"

text \<open>
  Quotes for 1000 USDC (6 decimals): one whose maximum output is above its output, one
  whose maximum output is below it, and one whose output is zero.
\<close>

definition deep_quote_env :: "int service_env" where
  "deep_quote_env =
     example_env (Inl ''not used'')
       (Inr (Some (quote_of ''1000000000'' ''999000000'' (Some ''1000000000''))))"

definition shallow_quote_env :: "int service_env" where
  "shallow_quote_env =
     example_env (Inl ''not used'')
       (Inr (Some (quote_of ''1000000000'' ''999000000'' (Some ''500000000''))))"

definition zero_output_env :: "int service_env" where
  "zero_output_env =
     example_env (Inl ''not used'') (Inr (Some (quote_of ''1000000000'' ''0'' None)))"

text \<open>Eight successful probes, one per size, each with rate 0.\<close>

definition zero_rate_probes :: "ProbeQuote list" where
  "zero_rate_probes =
     map (\<lambda>sizeUsd. \<lparr>amountUsd = sizeUsd, probe_rate = Num 0, failed = False\<rparr>) probeSizesUsd"

definition example_params :: "Route list \<Rightarrow> string list \<Rightarrow> SnapshotParams" where
  "example_params routes notionals =
     \<lparr>param_routes = routes, param_notionals = notionals,
      includeWindows = Some [W24h, W7d], includeIntelligence = False\<rparr>"

section \<open>Facts about the map operations\<close>

lemma Map_get_set_same: "Map_get (Map_set k v m) k = Some v"
  by (induction m) auto

lemma Map_get_set_other: "k' \<noteq> k \<Longrightarrow> Map_get (Map_set k v m) k' = Map_get m k'"
  by (induction m) auto

lemma Map_get_delete_same: "Map_get (Map_delete k m) k = None"
  by (induction m) auto

lemma Map_get_delete_other: "k' \<noteq> k \<Longrightarrow> Map_get (Map_delete k m) k' = Map_get m k'"
  by (induction m) auto






section \<open>TTL cache: expiry\<close>

text \<open>
  C6 (as amended). A key written by \<open>set\<close> at time \<open>t\<close> expires at the absolute timestamp
  \<open>t + ttlMs\<close>. A following \<open>get\<close> at time \<open>now\<close> returns the stored value and leaves the
  cache as it is while \<open>now \<le> t + ttlMs\<close> (the expiry instant itself included: the test is
  \<open>now > expiresAt\<close>); once \<open>now > t + ttlMs\<close> it returns absent and deletes that entry, and
  only that entry, from the cache.
\<close>

theorem TTLCache_get_after_set:
  "(case TTLCache_get now key (TTLCache_set t key v c) of (r, c') \<Rightarrow>
      (now \<le> t + ttlMs c \<longrightarrow> r = Some v \<and> c' = TTLCache_set t key v c) \<and>
      (now > t + ttlMs c \<longrightarrow> r = None \<and> Map_get (cache c') key = None \<and>
         (\<forall>k'. k' \<noteq> key \<longrightarrow>
            Map_get (cache c') k' = Map_get (cache (TTLCache_set t key v c)) k')))"
  by (simp add: TTLCache_get_def TTLCache_set_def Let_def Map_get_set_same
      Map_get_delete_same Map_get_delete_other)

theorem TTLCache_get_after_set_witness:
  "TTLCache_get 50 ''k'' (TTLCache_set 0 ''k'' (7::nat) (TTLCache_new 100 1000))
     = (Some 7, TTLCache_set 0 ''k'' 7 (TTLCache_new 100 1000)) \<and>
   fst (TTLCache_get 101 ''k'' (TTLCache_set 0 ''k'' (7::nat) (TTLCache_new 100 1000))) = None \<and>
   Map_get (cache (snd (TTLCache_get 101 ''k''
      (TTLCache_set 0 ''k'' (7::nat) (TTLCache_new 100 1000))))) ''k'' = None"
  using TTLCache_get_after_set [where now = 50 and key = "''k''" and t = 0 and v = "7::nat"
          and c = "TTLCache_new 100 1000"]
        TTLCache_get_after_set [where now = 101 and key = "''k''" and t = 0 and v = "7::nat"
          and c = "TTLCache_new 100 1000"]
  by (simp add: TTLCache_new_def split: prod.splits)

text \<open>
  The claim as stated fails at the boundary: with \<open>ttlMs = 100\<close> and a write at time 0,
  a read at time 100 (when \<open>ttlMs\<close> has elapsed) still returns the value.
\<close>

theorem TTLCache_get_boundary_counterexample:
  "fst (TTLCache_get 100 ''k'' (TTLCache_set 0 ''k'' (7::nat) (TTLCache_new 100 1000))) = Some 7"
  by (simp add: TTLCache_get_def TTLCache_set_def TTLCache_new_def Map_keys_def)

section \<open>TTL cache: eviction\<close>











section \<open>Circuit breaker: runs of failures and successes\<close>

lemma execute_all_append:
  "execute_all clock (fs @ gs) bw =
     (case execute_all clock fs bw of (rs, bw') \<Rightarrow>
        (case execute_all clock gs bw' of (rs', bw'') \<Rightarrow> (rs @ rs', bw'')))"
  by (induction fs arbitrary: bw) (auto split: prod.splits)

lemma execute_failure:
  assumes "state b \<noteq> OPEN" "always_fails fn"
  shows "\<exists>e. execute clock fn (b, w) = (Inl e, onFailure (clock (snd (fn w))) b, snd (fn w))"
proof -
  obtain r w' where fw: "fn w = (r, w')" by (cases "fn w")
  with assms(2) obtain e where "r = Inl e" by (cases r) (auto simp: always_fails_def dest: spec[of _ w])
  with fw assms(1) show ?thesis by (simp add: execute_def)
qed

lemma execute_success:
  assumes "state b \<noteq> OPEN" "always_succeeds fn"
  shows "\<exists>r. execute clock fn (b, w) = (Inr r, onSuccess b, snd (fn w))"
proof -
  obtain r w' where fw: "fn w = (r, w')" by (cases "fn w")
  with assms(2) obtain x where "r = Inr x" by (cases r) (auto simp: always_succeeds_def dest: spec[of _ w])
  with fw assms(1) show ?thesis by (simp add: execute_def)
qed

lemma closed_failures_below:
  "state b = CLOSED \<Longrightarrow> \<forall>fn \<in> set fns. always_fails fn \<Longrightarrow>
   failureCount b + length fns < failureThreshold b \<Longrightarrow>
   (case execute_all clock fns (b, w) of (rs, b', w') \<Rightarrow>
      b' = b\<lparr>failureCount := failureCount b + length fns, successCount := (if fns = [] then successCount b else 0)\<rparr>)"
proof (induction fns arbitrary: b w)
  case Nil
  then show ?case by simp
next
  case (Cons fn fns)
  from Cons.prems obtain e where ex: "execute clock fn (b, w) = (Inl e, onFailure (clock (snd (fn w))) b, snd (fn w))"
    using execute_failure[of b fn clock w] by auto
  let ?b1 = "onFailure (clock (snd (fn w))) b"
  have b1: "?b1 = b\<lparr>failureCount := failureCount b + 1, successCount := 0\<rparr>"
    using Cons.prems by (simp add: onFailure_def Let_def)
  have "state ?b1 = CLOSED" "failureCount ?b1 + length fns < failureThreshold ?b1"
    using Cons.prems b1 by simp_all
  from Cons.IH[OF this(1) _ this(2), of "snd (fn w)"] Cons.prems(2)
  show ?case by (simp add: ex b1 split: prod.splits)
qed

lemma closed_failures_open:
  assumes "state b = CLOSED" "failureCount b = 0" "fns \<noteq> []" "length fns = failureThreshold b"
    "\<forall>fn \<in> set fns. always_fails fn"
  shows "case execute_all clock fns (b, w) of (rs, b', w') \<Rightarrow>
           state b' = OPEN \<and> nextAttemptTime b' = clock w' + cooldownMs b \<and>
           failureCount b' = failureThreshold b"
proof -
  obtain gs fn where fns: "fns = gs @ [fn]" using assms(3) by (cases fns rule: rev_cases) auto
  obtain rs b1 w1 where run: "execute_all clock gs (b, w) = (rs, b1, w1)" by (cases "execute_all clock gs (b, w)")
  have "failureCount b + length gs < failureThreshold b" using assms(2,4) fns by simp
  from closed_failures_below[OF assms(1) _ this, of clock w] assms(5) fns run
  have b1: "b1 = b\<lparr>failureCount := length gs, successCount := (if gs = [] then successCount b else 0)\<rparr>"
    using assms(2) by simp
  have "state b1 \<noteq> OPEN" "always_fails fn" using b1 assms(1,5) fns by auto
  from execute_failure[OF this, of clock w1]
  obtain e where ex: "execute clock fn (b1, w1) = (Inl e, onFailure (clock (snd (fn w1))) b1, snd (fn w1))" by auto
  have fin: "execute_all clock fns (b, w) = (rs @ [Inl e], onFailure (clock (snd (fn w1))) b1, snd (fn w1))"
    by (simp add: fns execute_all_append run ex)
  have "failureThreshold b = length gs + 1" using assms(4) fns by simp
  then show ?thesis
    by (simp add: fin) (simp add: b1 onFailure_def Let_def)
qed

lemma execute_open_fast_fail:
  "state b = OPEN \<Longrightarrow> clock w < nextAttemptTime b \<Longrightarrow> execute clock fn (b, w) = (Inl breaker_open_error, b, w)"
  by (simp add: execute_def)

lemma execute_closed_success:
  "state b = CLOSED \<Longrightarrow> \<not> isl (fst (fn w)) \<Longrightarrow>
     (case execute clock fn (b, w) of (r, b', w') \<Rightarrow> r = fst (fn w) \<and> w' = snd (fn w) \<and> b' = b\<lparr>failureCount := 0\<rparr>)"
  by (cases "fn w") (auto simp: execute_def onSuccess_def Let_def split: sum.splits)

lemma half_open_successes_below:
  "state b = HALF_OPEN \<Longrightarrow> \<forall>fn \<in> set fns. always_succeeds fn \<Longrightarrow>
   successCount b + length fns < successThreshold b \<Longrightarrow>
   (case execute_all clock fns (b, w) of (rs, b', w') \<Rightarrow>
      b' = b\<lparr>successCount := successCount b + length fns, failureCount := (if fns = [] then failureCount b else 0)\<rparr>)"
proof (induction fns arbitrary: b w)
  case Nil
  then show ?case by simp
next
  case (Cons fn fns)
  from Cons.prems obtain r where ex: "execute clock fn (b, w) = (Inr r, onSuccess b, snd (fn w))"
    using execute_success[of b fn clock w] by auto
  let ?b1 = "onSuccess b"
  have b1: "?b1 = b\<lparr>failureCount := 0, successCount := successCount b + 1\<rparr>"
    using Cons.prems by (simp add: onSuccess_def Let_def)
  have "state ?b1 = HALF_OPEN" "successCount ?b1 + length fns < successThreshold ?b1"
    using Cons.prems b1 by simp_all
  from Cons.IH[OF this(1) _ this(2), of "snd (fn w)"] Cons.prems(2)
  show ?case by (simp add: ex b1 split: prod.splits)
qed

lemma half_open_successes_close:
  assumes "state b = HALF_OPEN" "successCount b = 0" "fns \<noteq> []" "length fns = successThreshold b"
    "\<forall>fn \<in> set fns. always_succeeds fn"
  shows "case execute_all clock fns (b, w) of (rs, b', w') \<Rightarrow>
           state b' = CLOSED \<and> successCount b' = 0 \<and> failureCount b' = 0"
proof -
  obtain gs fn where fns: "fns = gs @ [fn]" using assms(3) by (cases fns rule: rev_cases) auto
  obtain rs b1 w1 where run: "execute_all clock gs (b, w) = (rs, b1, w1)" by (cases "execute_all clock gs (b, w)")
  have "successCount b + length gs < successThreshold b" using assms(2,4) fns by simp
  from half_open_successes_below[OF assms(1) _ this, of clock w] assms(5) fns run
  have b1: "b1 = b\<lparr>successCount := length gs, failureCount := (if gs = [] then failureCount b else 0)\<rparr>"
    using assms(2) by simp
  have "state b1 \<noteq> OPEN" "always_succeeds fn" using b1 assms(1,5) fns by auto
  from execute_success[OF this, of clock w1]
  obtain r where ex: "execute clock fn (b1, w1) = (Inr r, onSuccess b1, snd (fn w1))" by auto
  have fin: "execute_all clock fns (b, w) = (rs @ [Inr r], onSuccess b1, snd (fn w1))"
    by (simp add: fns execute_all_append run ex)
  have "successThreshold b = length gs + 1" using assms(4) fns by simp
  then show ?thesis using assms(1)
    by (simp add: fin) (simp add: b1 onSuccess_def Let_def)
qed

lemma execute_open_after_cooldown:
  "state b = OPEN \<Longrightarrow> clock w \<ge> nextAttemptTime b \<Longrightarrow>
     execute clock fn (b, w) =
       (case fn w of
          (Inr r, w') \<Rightarrow> (Inr r, onSuccess (b\<lparr>state := HALF_OPEN, successCount := 0\<rparr>), w')
        | (Inl e, w') \<Rightarrow> (Inl e, onFailure (clock w') (b\<lparr>state := HALF_OPEN, successCount := 0\<rparr>), w'))"
  by (simp add: execute_def Let_def)

lemma execute_half_open_failure:
  "state b = HALF_OPEN \<Longrightarrow> isl (fst (fn w)) \<Longrightarrow>
     (case execute clock fn (b, w) of (r, b', w') \<Rightarrow>
        r = fst (fn w) \<and> w' = snd (fn w) \<and> state b' = OPEN \<and> nextAttemptTime b' = clock w' + cooldownMs b \<and>
        successCount b' = 0 \<and> failureCount b' = failureCount b + 1)"
  by (cases "fn w") (auto simp: execute_def onFailure_def Let_def split: sum.splits)


text \<open>
  C3. A breaker that is CLOSED with no failure counted, after \<open>failureThreshold\<close> (at least one)
  consecutive failing calls, is OPEN with \<open>nextAttemptTime\<close> equal to the time of the last
  failure (when it opened) plus \<open>cooldownMs\<close>. Every \<open>execute\<close> on an OPEN breaker before
  \<open>nextAttemptTime\<close> returns the breaker-open error, whatever the operation, with the
  breaker and the world unchanged (the operation was not invoked). A success while CLOSED
  sets the failure counter to 0 and leaves the breaker CLOSED.
\<close>

theorem breaker_opens_and_fails_fast:
  "(state b = CLOSED \<and> failureCount b = 0 \<and> fns \<noteq> [] \<and> length fns = failureThreshold b \<and>
      (\<forall>fn \<in> set fns. always_fails fn) \<longrightarrow>
      (case execute_all clock fns (b, w) of (rs, b', w') \<Rightarrow>
         state b' = OPEN \<and> nextAttemptTime b' = clock w' + cooldownMs b \<and>
         failureCount b' = failureThreshold b)) \<and>
   (state b = OPEN \<and> clock w < nextAttemptTime b \<longrightarrow>
      execute clock fn (b, w) = (Inl breaker_open_error, b, w)) \<and>
   (state b = CLOSED \<and> \<not> isl (fst (fn w)) \<longrightarrow>
      (case execute clock fn (b, w) of (r, b', w') \<Rightarrow>
         r = fst (fn w) \<and> w' = snd (fn w) \<and> b' = b\<lparr>failureCount := 0\<rparr>))"
proof (intro conjI impI)
  assume h: "state b = CLOSED \<and> failureCount b = 0 \<and> fns \<noteq> [] \<and>
    length fns = failureThreshold b \<and> (\<forall>fn \<in> set fns. always_fails fn)"
  show "case execute_all clock fns (b, w) of (rs, b', w') \<Rightarrow>
         state b' = OPEN \<and> nextAttemptTime b' = clock w' + cooldownMs b \<and>
         failureCount b' = failureThreshold b"
    by (rule closed_failures_open) (use h in simp_all)
next
  assume "state b = OPEN \<and> clock w < nextAttemptTime b"
  then show "execute clock fn (b, w) = (Inl breaker_open_error, b, w)"
    by (simp add: execute_open_fast_fail)
next
  assume h: "state b = CLOSED \<and> \<not> isl (fst (fn w))"
  show "case execute clock fn (b, w) of (r, b', w') \<Rightarrow>
         r = fst (fn w) \<and> w' = snd (fn w) \<and> b' = b\<lparr>failureCount := 0\<rparr>"
    by (rule execute_closed_success) (use h in simp_all)
qed

theorem breaker_opens_and_fails_fast_witness:
  "execute_all wall_clock [failing_op, failing_op] (CircuitBreaker_new 2 60000 2, 0) =
     ([Inl ''HTTP 500'', Inl ''HTTP 500''],
      \<lparr>state = OPEN, failureCount = 2, successCount = 0, nextAttemptTime = 60020,
       failureThreshold = 2, cooldownMs = 60000, successThreshold = 2\<rparr>, 20) \<and>
   execute wall_clock succeeding_op
     (\<lparr>state = OPEN, failureCount = 2, successCount = 0, nextAttemptTime = 60020,
       failureThreshold = 2, cooldownMs = 60000, successThreshold = 2\<rparr>, 60019) =
     (Inl breaker_open_error,
      \<lparr>state = OPEN, failureCount = 2, successCount = 0, nextAttemptTime = 60020,
       failureThreshold = 2, cooldownMs = 60000, successThreshold = 2\<rparr>, 60019) \<and>
   execute wall_clock succeeding_op
     (\<lparr>state = CLOSED, failureCount = 1, successCount = 0, nextAttemptTime = 0,
       failureThreshold = 2, cooldownMs = 60000, successThreshold = 2\<rparr>, 5) =
     (Inr 42,
      \<lparr>state = CLOSED, failureCount = 0, successCount = 0, nextAttemptTime = 0,
       failureThreshold = 2, cooldownMs = 60000, successThreshold = 2\<rparr>, 15)"
  using breaker_opens_and_fails_fast [where b = "CircuitBreaker_new 2 60000 2"
          and fns = "[failing_op, failing_op]" and clock = wall_clock and w = 0]
    breaker_opens_and_fails_fast [where b = "\<lparr>state = OPEN, failureCount = 2, successCount = 0,
          nextAttemptTime = 60020, failureThreshold = 2, cooldownMs = 60000, successThreshold = 2\<rparr>"
          and clock = wall_clock and w = 60019 and fn = succeeding_op]
    breaker_opens_and_fails_fast [where b = "\<lparr>state = CLOSED, failureCount = 1, successCount = 0,
          nextAttemptTime = 0, failureThreshold = 2, cooldownMs = 60000, successThreshold = 2\<rparr>"
          and clock = wall_clock and w = 5 and fn = succeeding_op]
  by (simp add: CircuitBreaker_new_def always_fails_def failing_op_def succeeding_op_def
      wall_clock_def execute_def onFailure_def onSuccess_def Let_def)

lemma execute_not_open:
  "state b \<noteq> OPEN \<Longrightarrow>
     execute clock fn (b, w) =
       (fst (fn w),
        (if isl (fst (fn w)) then onFailure (clock (snd (fn w))) b else onSuccess b),
        snd (fn w))"
  by (cases "fn w") (auto simp: execute_def split: sum.splits)

lemma execute_after_cooldown:
  assumes "state b = OPEN" "nextAttemptTime b \<le> clock w"
  shows "case execute clock fn (b, w) of (r, b', w') \<Rightarrow>
           r = fst (fn w) \<and> w' = snd (fn w) \<and>
           (\<not> isl r \<longrightarrow>
              failureCount b' = 0 \<and>
              (if successThreshold b \<le> 1 then state b' = CLOSED \<and> successCount b' = 0
               else state b' = HALF_OPEN \<and> successCount b' = 1)) \<and>
           (isl r \<longrightarrow>
              state b' = OPEN \<and> nextAttemptTime b' = clock w' + cooldownMs b \<and>
              successCount b' = 0 \<and> failureCount b' = failureCount b + 1)"
  using assms
  by (cases "fn w") (auto simp: execute_def onSuccess_def onFailure_def Let_def split: sum.splits)

lemma half_open_lets_through:
  "state b = HALF_OPEN \<Longrightarrow>
     fst (execute clock fn (b, w)) = fst (fn w) \<and> snd (snd (execute clock fn (b, w))) = snd (fn w)"
  by (simp add: execute_not_open)

lemma half_open_undecided:
  "state b = HALF_OPEN \<Longrightarrow> \<forall>fn \<in> set fns. always_succeeds fn \<Longrightarrow>
   successCount b + length fns < successThreshold b \<Longrightarrow>
   execute_all clock fns (b, w) =
     (fst (run_ops fns w),
      b\<lparr>successCount := successCount b + length fns,
        failureCount := (if fns = [] then failureCount b else 0)\<rparr>,
      snd (run_ops fns w))"
proof (induction fns arbitrary: b w)
  case Nil
  then show ?case by simp
next
  case (Cons fn fns)
  have ok: "\<not> isl (fst (fn w))" using Cons.prems(2) by (simp add: always_succeeds_def)
  have ex: "execute clock fn (b, w) = (fst (fn w), onSuccess b, snd (fn w))"
    using Cons.prems(1) ok by (simp add: execute_not_open)
  let ?b1 = "onSuccess b"
  have b1: "?b1 = b\<lparr>failureCount := 0, successCount := successCount b + 1\<rparr>"
    using Cons.prems by (simp add: onSuccess_def Let_def)
  have "state ?b1 = HALF_OPEN" "successCount ?b1 + length fns < successThreshold ?b1"
    using Cons.prems b1 by simp_all
  from Cons.IH[OF this(1) _ this(2), of "snd (fn w)"] Cons.prems(2)
  show ?case by (simp add: ex b1 split: prod.splits)
qed

text \<open>
  C4 (as amended). An \<open>execute\<close> on an OPEN breaker at or after \<open>nextAttemptTime\<close> lets the
  call through (its result and its effect on the world are the operation's) with the
  success counter reset on the way to HALF_OPEN: after a success the failure counter is 0
  and the breaker is HALF_OPEN with success counter 1, or CLOSED at once when
  \<open>successThreshold\<close> is at most 1; after a failure it is OPEN again. In HALF_OPEN every
  call is let through, not one only: after fewer than \<open>successThreshold\<close> consecutive
  successes the breaker is still HALF_OPEN, with as many successes counted, and each of
  these operations was invoked. In HALF_OPEN (success counter 0), \<open>successThreshold\<close> (at
  least one) consecutive successes restore CLOSED with both counters 0. A single failure
  in HALF_OPEN re-opens the breaker, re-arms the cooldown (\<open>nextAttemptTime = now +
  cooldownMs\<close>, \<open>now\<close> read when the failure is handled) and resets the success counter; the
  failure counter is incremented, not reset.
\<close>

theorem breaker_half_open:
  "(state b = OPEN \<and> nextAttemptTime b \<le> clock w \<longrightarrow>
      (case execute clock fn (b, w) of (r, b', w') \<Rightarrow>
         r = fst (fn w) \<and> w' = snd (fn w) \<and>
         (\<not> isl r \<longrightarrow>
            failureCount b' = 0 \<and>
            (if successThreshold b \<le> 1 then state b' = CLOSED \<and> successCount b' = 0
             else state b' = HALF_OPEN \<and> successCount b' = 1)) \<and>
         (isl r \<longrightarrow>
            state b' = OPEN \<and> nextAttemptTime b' = clock w' + cooldownMs b \<and>
            successCount b' = 0 \<and> failureCount b' = failureCount b + 1))) \<and>
   (state b = HALF_OPEN \<longrightarrow>
      fst (execute clock fn (b, w)) = fst (fn w) \<and>
      snd (snd (execute clock fn (b, w))) = snd (fn w)) \<and>
   (state b = HALF_OPEN \<and> (\<forall>fn \<in> set fns. always_succeeds fn) \<and>
    successCount b + length fns < successThreshold b \<longrightarrow>
      execute_all clock fns (b, w) =
        (fst (run_ops fns w),
         b\<lparr>successCount := successCount b + length fns,
           failureCount := (if fns = [] then failureCount b else 0)\<rparr>,
         snd (run_ops fns w))) \<and>
   (state b = HALF_OPEN \<and> successCount b = 0 \<and> gns \<noteq> [] \<and> length gns = successThreshold b \<and>
      (\<forall>fn \<in> set gns. always_succeeds fn) \<longrightarrow>
      (case execute_all clock gns (b, w) of (rs, b', w') \<Rightarrow>
         state b' = CLOSED \<and> successCount b' = 0 \<and> failureCount b' = 0)) \<and>
   (state b = HALF_OPEN \<and> isl (fst (fn w)) \<longrightarrow>
      (case execute clock fn (b, w) of (r, b', w') \<Rightarrow>
         r = fst (fn w) \<and> w' = snd (fn w) \<and> state b' = OPEN \<and>
         nextAttemptTime b' = clock w' + cooldownMs b \<and>
         successCount b' = 0 \<and> failureCount b' = failureCount b + 1))"
proof (intro conjI impI)
  assume h: "state b = OPEN \<and> nextAttemptTime b \<le> clock w"
  show "case execute clock fn (b, w) of (r, b', w') \<Rightarrow>
         r = fst (fn w) \<and> w' = snd (fn w) \<and>
         (\<not> isl r \<longrightarrow>
            failureCount b' = 0 \<and>
            (if successThreshold b \<le> 1 then state b' = CLOSED \<and> successCount b' = 0
             else state b' = HALF_OPEN \<and> successCount b' = 1)) \<and>
         (isl r \<longrightarrow>
            state b' = OPEN \<and> nextAttemptTime b' = clock w' + cooldownMs b \<and>
            successCount b' = 0 \<and> failureCount b' = failureCount b + 1)"
    by (rule execute_after_cooldown) (use h in simp_all)
next
  assume "state b = HALF_OPEN"
  then show "fst (execute clock fn (b, w)) = fst (fn w)"
    by (simp add: half_open_lets_through)
next
  assume "state b = HALF_OPEN"
  then show "snd (snd (execute clock fn (b, w))) = snd (fn w)"
    by (simp add: half_open_lets_through)
next
  assume h: "state b = HALF_OPEN \<and> (\<forall>fn \<in> set fns. always_succeeds fn) \<and>
    successCount b + length fns < successThreshold b"
  show "execute_all clock fns (b, w) =
        (fst (run_ops fns w),
         b\<lparr>successCount := successCount b + length fns,
           failureCount := (if fns = [] then failureCount b else 0)\<rparr>,
         snd (run_ops fns w))"
    by (rule half_open_undecided) (use h in simp_all)
next
  assume h: "state b = HALF_OPEN \<and> successCount b = 0 \<and> gns \<noteq> [] \<and>
    length gns = successThreshold b \<and> (\<forall>fn \<in> set gns. always_succeeds fn)"
  show "case execute_all clock gns (b, w) of (rs, b', w') \<Rightarrow>
         state b' = CLOSED \<and> successCount b' = 0 \<and> failureCount b' = 0"
    by (rule half_open_successes_close) (use h in simp_all)
next
  assume h: "state b = HALF_OPEN \<and> isl (fst (fn w))"
  show "case execute clock fn (b, w) of (r, b', w') \<Rightarrow>
         r = fst (fn w) \<and> w' = snd (fn w) \<and> state b' = OPEN \<and>
         nextAttemptTime b' = clock w' + cooldownMs b \<and>
         successCount b' = 0 \<and> failureCount b' = failureCount b + 1"
    by (rule execute_half_open_failure) (use h in simp_all)
qed

theorem breaker_half_open_witness:
  "execute wall_clock succeeding_op (opened_breaker, 60020) =
     (Inr 42, opened_breaker\<lparr>state := HALF_OPEN, failureCount := 0, successCount := 1\<rparr>, 60030) \<and>
   execute_all wall_clock [succeeding_op] (opened_breaker\<lparr>state := HALF_OPEN\<rparr>, 60020) =
     ([Inr 42], opened_breaker\<lparr>state := HALF_OPEN, failureCount := 0, successCount := 1\<rparr>, 60030) \<and>
   execute_all wall_clock [succeeding_op, succeeding_op]
     (opened_breaker\<lparr>state := HALF_OPEN\<rparr>, 60020) =
     ([Inr 42, Inr 42], opened_breaker\<lparr>state := CLOSED, failureCount := 0\<rparr>, 60040) \<and>
   execute wall_clock failing_op (opened_breaker\<lparr>state := HALF_OPEN\<rparr>, 60020) =
     (Inl ''HTTP 500'', opened_breaker\<lparr>failureCount := 3, nextAttemptTime := 120030\<rparr>, 60030)"
  using breaker_half_open [where b = opened_breaker and clock = wall_clock and w = 60020
          and fn = succeeding_op]
    breaker_half_open [where b = "opened_breaker\<lparr>state := HALF_OPEN\<rparr>" and clock = wall_clock
          and w = 60020 and fns = "[succeeding_op]"
          and gns = "[succeeding_op, succeeding_op]" and fn = failing_op]
  by (simp add: opened_breaker_def always_succeeds_def failing_op_def succeeding_op_def
      wall_clock_def execute_def onFailure_def onSuccess_def Let_def)

text \<open>
  The claim as stated fails twice on the breaker of the examples (threshold of two
  successes), opened by two failures and tried again after the cooldown. On "exactly one
  call is allowed through before the breaker decides": the first call succeeds and leaves
  the breaker HALF_OPEN, neither closed nor re-opened, and a second call is let through;
  only its success closes the breaker. On "resets the counters": the failure counter is 2
  when the breaker is tried again, and a failure in HALF_OPEN makes it 3.
\<close>

theorem breaker_half_open_counterexample:
  "fst (snd (execute_all wall_clock [failing_op, failing_op] (CircuitBreaker_new 2 60000 2, 0)))
     = opened_breaker \<and>
   execute wall_clock succeeding_op (opened_breaker, 60020) =
     (Inr 42, opened_breaker\<lparr>state := HALF_OPEN, failureCount := 0, successCount := 1\<rparr>, 60030) \<and>
   execute wall_clock succeeding_op
     (opened_breaker\<lparr>state := HALF_OPEN, failureCount := 0, successCount := 1\<rparr>, 60030) =
     (Inr 42, opened_breaker\<lparr>state := CLOSED, failureCount := 0\<rparr>, 60040) \<and>
   state (fst (snd (execute wall_clock failing_op (opened_breaker, 60020)))) = OPEN \<and>
   failureCount (fst (snd (execute wall_clock failing_op (opened_breaker, 60020)))) = 3"
  by (simp add: opened_breaker_def CircuitBreaker_new_def failing_op_def succeeding_op_def
      wall_clock_def execute_def onFailure_def onSuccess_def Let_def)

section \<open>Retrying HTTP client\<close>

lemma show_nat_4: "show_nat 4 = ''4''"
  by (simp add: show_nat.simps digit_char_def)

lemma show_nat_404: "show_nat 404 = ''404''"
  by (simp add: show_nat.simps digit_char_def)

lemma show_nat_500: "show_nat 500 = ''500''"
  by (simp add: show_nat.simps digit_char_def)

lemma endpoint_always_random: "Math_random (endpoint_always code msg) k = 0"
  by (simp add: endpoint_always_def)

lemma endpoint_always_URL: "URL_valid (endpoint_always code msg) u"
  by (simp add: endpoint_always_def)

lemma endpoint_always_body:
  "code < 200 \<or> code > 299 \<Longrightarrow> code \<noteq> 429 \<Longrightarrow>
     attempt_body (endpoint_always code msg) m d k = Thrown (''HTTP '' @ show_nat code @ '': '' @ msg)"
  by (auto simp: attempt_body_def endpoint_always_def error_response_def ok_def)

lemma endpoint_responding_simps:
  "fetch (endpoint_responding r) k = Responded r"
  "Math_random (endpoint_responding r) k = 0"
  "URL_valid (endpoint_responding r) u"
  by (simp_all add: endpoint_responding_def)

lemma attempt_returns_iff:
  "attempt_body env m d k = Returned v \<longleftrightarrow>
     (\<exists>r contentType. fetch env k = Responded r \<and> ok r \<and> content_type r = Some contentType \<and>
        str_includes contentType ''application/json'' \<and> json r = Inr v)"
  by (auto simp: attempt_body_def split: fetch_result.splits option.splits if_splits sum.splits)

lemma attempt_last_not_continued: "attempt_body env m d m \<noteq> Continued dl"
  by (auto simp: attempt_body_def split: fetch_result.splits option.splits if_splits sum.splits)

lemma retry_delay_429:
  assumes "fetch env k = Responded r" "status r = 429" "k < m" "retry_after r = Some s" "s \<noteq> []"
  shows "retry_delay env m d k = js_mul (parseInt env s) (Num 1000)"
  using assms by (simp add: retry_delay_def attempt_body_def ok_def)

lemma retry_delay_backoff:
  assumes "\<forall>r s. \<not> (fetch env k = Responded r \<and> status r = 429 \<and> k < m \<and>
             retry_after r = Some s \<and> s \<noteq> [])"
  shows "retry_delay env m d k = calculateBackoffDelay (Math_random env k) k d"
  using assms
  by (auto simp: retry_delay_def attempt_body_def
      split: fetch_result.splits option.splits if_splits sum.splits attempt_result.splits)

lemma backoff_value:
  "0 \<le> d \<Longrightarrow> calculateBackoffDelay rnd k d =
     Num (min (d * 2 ^ min k 10 + rnd * (1 / 10) * (d * 2 ^ min k 10)) 30000)"
  by (simp add: calculateBackoffDelay_def Let_def)

text \<open>A failed attempt before the last one is followed by its sleep and by the next attempt.\<close>

lemma retry_loop_step:
  assumes "attempt_fails env m d k" "k < m"
  shows "\<exists>le'. retry_loop env m d k le tr =
           retry_loop env m d (k + 1) le' (tr @ [Attempt k, Sleep (retry_delay env m d k)])"
proof (cases "attempt_body env m d k")
  case (Returned v)
  with assms(1) show ?thesis by (simp add: attempt_fails_def)
next
  case (Continued dl)
  then have "retry_loop env m d k le tr =
      retry_loop env m d (k + 1) le (tr @ [Attempt k, Sleep (retry_delay env m d k)])"
    using assms(2) by (subst retry_loop.simps) (simp add: retry_delay_def)
  then show ?thesis by blast
next
  case (Thrown msg)
  then have "retry_loop env m d k le tr =
      retry_loop env m d (k + 1) (Some msg) (tr @ [Attempt k, Sleep (retry_delay env m d k)])"
    using assms(2) by (subst retry_loop.simps) (simp add: retry_delay_def)
  then show ?thesis by blast
qed

lemma retry_loop_skip:
  assumes "\<forall>j. a \<le> j \<and> j < k \<longrightarrow> attempt_fails env m d j" "a \<le> k" "k \<le> m"
  shows "\<exists>le'. retry_loop env m d a le tr = retry_loop env m d k le' (tr @ retries env m d a k)"
  using assms
proof (induction k)
  case 0
  then show ?case by (auto simp: retries_def)
next
  case (Suc k)
  show ?case
  proof (cases "a = Suc k")
    case True
    then show ?thesis by (auto simp: retries_def)
  next
    case False
    with Suc.prems have ak: "a \<le> k" and km: "k < m" by simp_all
    from Suc.prems(1) have "\<forall>j. a \<le> j \<and> j < k \<longrightarrow> attempt_fails env m d j" by simp
    from Suc.IH[OF this ak] km obtain le1 where
      1: "retry_loop env m d a le tr = retry_loop env m d k le1 (tr @ retries env m d a k)"
      by auto
    have "attempt_fails env m d k" using Suc.prems(1) ak by simp
    from retry_loop_step[OF this km, of le1 "tr @ retries env m d a k"] obtain le2 where
      2: "retry_loop env m d k le1 (tr @ retries env m d a k) =
          retry_loop env m d (k + 1) le2
            ((tr @ retries env m d a k) @ [Attempt k, Sleep (retry_delay env m d k)])"
      by blast
    have "retries env m d a (Suc k) = retries env m d a k @ [Attempt k, Sleep (retry_delay env m d k)]"
      using ak by (simp add: retries_def)
    with 1 2 show ?thesis by (intro exI[of _ le2]) simp
  qed
qed

lemma retry_loop_then_success:
  assumes "\<forall>j. j < k \<longrightarrow> attempt_fails env m d j" "k \<le> m" "attempt_body env m d k = Returned v"
  shows "retry_loop env m d 0 None [] = (Inr v, retries env m d 0 k @ [Attempt k])"
proof -
  from retry_loop_skip[of 0 k env m d None "[]"] assms obtain le' where
    "retry_loop env m d 0 None [] = retry_loop env m d k le' (retries env m d 0 k)"
    by auto
  moreover have "retry_loop env m d k le' (retries env m d 0 k) =
      (Inr v, retries env m d 0 k @ [Attempt k])"
    using assms(2,3) by (subst retry_loop.simps) simp
  ultimately show ?thesis by simp
qed

lemma retry_loop_exhausted:
  assumes "\<forall>j. j \<le> m \<longrightarrow> attempt_fails env m d j"
  shows "\<exists>msg. attempt_body env m d m = Thrown msg \<and>
     retry_loop env m d 0 None [] =
       (Inl (''Request failed after '' @ show_nat (m + 1) @ '' attempts: '' @ msg),
        retries env m d 0 m @ [Attempt m])"
proof -
  from retry_loop_skip[of 0 m env m d None "[]"] assms obtain le' where
    1: "retry_loop env m d 0 None [] = retry_loop env m d m le' (retries env m d 0 m)"
    by auto
  have "attempt_fails env m d m" using assms by simp
  with attempt_last_not_continued[of env m d] obtain msg where
    t: "attempt_body env m d m = Thrown msg"
    by (cases "attempt_body env m d m") (auto simp: attempt_fails_def)
  have "retry_loop env m d m le' (retries env m d 0 m) =
      retry_loop env m d (m + 1) (Some msg) (retries env m d 0 m @ [Attempt m])"
    using t by (subst retry_loop.simps) simp
  also have "\<dots> = (Inl (''Request failed after '' @ show_nat (m + 1) @ '' attempts: '' @ msg),
        retries env m d 0 m @ [Attempt m])"
    by (subst retry_loop.simps) simp
  finally show ?thesis using 1 t by auto
qed

lemma show_nat_503: "show_nat 503 = ''503''"
  by (simp add: show_nat.simps digit_char_def)

lemma flaky_simps:
  "fetch flaky_endpoint 0 =
     Responded \<lparr>status = 429, statusText = ''Too Many Requests'', retry_after = Some ''5'',
                content_type = Some ''text/html'', json = Inl ''Unexpected token <''\<rparr>"
  "fetch flaky_endpoint (Suc 0) = Responded (error_response 503 ''Service Unavailable'')"
  "fetch flaky_endpoint 2 =
     Responded \<lparr>status = 200, statusText = ''OK'', retry_after = None,
                content_type = Some ''application/json; charset=utf-8'', json = Inr 7\<rparr>"
  "Math_random flaky_endpoint k = 0"
  "parseInt flaky_endpoint ''5'' = Num 5"
  "URL_valid flaky_endpoint u"
  by (simp_all add: flaky_endpoint_def Number_of_integer_string_def int_of_string_def digit_val_def)

lemma flaky_bodies:
  "attempt_body flaky_endpoint 3 1000 0 = Continued (Num 5000)"
  "attempt_body flaky_endpoint 3 1000 (Suc 0) = Thrown ''HTTP 503: Service Unavailable''"
  "attempt_body flaky_endpoint 3 1000 2 = Returned 7"
  by (simp_all add: attempt_body_def flaky_simps ok_def error_response_def show_nat_503)

lemma flaky_fails: "j < 2 \<Longrightarrow> attempt_fails flaky_endpoint 3 1000 j"
  by (cases j rule: nat.exhaust; cases "j - 1")
     (auto simp: attempt_fails_def flaky_bodies)

lemma responding_bodies:
  "attempt_body (endpoint_responding html_response) m d k = Thrown ''Invalid response headers''"
  "attempt_body (endpoint_responding malformed_response) m d k =
     Thrown ''Unexpected end of JSON input''"
  by (simp_all add: attempt_body_def endpoint_responding_simps html_response_def
      malformed_response_def ok_def)

lemma always_500_fails: "attempt_fails (endpoint_always 500 ''Internal Server Error'') 3 1000 j"
  by (simp add: attempt_fails_def endpoint_always_body)

lemma always_500_retries:
  "retries (endpoint_always 500 ''Internal Server Error'') 3 1000 0 3 =
     [Attempt 0, Sleep (Num 1000), Attempt 1, Sleep (Num 2000), Attempt 2, Sleep (Num 4000)]"
  by (simp add: retries_def retry_delay_def endpoint_always_body upt_conv_Cons
      calculateBackoffDelay_def endpoint_always_random)

text \<open>
  C2 (as amended). In \<open>fetchWithRetry\<close> an attempt returns only on a 2xx response with a JSON
  content type and a body that parses; every other attempt fails, and there is no class of
  failures that ends the call: a non-2xx status other than 429 (a 4xx as well as a 5xx)
  throws \<open>HTTP status: text\<close> into the loop's \<open>catch\<close>, as a rejected \<open>fetch\<close>, a non-JSON
  content type and a malformed body do. Every failed attempt \<open>k < maxRetries\<close>, whatever
  comes after it, is followed by one sleep and by attempt \<open>k + 1\<close>. The sleep is
  \<open>parseInt(Retry-After) * 1000\<close> ms after a 429 with a non-empty \<open>Retry-After\<close> header, and
  the backoff delay \<open>min(baseDelay * 2^min(k, 10) * (1 + random / 10), 30000)\<close> ms after any
  other failure. Hence a call whose attempts \<open>0, ..., k - 1\<close> fail and whose attempt
  \<open>k \<le> maxRetries\<close> returns gives that value after these attempts and sleeps; and a call whose
  \<open>maxRetries + 1\<close> attempts all fail makes them all, sleeps \<open>maxRetries\<close> times, and fails
  with \<open>Request failed after (maxRetries + 1) attempts\<close> carrying the last attempt's message.
\<close>

theorem fetchWithRetry_retries_every_failure:
  "(attempt_body env m baseDelay k = Returned v \<longleftrightarrow>
      (\<exists>r contentType. fetch env k = Responded r \<and> ok r \<and> content_type r = Some contentType \<and>
         str_includes contentType ''application/json'' \<and> json r = Inr v)) \<and>
   (fetch env k = Responded r \<and> \<not> ok r \<and> status r \<noteq> 429 \<longrightarrow>
      attempt_body env m baseDelay k =
        Thrown (''HTTP '' @ show_nat (status r) @ '': '' @ statusText r)) \<and>
   (attempt_fails env m baseDelay k \<and> k < m \<longrightarrow>
      (\<exists>le'. retry_loop env m baseDelay k le tr =
         retry_loop env m baseDelay (k + 1) le'
           (tr @ [Attempt k, Sleep (retry_delay env m baseDelay k)]))) \<and>
   (fetch env k = Responded r \<and> status r = 429 \<and> k < m \<and> retry_after r = Some s \<and> s \<noteq> [] \<longrightarrow>
      retry_delay env m baseDelay k = js_mul (parseInt env s) (Num 1000)) \<and>
   ((\<forall>r s. \<not> (fetch env k = Responded r \<and> status r = 429 \<and> k < m \<and>
              retry_after r = Some s \<and> s \<noteq> [])) \<longrightarrow>
      retry_delay env m baseDelay k = calculateBackoffDelay (Math_random env k) k baseDelay) \<and>
   (0 \<le> baseDelay \<longrightarrow>
      calculateBackoffDelay rnd k baseDelay =
        Num (min (baseDelay * 2 ^ min k 10 + rnd * (1 / 10) * (baseDelay * 2 ^ min k 10)) 30000)) \<and>
   (url \<noteq> [] \<and> 0 \<le> maxRetries \<and> 0 \<le> baseDelay \<and> URL_valid env url \<and>
    (\<forall>j. j < n \<longrightarrow> attempt_fails env (nat maxRetries) baseDelay j) \<and> n \<le> nat maxRetries \<and>
    attempt_body env (nat maxRetries) baseDelay n = Returned v \<longrightarrow>
      fetchWithRetry env url maxRetries baseDelay =
        (Inr v, retries env (nat maxRetries) baseDelay 0 n @ [Attempt n])) \<and>
   (url \<noteq> [] \<and> 0 \<le> maxRetries \<and> 0 \<le> baseDelay \<and> URL_valid env url \<and>
    (\<forall>j. j \<le> nat maxRetries \<longrightarrow> attempt_fails env (nat maxRetries) baseDelay j) \<longrightarrow>
      (\<exists>msg.
         attempt_body env (nat maxRetries) baseDelay (nat maxRetries) = Thrown msg \<and>
         fetchWithRetry env url maxRetries baseDelay =
           (Inl (''Request failed after '' @ show_nat (nat maxRetries + 1) @ '' attempts: '' @ msg),
            retries env (nat maxRetries) baseDelay 0 (nat maxRetries) @
              [Attempt (nat maxRetries)])))"
proof (intro conjI impI)
  show "attempt_body env m baseDelay k = Returned v \<longleftrightarrow>
      (\<exists>r contentType. fetch env k = Responded r \<and> ok r \<and> content_type r = Some contentType \<and>
         str_includes contentType ''application/json'' \<and> json r = Inr v)"
    by (rule attempt_returns_iff)
next
  assume "fetch env k = Responded r \<and> \<not> ok r \<and> status r \<noteq> 429"
  then show "attempt_body env m baseDelay k =
      Thrown (''HTTP '' @ show_nat (status r) @ '': '' @ statusText r)"
    by (simp add: attempt_body_def)
next
  assume h: "attempt_fails env m baseDelay k \<and> k < m"
  show "\<exists>le'. retry_loop env m baseDelay k le tr =
         retry_loop env m baseDelay (k + 1) le'
           (tr @ [Attempt k, Sleep (retry_delay env m baseDelay k)])"
    by (rule retry_loop_step) (use h in simp_all)
next
  assume h: "fetch env k = Responded r \<and> status r = 429 \<and> k < m \<and> retry_after r = Some s \<and> s \<noteq> []"
  show "retry_delay env m baseDelay k = js_mul (parseInt env s) (Num 1000)"
    by (rule retry_delay_429 [of env k r m s]) (use h in simp_all)
next
  assume "\<forall>r s. \<not> (fetch env k = Responded r \<and> status r = 429 \<and> k < m \<and>
              retry_after r = Some s \<and> s \<noteq> [])"
  then show "retry_delay env m baseDelay k = calculateBackoffDelay (Math_random env k) k baseDelay"
    by (rule retry_delay_backoff)
next
  assume "0 \<le> baseDelay"
  then show "calculateBackoffDelay rnd k baseDelay =
        Num (min (baseDelay * 2 ^ min k 10 + rnd * (1 / 10) * (baseDelay * 2 ^ min k 10)) 30000)"
    by (rule backoff_value)
next
  assume h: "url \<noteq> [] \<and> 0 \<le> maxRetries \<and> 0 \<le> baseDelay \<and> URL_valid env url \<and>
    (\<forall>j. j < n \<longrightarrow> attempt_fails env (nat maxRetries) baseDelay j) \<and> n \<le> nat maxRetries \<and>
    attempt_body env (nat maxRetries) baseDelay n = Returned v"
  then have "retry_loop env (nat maxRetries) baseDelay 0 None [] =
      (Inr v, retries env (nat maxRetries) baseDelay 0 n @ [Attempt n])"
    by (intro retry_loop_then_success) simp_all
  with h show "fetchWithRetry env url maxRetries baseDelay =
        (Inr v, retries env (nat maxRetries) baseDelay 0 n @ [Attempt n])"
    by (simp add: fetchWithRetry_def)
next
  assume h: "url \<noteq> [] \<and> 0 \<le> maxRetries \<and> 0 \<le> baseDelay \<and> URL_valid env url \<and>
    (\<forall>j. j \<le> nat maxRetries \<longrightarrow> attempt_fails env (nat maxRetries) baseDelay j)"
  then have "\<forall>j. j \<le> nat maxRetries \<longrightarrow> attempt_fails env (nat maxRetries) baseDelay j"
    by simp
  from retry_loop_exhausted [OF this] obtain msg where
    "attempt_body env (nat maxRetries) baseDelay (nat maxRetries) = Thrown msg"
    "retry_loop env (nat maxRetries) baseDelay 0 None [] =
       (Inl (''Request failed after '' @ show_nat (nat maxRetries + 1) @ '' attempts: '' @ msg),
        retries env (nat maxRetries) baseDelay 0 (nat maxRetries) @ [Attempt (nat maxRetries)])"
    by blast
  with h show "\<exists>msg.
         attempt_body env (nat maxRetries) baseDelay (nat maxRetries) = Thrown msg \<and>
         fetchWithRetry env url maxRetries baseDelay =
           (Inl (''Request failed after '' @ show_nat (nat maxRetries + 1) @ '' attempts: '' @ msg),
            retries env (nat maxRetries) baseDelay 0 (nat maxRetries) @
              [Attempt (nat maxRetries)])"
    by (simp add: fetchWithRetry_def)
qed

theorem fetchWithRetry_retries_every_failure_witness:
  "attempt_body flaky_endpoint 3 1000 2 = Returned 7 \<and>
   attempt_body flaky_endpoint 3 1000 1 = Thrown ''HTTP 503: Service Unavailable'' \<and>
   (\<exists>le'. retry_loop flaky_endpoint 3 1000 0 None [] =
      retry_loop flaky_endpoint 3 1000 1 le' [Attempt 0, Sleep (Num 5000)]) \<and>
   retry_delay flaky_endpoint 3 1000 0 = Num 5000 \<and>
   retry_delay flaky_endpoint 3 1000 1 = Num 2000 \<and>
   calculateBackoffDelay 0 1 1000 = Num 2000 \<and>
   fetchWithRetry flaky_endpoint example_url 3 1000 =
     (Inr 7, [Attempt 0, Sleep (Num 5000), Attempt 1, Sleep (Num 2000), Attempt 2]) \<and>
   fetchWithRetry (endpoint_always 500 ''Internal Server Error'') example_url 3 1000 =
     (Inl ''Request failed after 4 attempts: HTTP 500: Internal Server Error'',
      [Attempt 0, Sleep (Num 1000), Attempt 1, Sleep (Num 2000), Attempt 2, Sleep (Num 4000),
       Attempt 3])"
proof -
  note C = fetchWithRetry_retries_every_failure
  let ?r = "\<lparr>status = 429, statusText = ''Too Many Requests'', retry_after = Some ''5'',
             content_type = Some ''text/html'', json = Inl ''Unexpected token <''\<rparr> :: nat Response"
  have 1: "attempt_body flaky_endpoint 3 1000 2 = Returned 7"
    using C [where env = flaky_endpoint and m = 3 and baseDelay = 1000 and k = 2 and v = 7,
        THEN conjunct1]
    by (simp add: flaky_simps ok_def)
  have 2: "attempt_body flaky_endpoint 3 1000 1 = Thrown ''HTTP 503: Service Unavailable''"
    using C [where env = flaky_endpoint and m = 3 and baseDelay = 1000 and k = 1
        and r = "error_response 503 ''Service Unavailable''", THEN conjunct2, THEN conjunct1]
    by (simp add: flaky_simps ok_def error_response_def show_nat_503)
  have 4: "retry_delay flaky_endpoint 3 1000 0 = Num 5000"
    using C [where env = flaky_endpoint and m = 3 and baseDelay = 1000 and k = 0
        and r = ?r and s = "''5''",
        THEN conjunct2, THEN conjunct2, THEN conjunct2, THEN conjunct1]
    by (simp add: flaky_simps)
  have 3: "\<exists>le'. retry_loop flaky_endpoint 3 1000 0 None [] =
      retry_loop flaky_endpoint 3 1000 1 le' [Attempt 0, Sleep (Num 5000)]"
    using C [where env = flaky_endpoint and m = 3 and baseDelay = 1000 and k = 0
        and le = None and tr = "[]", THEN conjunct2, THEN conjunct2, THEN conjunct1]
    by (simp add: flaky_fails 4)
  have 6: "calculateBackoffDelay 0 1 1000 = Num 2000"
    using C [where baseDelay = 1000 and k = 1 and rnd = 0,
        THEN conjunct2, THEN conjunct2, THEN conjunct2, THEN conjunct2, THEN conjunct2,
        THEN conjunct1]
    by simp
  have 5: "retry_delay flaky_endpoint 3 1000 1 = Num 2000"
    using C [where env = flaky_endpoint and m = 3 and baseDelay = 1000 and k = 1,
        THEN conjunct2, THEN conjunct2, THEN conjunct2, THEN conjunct2, THEN conjunct1] 6
    by (simp add: flaky_simps error_response_def)
  have 7: "fetchWithRetry flaky_endpoint example_url 3 1000 =
     (Inr 7, [Attempt 0, Sleep (Num 5000), Attempt 1, Sleep (Num 2000), Attempt 2])"
    using C [where env = flaky_endpoint and baseDelay = 1000 and url = example_url
        and maxRetries = 3 and n = 2 and v = 7,
        THEN conjunct2, THEN conjunct2, THEN conjunct2, THEN conjunct2, THEN conjunct2,
        THEN conjunct2, THEN conjunct1] 1 4 5
    by (simp add: flaky_simps flaky_fails example_url_def retries_def upt_conv_Cons)
  have 8: "fetchWithRetry (endpoint_always 500 ''Internal Server Error'') example_url 3 1000 =
     (Inl ''Request failed after 4 attempts: HTTP 500: Internal Server Error'',
      [Attempt 0, Sleep (Num 1000), Attempt 1, Sleep (Num 2000), Attempt 2, Sleep (Num 4000),
       Attempt 3])"
    using C [where env = "endpoint_always 500 ''Internal Server Error''" and baseDelay = 1000
        and url = example_url and maxRetries = 3,
        THEN conjunct2, THEN conjunct2, THEN conjunct2, THEN conjunct2, THEN conjunct2,
        THEN conjunct2, THEN conjunct2]
    by (simp add: always_500_fails always_500_retries endpoint_always_URL endpoint_always_body
        example_url_def show_nat_4 show_nat_500)
  from 1 2 3 4 5 6 7 8 show ?thesis by simp
qed

text \<open>
  The claim as stated fails on each of its three classes of non-retryable responses, with
  \<open>maxRetries = 3\<close>: an endpoint that always answers 404 (a 4xx other than 429), one that
  always answers 200 with an HTML content type, and one that always answers 200 with a
  JSON content type and a body that does not parse are each tried four times with three
  backoff sleeps; the call does not fail at the first attempt.
\<close>

theorem fetchWithRetry_404_counterexample:
  "fetchWithRetry (endpoint_always 404 ''Not Found'') example_url 3 1000 =
     (Inl ''Request failed after 4 attempts: HTTP 404: Not Found'',
      [Attempt 0, Sleep (Num 1000), Attempt 1, Sleep (Num 2000), Attempt 2, Sleep (Num 4000),
       Attempt 3]) \<and>
   fetchWithRetry (endpoint_responding html_response :: nat http_env) example_url 3 1000 =
     (Inl ''Request failed after 4 attempts: Invalid response headers'',
      [Attempt 0, Sleep (Num 1000), Attempt 1, Sleep (Num 2000), Attempt 2, Sleep (Num 4000),
       Attempt 3]) \<and>
   fetchWithRetry (endpoint_responding malformed_response :: nat http_env) example_url 3 1000 =
     (Inl ''Request failed after 4 attempts: Unexpected end of JSON input'',
      [Attempt 0, Sleep (Num 1000), Attempt 1, Sleep (Num 2000), Attempt 2, Sleep (Num 4000),
       Attempt 3])"
  by (simp add: fetchWithRetry_def retry_loop.simps endpoint_always_body show_nat_4
      show_nat_404 calculateBackoffDelay_def endpoint_always_random endpoint_always_URL
      example_url_def responding_bodies endpoint_responding_simps)

section \<open>Decimal arithmetic\<close>

lemma floor_rat_numeral:
  "\<lfloor>numeral a / numeral b :: rat\<rfloor> = numeral a div numeral b"
  "\<lfloor>- (numeral a / numeral b) :: rat\<rfloor> = - numeral a div numeral b"
  "\<lceil>numeral a / numeral b :: rat\<rceil> = - (- numeral a div numeral b)"
  "\<lceil>- (numeral a / numeral b) :: rat\<rceil> = - (numeral a div numeral b)"
proof -
  show 1: "\<lfloor>numeral a / numeral b :: rat\<rfloor> = numeral a div numeral b"
    by (metis floor_divide_of_int_eq of_int_numeral)
  show 2: "\<lfloor>- (numeral a / numeral b) :: rat\<rfloor> = - numeral a div numeral b"
    by (metis divide_minus_left floor_divide_of_int_eq of_int_neg_numeral of_int_numeral)
  show "\<lceil>numeral a / numeral b :: rat\<rceil> = - (- numeral a div numeral b)"
    unfolding ceiling_def by (simp only: 2)
  show "\<lceil>- (numeral a / numeral b) :: rat\<rceil> = - (numeral a div numeral b)"
    unfolding ceiling_def by (simp only: minus_minus 1)
qed

lemmas decimal_eval =
  ilog_def compute_floorlog floor_rat_numeral round_half_up_def round_half_even_def
  power_int_minus of_rat_divide Let_def

lemma ilog_lower:
  assumes "0 < a" "1 < b"
  shows "of_nat b powi (ilog b a) \<le> a"
proof (cases "1 \<le> a")
  case True
  let ?n = "nat \<lfloor>a\<rfloor>"
  have n: "0 < ?n" using True by simp
  from floorlog_bounds[OF n assms(2)] have "b ^ (floorlog b ?n - 1) \<le> ?n" by simp
  then have "(of_nat (b ^ (floorlog b ?n - 1)) :: rat) \<le> of_nat ?n" by (simp only: of_nat_le_iff)
  also have "\<dots> \<le> a" using True by (simp add: of_nat_nat)
  finally have le: "(of_nat b :: rat) ^ (floorlog b ?n - 1) \<le> a" by simp
  have pos: "0 < floorlog b ?n" using n assms(2) by (simp add: floorlog_def)
  have "ilog b a = int (floorlog b ?n - 1)" using True pos by (simp add: ilog_def)
  then show ?thesis using le by (simp add: power_int_def)
next
  case False
  let ?N = "nat \<lceil>1 / a\<rceil>"
  let ?k = "floorlog b (?N - 1)"
  have "1 < 1 / a" using False assms(1) by (simp add: field_simps)
  then have c: "2 \<le> \<lceil>1 / a\<rceil>" by linarith
  then have m: "0 < ?N - 1" by simp
  from floorlog_bounds[OF m assms(2)] have "?N - 1 < b ^ ?k" by simp
  then have "?N \<le> b ^ ?k" by simp
  then have "(of_nat ?N :: rat) \<le> of_nat (b ^ ?k)" by (simp only: of_nat_le_iff)
  then have up: "(of_nat ?N :: rat) \<le> of_nat b ^ ?k" by (simp only: of_nat_power)
  have "1 / a \<le> of_nat ?N" using c by (simp add: of_nat_nat le_of_int_ceiling)
  from this up have "1 / a \<le> (of_nat b :: rat) ^ ?k" by (rule order_trans)
  moreover have bp: "0 < (of_nat b :: rat) ^ ?k" using assms(2) by simp
  ultimately have "1 / (of_nat b :: rat) ^ ?k \<le> a" using assms(1) by (simp add: field_simps)
  moreover have "ilog b a = - int ?k" using False by (simp add: ilog_def)
  ultimately show ?thesis by (simp add: power_int_minus inverse_eq_divide)
qed

lemma round_half_up_ge:
  "1 \<le> x \<Longrightarrow> 1 \<le> round_half_up x"
  by (simp add: round_half_up_def)

lemma round_half_up_le:
  "x \<le> - 1 \<Longrightarrow> round_half_up x \<le> - 1"
  by (simp add: round_half_up_def)

lemma round_sig_nonzero:
  assumes "x \<noteq> 0" "1 \<le> sd"
  shows "round_sig sd x \<noteq> 0"
proof -
  let ?e = "ilog 10 \<bar>x\<bar>"
  let ?q = "(10::rat) powi (?e - (int sd - 1))"
  have qpos: "0 < ?q" by (simp add: zero_less_power_int)
  have "(of_nat 10 :: rat) powi ?e \<le> \<bar>x\<bar>" by (rule ilog_lower) (use assms in simp_all)
  then have low: "(10 :: rat) powi ?e \<le> \<bar>x\<bar>" by simp
  have "?q \<le> (10::rat) powi ?e" using assms(2) by (intro power_int_increasing) simp_all
  with low have "?q \<le> \<bar>x\<bar>" by simp
  then have "1 \<le> \<bar>x\<bar> / ?q" using qpos by (simp add: field_simps)
  then have "1 \<le> \<bar>x / ?q\<bar>" using qpos by (simp add: abs_divide)
  then have "x / ?q \<le> - 1 \<or> 1 \<le> x / ?q" by linarith
  then have "round_half_up (x / ?q) \<noteq> 0"
    using round_half_up_ge[of "x / ?q"] round_half_up_le[of "x / ?q"] by auto
  then show ?thesis using assms(1) qpos by (simp add: round_sig_def Let_def)
qed

lemma finalise_in_range:
  "in_exponent_range (round_sig precision x) \<Longrightarrow> finalise x = Dec (round_sig precision x)"
  by (auto simp: finalise_def in_exponent_range_def Let_def)

lemma finalise_zero [simp]: "finalise 0 = Dec 0"
  by (simp add: finalise_def round_sig_def)

lemma int_of_string_examples:
  "int_of_string ''-1000000'' = Some (-1000000)"
  "int_of_string ''1000000'' = Some 1000000"
  "int_of_string ''99500000'' = Some 99500000"
  "int_of_string ''0'' = Some 0"
  "int_of_string ''1'' = Some 1"
  "int_of_string ''3'' = Some 3"
  "int_of_string ''abc'' = None"
  by (simp_all add: int_of_string_def digit_val_def)

lemma pow10_nonzero: "pow10 n \<noteq> Dec 0"
  by (simp add: pow10_def)

lemma dec_div_pow10:
  "dec_div (Dec x) (pow10 n) = (if n \<le> maxE then finalise (x / 10 ^ nat n) else Dec 0)"
  by (simp add: pow10_def)

lemma zero_normalizes_to_zero: "isZero (dec_div (Dec 0) (pow10 n))"
  by (simp add: dec_div_pow10 isZero_def)

lemma normalized_nonzero:
  assumes "x \<noteq> 0" "n \<le> maxE" "in_exponent_range (round_sig precision (x / 10 ^ nat n))"
  shows "dec_div (Dec x) (pow10 n) = Dec (round_sig precision (x / 10 ^ nat n))"
    and "round_sig precision (x / 10 ^ nat n) \<noteq> 0"
    and "\<not> isZero (dec_div (Dec x) (pow10 n))"
proof -
  show 1: "dec_div (Dec x) (pow10 n) = Dec (round_sig precision (x / 10 ^ nat n))"
    using assms(2,3) by (simp add: dec_div_pow10 finalise_in_range)
  have "x / 10 ^ nat n \<noteq> 0" using assms(1) by simp
  then show 2: "round_sig precision (x / 10 ^ nat n) \<noteq> 0"
    by (rule round_sig_nonzero) (simp add: precision_def)
  show "\<not> isZero (dec_div (Dec x) (pow10 n))" using 1 2 by (simp add: isZero_def)
qed

lemma effective_rate_value:
  assumes "fromAmount \<noteq> []" "toAmount \<noteq> []" "0 \<le> fromDecimals" "0 \<le> toDecimals"
    "Decimal fromAmount = Inr f" "Decimal toAmount = Inr t"
    "\<not> isZero (dec_div f (pow10 fromDecimals))"
  shows "calculateEffectiveRate Decimal fromAmount toAmount fromDecimals toDecimals =
        Inr (toNumber (dec_div (dec_div t (pow10 toDecimals)) (dec_div f (pow10 fromDecimals))))"
  using assms by (simp add: calculateEffectiveRate_def Let_def)

lemma effective_rate_zero:
  assumes "fromAmount \<noteq> []" "toAmount \<noteq> []" "0 \<le> fromDecimals" "0 \<le> toDecimals"
    "Decimal fromAmount = Inr f" "Decimal toAmount = Inr t"
    "isZero (dec_div f (pow10 fromDecimals))"
  shows "calculateEffectiveRate Decimal fromAmount toAmount fromDecimals toDecimals =
        Inl ''Decimal calculation failed: From amount cannot be zero''"
  using assms by (simp add: calculateEffectiveRate_def Let_def)

lemma effective_rate_invalid:
  assumes "fromAmount = [] \<or> toAmount = [] \<or> fromDecimals < 0 \<or> toDecimals < 0"
  shows "calculateEffectiveRate Decimal fromAmount toAmount fromDecimals toDecimals =
        Inl ''Invalid input parameters for rate calculation''"
  using assms by (auto simp add: calculateEffectiveRate_def)

lemma effective_rate_malformed:
  assumes "fromAmount \<noteq> []" "toAmount \<noteq> []" "0 \<le> fromDecimals" "0 \<le> toDecimals"
    "Decimal fromAmount = Inl msg \<or> (Decimal fromAmount = Inr f \<and> Decimal toAmount = Inl msg)"
  shows "calculateEffectiveRate Decimal fromAmount toAmount fromDecimals toDecimals =
        Inl (''Decimal calculation failed: '' @ msg)"
  using assms by (auto simp add: calculateEffectiveRate_def Let_def)

lemma effective_rate_finite:
  assumes "fromAmount \<noteq> []" "toAmount \<noteq> []"
    "0 \<le> fromDecimals" "fromDecimals \<le> maxE" "0 \<le> toDecimals" "toDecimals \<le> maxE"
    "Decimal fromAmount = Inr (Dec x)" "Decimal toAmount = Inr (Dec y)" "x \<noteq> 0"
    "fromDecimal = round_sig precision (x / 10 ^ nat fromDecimals)"
    "toDecimal = round_sig precision (y / 10 ^ nat toDecimals)"
    "in_exponent_range fromDecimal" "in_exponent_range toDecimal"
    "in_exponent_range (round_sig precision (toDecimal / fromDecimal))"
  shows "calculateEffectiveRate Decimal fromAmount toAmount fromDecimals toDecimals =
        Inr (to_double (round_sig precision (toDecimal / fromDecimal)))"
proof -
  have f: "dec_div (Dec x) (pow10 fromDecimals) = Dec fromDecimal" "fromDecimal \<noteq> 0"
    "\<not> isZero (dec_div (Dec x) (pow10 fromDecimals))"
    using normalized_nonzero[of x fromDecimals] assms by simp_all
  have t: "dec_div (Dec y) (pow10 toDecimals) = Dec toDecimal"
    using assms by (simp add: dec_div_pow10 finalise_in_range)
  have "calculateEffectiveRate Decimal fromAmount toAmount fromDecimals toDecimals =
      Inr (toNumber (dec_div (dec_div (Dec y) (pow10 toDecimals))
                       (dec_div (Dec x) (pow10 fromDecimals))))"
    by (rule effective_rate_value) (use assms f in simp_all)
  also have "dec_div (dec_div (Dec y) (pow10 toDecimals)) (dec_div (Dec x) (pow10 fromDecimals)) =
      Dec (round_sig precision (toDecimal / fromDecimal))"
    using f(2) assms by (simp only: f(1) t dec_div.simps if_False finalise_in_range)
  finally show ?thesis by simp
qed

lemma slippage_zero: "isZero e \<Longrightarrow> calculateSlippageBps e a = Num 0"
  by (simp add: calculateSlippageBps_def)

lemma slippage_finite:
  assumes "x \<noteq> 0"
    "delta = round_sig precision (x - y)"
    "ratio = round_sig precision (delta / x)"
    "bps = round_sig precision (ratio * 10000)"
    "in_exponent_range delta" "in_exponent_range ratio" "in_exponent_range bps"
  shows "calculateSlippageBps (Dec x) (Dec y) = to_double \<bar>bps\<bar>"
proof -
  have 1: "finalise (x - y) = Dec delta"
    using assms by (simp add: finalise_in_range)
  have 2: "finalise (delta / x) = Dec ratio"
    using assms by (simp add: finalise_in_range)
  have 3: "finalise (ratio * 10000) = Dec bps"
    using assms by (simp add: finalise_in_range)
  show ?thesis
    using assms(1) by (simp add: calculateSlippageBps_def isZero_def Let_def 1 2 3)
qed

lemma abs_bps: "0 < x \<Longrightarrow> \<bar>(x - y) / x * 10000\<bar> = \<bar>x - y\<bar> / x * (10000::rat)"
proof -
  assume x: "0 < x"
  have "\<bar>(x - y) / x * 10000\<bar> = \<bar>(x - y) / x\<bar> * \<bar>10000\<bar>" by (rule abs_mult)
  also have "\<bar>(x - y) / x\<bar> = \<bar>x - y\<bar> / \<bar>x\<bar>" by (rule abs_divide)
  finally show ?thesis using x by simp
qed

lemma slippage_exact:
  assumes "0 < x"
    "round_sig precision (x - y) = x - y"
    "round_sig precision ((x - y) / x) = (x - y) / x"
    "round_sig precision ((x - y) / x * 10000) = (x - y) / x * 10000"
    "in_exponent_range (x - y)" "in_exponent_range ((x - y) / x)"
    "in_exponent_range ((x - y) / x * 10000)"
  shows "calculateSlippageBps (Dec x) (Dec y) = to_double (\<bar>x - y\<bar> / x * 10000)"
proof -
  have "calculateSlippageBps (Dec x) (Dec y) = to_double \<bar>(x - y) / x * 10000\<bar>"
    by (rule slippage_finite [where delta = "x - y" and ratio = "(x - y) / x"])
       (use assms in simp_all)
  then show ?thesis using assms(1) by (simp only: abs_bps)
qed

lemma slippage_nan:
  "e = DecNaN \<or> e = DecInf s \<or> (a = DecNaN \<and> \<not> isZero e) \<Longrightarrow>
     calculateSlippageBps e a = NaN"
  by (cases e; cases a) (auto simp: calculateSlippageBps_def isZero_def Let_def)

lemma slippage_infinite_actual:
  "x \<noteq> 0 \<Longrightarrow> calculateSlippageBps (Dec x) (DecInf s) = PosInf"
  by (simp add: calculateSlippageBps_def isZero_def Let_def)

lemma round_half_even_nonneg: "0 \<le> z \<Longrightarrow> 0 \<le> round_half_even z"
  by (simp add: round_half_even_def Let_def)

lemma to_double_nonneg:
  assumes "0 \<le> x"
  shows "to_double x = PosInf \<or> (\<exists>v. to_double x = Num v \<and> 0 \<le> v)"
proof (cases "x = 0")
  case True
  then show ?thesis by (simp add: to_double_def)
next
  case False
  with assms have pos: "0 < x" by simp
  let ?e = "max (ilog 2 \<bar>x\<bar>) (- 1022)"
  let ?q = "(2::rat) powi (?e - 52)"
  have q: "0 < ?q" by (simp add: zero_less_power_int)
  have "0 \<le> \<bar>x\<bar> / ?q" using q by simp
  then have n: "0 \<le> round_half_even (\<bar>x\<bar> / ?q)" by (rule round_half_even_nonneg)
  have "0 \<le> sgn x * of_int (round_half_even (\<bar>x\<bar> / ?q)) * ?q"
    using pos n q by simp
  then have "(0::real) \<le> of_rat (sgn x * of_int (round_half_even (\<bar>x\<bar> / ?q)) * ?q)"
    by (simp only: zero_le_of_rat_iff)
  then show ?thesis using pos by (auto simp: to_double_def Let_def)
qed

lemma slippage_never_negative:
  "calculateSlippageBps e a = NaN \<or> calculateSlippageBps e a = PosInf \<or>
   (\<exists>v. calculateSlippageBps e a = Num v \<and> 0 \<le> v)"
proof (cases "isZero e")
  case True
  then show ?thesis by (simp add: slippage_zero)
next
  case False
  let ?d = "dec_times (dec_div (dec_minus e a) e) (Dec 10000)"
  have r: "calculateSlippageBps e a = toNumber (dec_abs ?d)"
    using False by (simp add: calculateSlippageBps_def Let_def)
  show ?thesis
  proof (cases ?d)
    case (Dec z)
    with to_double_nonneg[of "\<bar>z\<bar>"] show ?thesis by (simp add: r)
  next
    case DecNaN
    then show ?thesis by (simp add: r)
  next
    case (DecInf s)
    then show ?thesis by (simp add: r)
  qed
qed

lemma ilog_examples:
  "ilog 10 1 = 0"
  "ilog 10 2 = 0"
  "ilog 10 3 = 0"
  "ilog 10 50 = 1"
  "ilog 10 20000 = 4"
  "ilog 10 (199 / 200) = - 1"
  "ilog 10 (1 / 100) = - 2"
  "ilog 10 (1 / 200) = - 3"
  "ilog 10 (1 / 3) = - 1"
  "ilog 10 (2 / 3) = - 1"
  "ilog 10 (33333333333333333333 / 100000000000000000000) = - 1"
  "ilog 10 (66666666666666666667 / 100000000000000000000) = - 1"
  "ilog 10 (66666666666666666667 / 10000000000000000) = 3"
  by (simp_all add: decimal_eval)

lemma round_examples:
  "round_sig 20 1 = 1"
  "round_sig 20 2 = 2"
  "round_sig 20 3 = 3"
  "round_sig 20 50 = 50"
  "round_sig 20 20000 = 20000"
  "round_sig 20 (- 1) = - 1"
  "round_sig 20 (- 2) = - 2"
  "round_sig 20 (- 20000) = - 20000"
  "round_sig 20 (199 / 200) = 199 / 200"
  "round_sig 20 (1 / 100) = 1 / 100"
  "round_sig 20 (1 / 200) = 1 / 200"
  "round_sig 20 (1 / 3) = 33333333333333333333 / 100000000000000000000"
  "round_sig 20 (2 / 3) = 66666666666666666667 / 100000000000000000000"
  "round_sig 20 (66666666666666666667 / 10000000000000000) =
     66666666666666666667 / 10000000000000000"
  by (simp_all add: round_sig_def ilog_examples round_half_up_def power_int_minus
      floor_rat_numeral)

lemma in_range_examples:
  "in_exponent_range 1" "in_exponent_range 2" "in_exponent_range 3" "in_exponent_range 50"
  "in_exponent_range 20000" "in_exponent_range (- 1)" "in_exponent_range (- 2)"
  "in_exponent_range (- 20000)" "in_exponent_range (199 / 200)"
  "in_exponent_range (1 / 100)" "in_exponent_range (1 / 200)"
  "in_exponent_range (33333333333333333333 / 100000000000000000000)"
  "in_exponent_range (66666666666666666667 / 100000000000000000000)"
  "in_exponent_range (66666666666666666667 / 10000000000000000)"
  by (simp_all add: in_exponent_range_def ilog_examples minE_def maxE_def)

lemma finalise_examples:
  "finalise 1 = Dec 1" "finalise 2 = Dec 2" "finalise 3 = Dec 3" "finalise 20000 = Dec 20000"
  "finalise (- 1) = Dec (- 1)" "finalise (- 2) = Dec (- 2)"
  "finalise (- 20000) = Dec (- 20000)"
  "finalise (199 / 200) = Dec (199 / 200)"
  "finalise (1 / 3) = Dec (33333333333333333333 / 100000000000000000000)"
  "finalise (2 / 3) = Dec (66666666666666666667 / 100000000000000000000)"
  "finalise (66666666666666666667 / 10000000000000000) =
     Dec (66666666666666666667 / 10000000000000000)"
  by (simp_all add: finalise_in_range precision_def round_examples in_range_examples)

lemma to_double_examples:
  "to_double 50 = Num 50"
  "to_double 20000 = Num 20000"
  "to_double (- 1) = Num (- 1)"
  "to_double (199 / 200) = Num (8962163258467287 / 9007199254740992)"
  "to_double (33333333333333333333 / 100000000000000000000) =
     Num (6004799503160661 / 18014398509481984)"
  "to_double (66666666666666666667 / 10000000000000000) =
     Num (7330077518506667 / 1099511627776)"
  by (simp_all add: to_double_def decimal_eval)

lemma Decimal_examples:
  "Decimal_of_integer_string ''1000000'' = Inr (Dec 1000000)"
  "Decimal_of_integer_string ''-1000000'' = Inr (Dec (- 1000000))"
  "Decimal_of_integer_string ''99500000'' = Inr (Dec 99500000)"
  "Decimal_of_integer_string ''0'' = Inr (Dec 0)"
  "Decimal_of_integer_string ''1'' = Inr (Dec 1)"
  "Decimal_of_integer_string ''3'' = Inr (Dec 3)"
  "Decimal_of_integer_string ''abc'' = Inl ''[DecimalError] Invalid argument: abc''"
  by (simp_all add: Decimal_of_integer_string_def int_of_string_examples)

text \<open>
  C5 (as amended). \<open>calculateEffectiveRate\<close> returns the quotient as decimal.js computes it
  and \<open>toNumber()\<close> converts it: with both amounts non-empty and read by the constructor,
  both decimals counts non-negative and a \<open>fromAmount\<close> that does not normalize to zero, the
  result is \<open>toDecimal.div(fromDecimal).toNumber()\<close>. On finite amounts this is
  \<open>(toAmount / 10^toDecimals) / (fromAmount / 10^fromDecimals)\<close> with each of the three
  divisions rounded to 20 significant digits and the last quotient rounded to the nearest
  double (within the exponent limits of the library); a nonzero \<open>fromAmount\<close> then
  normalizes to a nonzero value, and a negative amount is not rejected. The call fails
  with an explicit error when \<open>fromAmount\<close> normalizes to zero (as a zero amount always
  does), when an amount is empty or rejected by the constructor, or when a decimals count
  is negative.
\<close>

theorem calculateEffectiveRate_correct:
  "(fromAmount \<noteq> [] \<and> toAmount \<noteq> [] \<and> 0 \<le> fromDecimals \<and> 0 \<le> toDecimals \<and>
    Decimal fromAmount = Inr f \<and> Decimal toAmount = Inr t \<and>
    \<not> isZero (dec_div f (pow10 fromDecimals)) \<longrightarrow>
      calculateEffectiveRate Decimal fromAmount toAmount fromDecimals toDecimals =
        Inr (toNumber (dec_div (dec_div t (pow10 toDecimals)) (dec_div f (pow10 fromDecimals))))) \<and>
   (fromAmount \<noteq> [] \<and> toAmount \<noteq> [] \<and>
    0 \<le> fromDecimals \<and> fromDecimals \<le> maxE \<and> 0 \<le> toDecimals \<and> toDecimals \<le> maxE \<and>
    Decimal fromAmount = Inr (Dec x) \<and> Decimal toAmount = Inr (Dec y) \<and> x \<noteq> 0 \<and>
    fromDecimal = round_sig precision (x / 10 ^ nat fromDecimals) \<and>
    toDecimal = round_sig precision (y / 10 ^ nat toDecimals) \<and>
    in_exponent_range fromDecimal \<and> in_exponent_range toDecimal \<and>
    in_exponent_range (round_sig precision (toDecimal / fromDecimal)) \<longrightarrow>
      fromDecimal \<noteq> 0 \<and>
      calculateEffectiveRate Decimal fromAmount toAmount fromDecimals toDecimals =
        Inr (to_double (round_sig precision (toDecimal / fromDecimal)))) \<and>
   (fromAmount \<noteq> [] \<and> toAmount \<noteq> [] \<and> 0 \<le> fromDecimals \<and> 0 \<le> toDecimals \<and>
    Decimal fromAmount = Inr f \<and> Decimal toAmount = Inr t \<and>
    isZero (dec_div f (pow10 fromDecimals)) \<longrightarrow>
      calculateEffectiveRate Decimal fromAmount toAmount fromDecimals toDecimals =
        Inl ''Decimal calculation failed: From amount cannot be zero'') \<and>
   isZero (dec_div (Dec 0) (pow10 fromDecimals)) \<and>
   (fromAmount = [] \<or> toAmount = [] \<or> fromDecimals < 0 \<or> toDecimals < 0 \<longrightarrow>
      calculateEffectiveRate Decimal fromAmount toAmount fromDecimals toDecimals =
        Inl ''Invalid input parameters for rate calculation'') \<and>
   (fromAmount \<noteq> [] \<and> toAmount \<noteq> [] \<and> 0 \<le> fromDecimals \<and> 0 \<le> toDecimals \<and>
    (Decimal fromAmount = Inl msg \<or> (Decimal fromAmount = Inr f \<and> Decimal toAmount = Inl msg)) \<longrightarrow>
      calculateEffectiveRate Decimal fromAmount toAmount fromDecimals toDecimals =
        Inl (''Decimal calculation failed: '' @ msg))"
proof (intro conjI impI)
  assume h: "fromAmount \<noteq> [] \<and> toAmount \<noteq> [] \<and> 0 \<le> fromDecimals \<and> 0 \<le> toDecimals \<and>
    Decimal fromAmount = Inr f \<and> Decimal toAmount = Inr t \<and>
    \<not> isZero (dec_div f (pow10 fromDecimals))"
  show "calculateEffectiveRate Decimal fromAmount toAmount fromDecimals toDecimals =
        Inr (toNumber (dec_div (dec_div t (pow10 toDecimals)) (dec_div f (pow10 fromDecimals))))"
    by (rule effective_rate_value) (use h in simp_all)
next
  assume h: "fromAmount \<noteq> [] \<and> toAmount \<noteq> [] \<and>
    0 \<le> fromDecimals \<and> fromDecimals \<le> maxE \<and> 0 \<le> toDecimals \<and> toDecimals \<le> maxE \<and>
    Decimal fromAmount = Inr (Dec x) \<and> Decimal toAmount = Inr (Dec y) \<and> x \<noteq> 0 \<and>
    fromDecimal = round_sig precision (x / 10 ^ nat fromDecimals) \<and>
    toDecimal = round_sig precision (y / 10 ^ nat toDecimals) \<and>
    in_exponent_range fromDecimal \<and> in_exponent_range toDecimal \<and>
    in_exponent_range (round_sig precision (toDecimal / fromDecimal))"
  from h have p: "fromAmount \<noteq> []" "toAmount \<noteq> []"
    "0 \<le> fromDecimals" "fromDecimals \<le> maxE" "0 \<le> toDecimals" "toDecimals \<le> maxE"
    "Decimal fromAmount = Inr (Dec x)" "Decimal toAmount = Inr (Dec y)" "x \<noteq> 0"
    "fromDecimal = round_sig precision (x / 10 ^ nat fromDecimals)"
    "toDecimal = round_sig precision (y / 10 ^ nat toDecimals)"
    "in_exponent_range fromDecimal" "in_exponent_range toDecimal"
    "in_exponent_range (round_sig precision (toDecimal / fromDecimal))"
    by blast+
  have "x / 10 ^ nat fromDecimals \<noteq> 0" using p(9) by simp
  then have nz: "round_sig precision (x / 10 ^ nat fromDecimals) \<noteq> 0"
    by (rule round_sig_nonzero) (simp add: precision_def)
  show "fromDecimal \<noteq> 0" unfolding p(10) by (rule nz)
  show "calculateEffectiveRate Decimal fromAmount toAmount fromDecimals toDecimals =
        Inr (to_double (round_sig precision (toDecimal / fromDecimal)))"
    by (rule effective_rate_finite [OF p])
next
  assume h: "fromAmount \<noteq> [] \<and> toAmount \<noteq> [] \<and> 0 \<le> fromDecimals \<and> 0 \<le> toDecimals \<and>
    Decimal fromAmount = Inr f \<and> Decimal toAmount = Inr t \<and>
    isZero (dec_div f (pow10 fromDecimals))"
  show "calculateEffectiveRate Decimal fromAmount toAmount fromDecimals toDecimals =
        Inl ''Decimal calculation failed: From amount cannot be zero''"
    by (rule effective_rate_zero [where f = f and t = t]) (use h in simp_all)
next
  show "isZero (dec_div (Dec 0) (pow10 fromDecimals))"
    by (rule zero_normalizes_to_zero)
next
  assume "fromAmount = [] \<or> toAmount = [] \<or> fromDecimals < 0 \<or> toDecimals < 0"
  then show "calculateEffectiveRate Decimal fromAmount toAmount fromDecimals toDecimals =
        Inl ''Invalid input parameters for rate calculation''"
    by (rule effective_rate_invalid)
next
  assume "fromAmount \<noteq> [] \<and> toAmount \<noteq> [] \<and> 0 \<le> fromDecimals \<and> 0 \<le> toDecimals \<and>
    (Decimal fromAmount = Inl msg \<or> (Decimal fromAmount = Inr f \<and> Decimal toAmount = Inl msg))"
  then show "calculateEffectiveRate Decimal fromAmount toAmount fromDecimals toDecimals =
        Inl (''Decimal calculation failed: '' @ msg)"
    using effective_rate_malformed [of fromAmount toAmount fromDecimals toDecimals Decimal msg f]
    by blast
qed

theorem calculateEffectiveRate_correct_witness:
  "calculateEffectiveRate Decimal_of_integer_string ''1000000'' ''99500000'' 6 8 =
     Inr (toNumber (dec_div (dec_div (Dec 99500000) (pow10 8)) (dec_div (Dec 1000000) (pow10 6)))) \<and>
   calculateEffectiveRate Decimal_of_integer_string ''1000000'' ''99500000'' 6 8 =
     Inr (Num (8962163258467287 / 9007199254740992)) \<and>
   calculateEffectiveRate Decimal_of_integer_string ''0'' ''99500000'' 6 8 =
     Inl ''Decimal calculation failed: From amount cannot be zero'' \<and>
   calculateEffectiveRate Decimal_of_integer_string ''1000000'' ''99500000'' (- 1) 8 =
     Inl ''Invalid input parameters for rate calculation'' \<and>
   calculateEffectiveRate Decimal_of_integer_string ''abc'' ''99500000'' 6 8 =
     Inl ''Decimal calculation failed: [DecimalError] Invalid argument: abc''"
proof -
  note C = calculateEffectiveRate_correct
  have 1: "calculateEffectiveRate Decimal_of_integer_string ''1000000'' ''99500000'' 6 8 =
     Inr (toNumber (dec_div (dec_div (Dec 99500000) (pow10 8)) (dec_div (Dec 1000000) (pow10 6))))"
    using C [where Decimal = Decimal_of_integer_string and fromAmount = "''1000000''"
        and toAmount = "''99500000''" and fromDecimals = 6 and toDecimals = 8
        and f = "Dec 1000000" and t = "Dec 99500000", THEN conjunct1]
    by (simp add: Decimal_examples dec_div_pow10 maxE_def finalise_examples isZero_def)
  have 2: "calculateEffectiveRate Decimal_of_integer_string ''1000000'' ''99500000'' 6 8 =
     Inr (Num (8962163258467287 / 9007199254740992))"
    using C [where Decimal = Decimal_of_integer_string and fromAmount = "''1000000''"
        and toAmount = "''99500000''" and fromDecimals = 6 and toDecimals = 8
        and x = 1000000 and y = 99500000 and fromDecimal = 1 and toDecimal = "199 / 200",
        THEN conjunct2, THEN conjunct1]
    by (simp add: Decimal_examples maxE_def precision_def round_examples in_range_examples
        to_double_examples)
  have 3: "calculateEffectiveRate Decimal_of_integer_string ''0'' ''99500000'' 6 8 =
     Inl ''Decimal calculation failed: From amount cannot be zero''"
    using C [where Decimal = Decimal_of_integer_string and fromAmount = "''0''"
        and toAmount = "''99500000''" and fromDecimals = 6 and toDecimals = 8
        and f = "Dec 0" and t = "Dec 99500000",
        THEN conjunct2, THEN conjunct2, THEN conjunct1]
      C [where fromDecimals = 6, THEN conjunct2, THEN conjunct2, THEN conjunct2, THEN conjunct1]
    by (simp add: Decimal_examples)
  have 4: "calculateEffectiveRate Decimal_of_integer_string ''1000000'' ''99500000'' (- 1) 8 =
     Inl ''Invalid input parameters for rate calculation''"
    using C [where Decimal = Decimal_of_integer_string and fromAmount = "''1000000''"
        and toAmount = "''99500000''" and fromDecimals = "- 1" and toDecimals = 8,
        THEN conjunct2, THEN conjunct2, THEN conjunct2, THEN conjunct2, THEN conjunct1]
    by simp
  have 5: "calculateEffectiveRate Decimal_of_integer_string ''abc'' ''99500000'' 6 8 =
     Inl ''Decimal calculation failed: [DecimalError] Invalid argument: abc''"
    using C [where Decimal = Decimal_of_integer_string and fromAmount = "''abc''"
        and toAmount = "''99500000''" and fromDecimals = 6 and toDecimals = 8
        and msg = "''[DecimalError] Invalid argument: abc''",
        THEN conjunct2, THEN conjunct2, THEN conjunct2, THEN conjunct2, THEN conjunct2]
    by (simp add: Decimal_examples)
  from 1 2 3 4 5 show ?thesis by simp
qed

text \<open>
  The claim as stated fails twice. A negative \<open>fromAmount\<close> is read by the constructor and
  the call returns the negative rate instead of failing. And the result is not exactly the
  quotient: for \<open>fromAmount = 3\<close> and \<open>toAmount = 1\<close> it is the double nearest to
  \<open>0.33333333333333333333\<close>, not \<open>1 / 3\<close>.
\<close>

theorem calculateEffectiveRate_counterexample:
  "calculateEffectiveRate Decimal_of_integer_string ''-1000000'' ''1000000'' 6 6 =
     Inr (Num (- 1)) \<and>
   calculateEffectiveRate Decimal_of_integer_string ''3'' ''1'' 0 0 =
     Inr (Num (6004799503160661 / 18014398509481984)) \<and>
   (6004799503160661 / 18014398509481984 :: real) \<noteq> (1 / 10 ^ 0) / (3 / 10 ^ 0)"
  by (simp add: calculateEffectiveRate_def Decimal_examples dec_div_pow10 maxE_def
      finalise_examples isZero_def to_double_examples)

text \<open>
  C10 (as amended). \<open>calculateSlippageBps\<close> is total on all numbers, \<open>NaN\<close> and the infinities
  included, and never divides by zero: it returns 0 when \<open>expectedRate\<close> is zero, whatever
  \<open>actualRate\<close> is. Otherwise, on finite numbers, it returns \<open>|(expectedRate - actualRate) /
  expectedRate * 10000|\<close> with the difference, the quotient and the product each rounded to
  20 significant digits, the absolute value taken last, and the result rounded to the
  nearest double; when \<open>expectedRate\<close> is positive and none of the three needs rounding this
  is the double nearest to \<open>|expectedRate - actualRate| / expectedRate * 10000\<close>. It returns
  \<open>NaN\<close> when \<open>expectedRate\<close> is \<open>NaN\<close> or infinite or when \<open>actualRate\<close> is \<open>NaN\<close> (and
  \<open>expectedRate\<close> is not zero), and \<open>Infinity\<close> when \<open>actualRate\<close> is infinite and
  \<open>expectedRate\<close> is finite and not zero. The result is never negative.
\<close>

theorem calculateSlippageBps_total:
  "(isZero expected \<longrightarrow> calculateSlippageBps expected actual = Num 0) \<and>
   (x \<noteq> 0 \<and> delta = round_sig precision (x - y) \<and>
    ratio = round_sig precision (delta / x) \<and> bps = round_sig precision (ratio * 10000) \<and>
    in_exponent_range delta \<and> in_exponent_range ratio \<and> in_exponent_range bps \<longrightarrow>
      calculateSlippageBps (Dec x) (Dec y) = to_double \<bar>bps\<bar>) \<and>
   (0 < x \<and> round_sig precision (x - y) = x - y \<and>
    round_sig precision ((x - y) / x) = (x - y) / x \<and>
    round_sig precision ((x - y) / x * 10000) = (x - y) / x * 10000 \<and>
    in_exponent_range (x - y) \<and> in_exponent_range ((x - y) / x) \<and>
    in_exponent_range ((x - y) / x * 10000) \<longrightarrow>
      calculateSlippageBps (Dec x) (Dec y) = to_double (\<bar>x - y\<bar> / x * 10000)) \<and>
   (expected = DecNaN \<or> expected = DecInf s \<or> (actual = DecNaN \<and> \<not> isZero expected) \<longrightarrow>
      calculateSlippageBps expected actual = NaN) \<and>
   (x \<noteq> 0 \<longrightarrow> calculateSlippageBps (Dec x) (DecInf s) = PosInf) \<and>
   (calculateSlippageBps expected actual = NaN \<or> calculateSlippageBps expected actual = PosInf \<or>
    (\<exists>v. calculateSlippageBps expected actual = Num v \<and> 0 \<le> v))"
proof (intro conjI impI)
  assume "isZero expected"
  then show "calculateSlippageBps expected actual = Num 0" by (rule slippage_zero)
next
  assume h: "x \<noteq> 0 \<and> delta = round_sig precision (x - y) \<and>
    ratio = round_sig precision (delta / x) \<and> bps = round_sig precision (ratio * 10000) \<and>
    in_exponent_range delta \<and> in_exponent_range ratio \<and> in_exponent_range bps"
  then have p: "x \<noteq> 0" "delta = round_sig precision (x - y)"
    "ratio = round_sig precision (delta / x)" "bps = round_sig precision (ratio * 10000)"
    "in_exponent_range delta" "in_exponent_range ratio" "in_exponent_range bps"
    by blast+
  show "calculateSlippageBps (Dec x) (Dec y) = to_double \<bar>bps\<bar>"
    by (rule slippage_finite [OF p])
next
  assume h: "0 < x \<and> round_sig precision (x - y) = x - y \<and>
    round_sig precision ((x - y) / x) = (x - y) / x \<and>
    round_sig precision ((x - y) / x * 10000) = (x - y) / x * 10000 \<and>
    in_exponent_range (x - y) \<and> in_exponent_range ((x - y) / x) \<and>
    in_exponent_range ((x - y) / x * 10000)"
  then have p: "0 < x" "round_sig precision (x - y) = x - y"
    "round_sig precision ((x - y) / x) = (x - y) / x"
    "round_sig precision ((x - y) / x * 10000) = (x - y) / x * 10000"
    "in_exponent_range (x - y)" "in_exponent_range ((x - y) / x)"
    "in_exponent_range ((x - y) / x * 10000)"
    by blast+
  show "calculateSlippageBps (Dec x) (Dec y) = to_double (\<bar>x - y\<bar> / x * 10000)"
    by (rule slippage_exact [OF p])
next
  assume "expected = DecNaN \<or> expected = DecInf s \<or> (actual = DecNaN \<and> \<not> isZero expected)"
  then show "calculateSlippageBps expected actual = NaN" by (rule slippage_nan)
next
  assume "x \<noteq> 0"
  then show "calculateSlippageBps (Dec x) (DecInf s) = PosInf" by (rule slippage_infinite_actual)
next
  show "calculateSlippageBps expected actual = NaN \<or> calculateSlippageBps expected actual = PosInf \<or>
    (\<exists>v. calculateSlippageBps expected actual = Num v \<and> 0 \<le> v)"
    by (rule slippage_never_negative)
qed

theorem calculateSlippageBps_total_witness:
  "calculateSlippageBps (Dec 0) (Dec 5) = Num 0 \<and>
   calculateSlippageBps (Dec 2) (Dec (199 / 100)) = Num 50 \<and>
   calculateSlippageBps (Dec 3) (Dec 1) = Num (7330077518506667 / 1099511627776) \<and>
   calculateSlippageBps (DecInf True) (Dec 1) = NaN \<and>
   calculateSlippageBps (Dec 1) DecNaN = NaN \<and>
   calculateSlippageBps (Dec 1) (DecInf False) = PosInf"
proof -
  note C = calculateSlippageBps_total
  have 1: "calculateSlippageBps (Dec 0) (Dec 5) = Num 0"
    using C [where expected = "Dec 0" and actual = "Dec 5", THEN conjunct1]
    by (simp add: isZero_def)
  have 2: "calculateSlippageBps (Dec 2) (Dec (199 / 100)) = Num 50"
    using C [where x = 2 and y = "199 / 100", THEN conjunct2, THEN conjunct2, THEN conjunct1]
    by (simp add: precision_def round_examples in_range_examples to_double_examples)
  have 3: "calculateSlippageBps (Dec 3) (Dec 1) = Num (7330077518506667 / 1099511627776)"
    using C [where x = 3 and y = 1 and delta = 2
        and ratio = "66666666666666666667 / 100000000000000000000"
        and bps = "66666666666666666667 / 10000000000000000",
        THEN conjunct2, THEN conjunct1]
    by (simp add: precision_def round_examples in_range_examples to_double_examples)
  have 4: "calculateSlippageBps (DecInf True) (Dec 1) = NaN"
    using C [where expected = "DecInf True" and actual = "Dec 1" and s = True,
        THEN conjunct2, THEN conjunct2, THEN conjunct2, THEN conjunct1]
    by simp
  have 5: "calculateSlippageBps (Dec 1) DecNaN = NaN"
    using C [where expected = "Dec 1" and actual = DecNaN,
        THEN conjunct2, THEN conjunct2, THEN conjunct2, THEN conjunct1]
    by (simp add: isZero_def)
  have 6: "calculateSlippageBps (Dec 1) (DecInf False) = PosInf"
    using C [where x = 1 and s = False,
        THEN conjunct2, THEN conjunct2, THEN conjunct2, THEN conjunct2, THEN conjunct1]
    by simp
  from 1 2 3 4 5 6 show ?thesis by simp
qed

text \<open>
  The claim as stated fails twice. For a negative \<open>expectedRate\<close> its formula is negative,
  while the code takes the absolute value of the whole quotient: with expected -1 and
  actual 1 the code returns 20000, the formula \<open>|expected - actual| / expected * 10000\<close>
  gives -20000. And the result is rounded: with expected 3 and actual 1 the code returns
  the double nearest to \<open>6666.6666666666666667\<close>, not \<open>20000 / 3\<close>.
\<close>

theorem calculateSlippageBps_counterexample:
  "calculateSlippageBps (Dec (- 1)) (Dec 1) = Num 20000 \<and>
   \<bar>(- 1) - (1::real)\<bar> / (- 1) * 10000 = - 20000 \<and>
   calculateSlippageBps (Dec 3) (Dec 1) = Num (7330077518506667 / 1099511627776) \<and>
   (7330077518506667 / 1099511627776 :: real) \<noteq> \<bar>3 - 1\<bar> / 3 * 10000"
  by (simp add: calculateSlippageBps_def isZero_def finalise_examples to_double_examples)

section \<open>Liquidity depth\<close>

lemma bigint_div_ge:
  assumes "0 \<le> s" "0 < r" "r \<le> m"
  shows "s \<le> bigint_div (s * m) r"
proof -
  have sm: "0 \<le> s * m" using assms by simp
  have "s * r \<le> s * m" using assms by (simp add: mult_left_mono)
  then have "(s * r) div r \<le> (s * m) div r" by (rule zdiv_mono1) (use assms in simp)
  then have le: "s \<le> (s * m) div r" using assms by simp
  show ?thesis
  proof (cases "s * m = 0")
    case True
    then have "s = 0" using assms by auto
    then show ?thesis by (simp add: bigint_div_def)
  next
    case False
    then have "sgn (s * m) = 1" using sm by (simp add: sgn_if)
    then show ?thesis using le sm assms by (simp add: bigint_div_def sgn_if)
  qed
qed

lemma maxSource_ge:
  assumes "js_BigInt env srcAmount = Some x" "0 \<le> x" "max_ge_recommended env recommended maxDest"
  shows "maxSource env srcAmount recommended maxDest = srcAmount \<or>
         (\<exists>y. maxSource env srcAmount recommended maxDest = show_int y \<and> x \<le> y)"
  using assms
  by (auto simp: maxSource_def max_ge_recommended_def bigint_div_ge split: option.splits)

lemma max_ge_coalesce:
  "max_ge_recommended env recommended m \<Longrightarrow>
   max_ge_recommended env recommended (coalesce m (Some recommended))"
  by (auto simp: max_ge_recommended_def coalesce_def split: option.splits)

lemma liquidity_of_route_points:
  "liquidity_of_route env route w = (Some entry, w') \<Longrightarrow> depth_points entry"
  by (auto simp: liquidity_of_route_def depth_points_def Let_def
      split: if_splits prod.splits sum.splits option.splits)

lemma liquidity_of_route_monotone:
  assumes "liquidity_of_route env route w = (Some entry, w')" "quotes_max_ge_recommended env"
  shows "depth_monotone env entry"
proof -
  from assms(1) obtain quote w1 est srcAmount recommended where
    f: "fetchQuoteWithRetry env (source route) (destination route)
          (show_nat (1000 * 10 ^ nat (decimals (source route)))) w = (Inr (Some quote), w1)"
    and e: "estimation quote = Some est"
    and r: "coalesce (Option.bind (dstChainTokenOut est) recommendedAmount)
             (Option.bind (dstChainTokenOut est) amount) = Some recommended"
    and t: "thresholds entry =
      [\<lparr>maxAmountIn = srcAmount, slippageBps = 50\<rparr>,
       \<lparr>maxAmountIn = maxSource env srcAmount recommended
          (coalesce (Option.bind (dstChainTokenOut est) maxTheoreticalAmount) (Some recommended)),
        slippageBps = 100\<rparr>]"
    by (auto simp: liquidity_of_route_def Let_def Option.bind_eq_Some_conv
        split: if_splits prod.splits sum.splits option.splits)
  have m: "max_ge_recommended env recommended
      (coalesce (Option.bind (dstChainTokenOut est) maxTheoreticalAmount) (Some recommended))"
  proof (cases "dstChainTokenOut est")
    case None
    then show ?thesis by (auto simp: max_ge_recommended_def coalesce_def)
  next
    case (Some token)
    with r have "coalesce (recommendedAmount token) (amount token) = Some recommended" by simp
    with assms(2) f e Some have "max_ge_recommended env recommended (maxTheoreticalAmount token)"
      unfolding quotes_max_ge_recommended_def by blast
    then show ?thesis using Some by (simp add: max_ge_coalesce)
  qed
  show ?thesis
    unfolding depth_monotone_def
  proof (intro allI impI, elim conjE)
    fix a b x
    assume "thresholds entry = [\<lparr>maxAmountIn = a, slippageBps = 50\<rparr>, \<lparr>maxAmountIn = b, slippageBps = 100\<rparr>]"
      and x: "js_BigInt env a = Some x" "0 \<le> x"
    with t have "a = srcAmount" 
      "b = maxSource env srcAmount recommended
          (coalesce (Option.bind (dstChainTokenOut est) maxTheoreticalAmount) (Some recommended))"
      by simp_all
    with maxSource_ge[OF _ _ m, of srcAmount x] x show "b = a \<or> (\<exists>y. b = show_int y \<and> x \<le> y)"
      by simp
  qed
qed

lemma liquidity_loop_invariant:
  assumes "\<And>route w entry w'. liquidity_of_route env route w = (Some entry, w') \<Longrightarrow> P entry"
  shows "\<forall>e \<in> set acc. P e \<Longrightarrow> \<forall>e \<in> set (fst (liquidity_loop env routes acc w)). P e"
proof (induction routes arbitrary: acc w)
  case Nil
  then show ?case by simp
next
  case (Cons route routes)
  obtain r w' where lr: "liquidity_of_route env route w = (r, w')" by (cases "liquidity_of_route env route w")
  show ?case
  proof (cases r)
    case None
    with lr Cons show ?thesis by simp
  next
    case (Some entry)
    with lr assms have "P entry" by blast
    with Cons.prems have "\<forall>e \<in> set (acc @ [entry]). P e" by simp
    from Cons.IH[OF this] lr Some show ?thesis by simp
  qed
qed


lemma example_env_simps:
  "Date_now (example_env h p) = (\<lambda>w. w)"
  "http_fetchWithRetry (example_env h p) = (\<lambda>route notional w. (h, w + 100))"
  "fetchQuoteWithRetry (example_env h p) = (\<lambda>src dst amountIn w. (p, w + 100))"
  "fetch_volumes (example_env h p) = (\<lambda>w. (Inl ''fetch failed'', w + 100))"
  "fetch_token_list (example_env h p) = (\<lambda>chain w. (Inl ''fetch failed'', w + 100))"
  "pause (example_env h p) = (\<lambda>ms w. w + int ms)"
  "js_Number (example_env h p) = Number_of_integer_string"
  "js_BigInt (example_env h p) = int_of_string"
  "new_Decimal (example_env h p) = Decimal_of_integer_string"
  "toLowerCase (example_env h p) = (\<lambda>s. s)"
  "probe_amount (example_env h p) = (\<lambda>sizeUsd d. show_nat (sizeUsd * 10 ^ nat d))"
  by (simp_all add: example_env_def)

lemma int_of_string_amounts:
  "int_of_string ''1000000000'' = Some 1000000000"
  "int_of_string ''999000000'' = Some 999000000"
  "int_of_string ''500000000'' = Some 500000000"
  "int_of_string ''1001001001'' = Some 1001001001"
  "int_of_string ''500500500'' = Some 500500500"
  by (simp_all add: int_of_string_def digit_val_def)

lemma show_amounts:
  "show_nat 1000000000 = ''1000000000''"
  "show_int 1001001001 = ''1001001001''"
  "show_int 500500500 = ''500500500''"
  by (simp_all add: show_int_def show_nat.simps digit_char_def)

lemma deep_quote_liquidity:
  "getLiquidityDepth deep_quote_env [usdc_route] 0 =
     ([\<lparr>liquidity_route = usdc_route,
        thresholds = [\<lparr>maxAmountIn = ''1000000000'', slippageBps = 50\<rparr>,
                      \<lparr>maxAmountIn = ''1001001001'', slippageBps = 100\<rparr>],
        liquidity_measuredAt = 100\<rparr>], 100)"
  by (simp add: getLiquidityDepth_def liquidity_of_route_def deep_quote_env_def example_env_simps
      quote_of_def token_of_def usdc_route_def usdc_ethereum_def coalesce_def maxSource_def
      int_of_string_amounts bigint_div_def show_amounts)

text \<open>
  What holds of every entry produced by \<open>getLiquidityDepth\<close>: it has exactly two thresholds,
  the 50 bps one and then the 100 bps one; and the 100 bps amount is at least the 50 bps
  amount (read as a non-negative integer) if the upstream quotes never report a maximum
  destination amount below the recommended one. Nothing in the function compares the two
  amounts.
\<close>

lemma liquidity_depth_entries:
  "(\<forall>entry \<in> set (fst (getLiquidityDepth env routes w)). depth_points entry) \<and>
   (quotes_max_ge_recommended env \<longrightarrow>
      (\<forall>entry \<in> set (fst (getLiquidityDepth env routes w)). depth_monotone env entry))"
proof (intro conjI impI)
  have "\<forall>e \<in> set (fst (liquidity_loop env routes [] w)). depth_points e"
    by (rule liquidity_loop_invariant [where P = depth_points])
      (auto intro: liquidity_of_route_points)
  then show "\<forall>entry \<in> set (fst (getLiquidityDepth env routes w)). depth_points entry"
    by (simp add: getLiquidityDepth_def)
next
  assume q: "quotes_max_ge_recommended env"
  have "\<forall>e \<in> set (fst (liquidity_loop env routes [] w)). depth_monotone env e"
    by (rule liquidity_loop_invariant [where P = "depth_monotone env"])
      (auto intro: liquidity_of_route_monotone q)
  then show "\<forall>entry \<in> set (fst (getLiquidityDepth env routes w)). depth_monotone env entry"
    by (simp add: getLiquidityDepth_def)
qed

text \<open>
  C9, at the failing input. The reference quote of the route (1000 USDC in) has the output
  amount \<open>999000000\<close> and the maximum output \<open>500000000\<close>, below it. The 50 bps threshold
  is the quote's source amount \<open>1000000000\<close>; the 100 bps threshold is \<open>1000000000 * 500000000
  / 999000000 = 500500500\<close>, pushed without a comparison with the first: the 100 bps amount
  is below the 50 bps amount, against the ordering that the claim states and that the
  repository's unit test of the thresholds expects.
\<close>

theorem getLiquidityDepth_100bps_below_50bps:
  "map (\<lambda>p. (js_BigInt shallow_quote_env (maxAmountIn p), slippageBps p))
     (concat (map thresholds (fst (getLiquidityDepth shallow_quote_env [usdc_route] 0)))) =
   [(Some 1000000000, 50), (Some 500500500, 100)]"
  by (simp add: getLiquidityDepth_def liquidity_of_route_def shallow_quote_env_def
      example_env_simps quote_of_def token_of_def usdc_route_def usdc_ethereum_def coalesce_def
      maxSource_def int_of_string_amounts bigint_div_def show_amounts)

section \<open>Route intelligence\<close>

lemma clamp_range:
  "Math_max (Num 0) (Math_min (Num 100) z) = NaN \<or>
   (\<exists>x. Math_max (Num 0) (Math_min (Num 100) z) = Num x \<and> 0 \<le> x \<and> x \<le> 100)"
  by (cases z) (auto simp: Math_max_def Math_min_def)

lemma feeEfficiency_range:
  "feeEfficiency quotes = Some s \<Longrightarrow> s = NaN \<or> (\<exists>x. s = Num x \<and> 0 \<le> x \<and> x \<le> 100)"
  using clamp_range by (auto simp: feeEfficiency_def Let_def split: if_splits)

lemma few_successes:
  "length (successfulQuotes quotes) < 2 \<Longrightarrow> feeEfficiency quotes = None \<and> optimalRange quotes = None"
  by (simp add: feeEfficiency_def optimalRange_def Let_def)

lemma probe_loop_failure:
  assumes "\<not> probe_succeeds env route sizeUsd w"
  shows "probe_loop env route (sizeUsd # sizes) quotes w =
     (quotes @ [failed_probe sizeUsd],
      snd (fetchQuoteWithRetry env (source route) (destination route)
             (probe_amount env sizeUsd (decimals (source route))) w))"
  using assms
  by (auto simp: probe_succeeds_def Let_def split: prod.splits sum.splits option.splits)

lemma probe_loop_success:
  assumes "probe_succeeds env route sizeUsd w"
  shows "\<exists>q w'. \<not> failed q \<and> amountUsd q = sizeUsd \<and>
     probe_loop env route (sizeUsd # sizes) quotes w = probe_loop env route sizes (quotes @ [q]) w'"
proof -
  from assms obtain quote w1 est dstToken srcToken where
    f: "fetchQuoteWithRetry env (source route) (destination route)
          (probe_amount env sizeUsd (decimals (source route))) w = (Inr (Some quote), w1)"
    "estimation quote = Some est" "dstChainTokenOut est = Some dstToken"
    "srcChainTokenIn est = Some srcToken"
    unfolding probe_succeeds_def by blast
  let ?q = "\<lparr>amountUsd = sizeUsd,
             probe_rate = js_div (Number_of env (amount dstToken)) (Number_of env (amount srcToken)),
             failed = False\<rparr>"
  have "probe_loop env route (sizeUsd # sizes) quotes w =
      probe_loop env route sizes (quotes @ [?q]) (pause env 200 w1)"
    using f by (simp add: Let_def)
  then show ?thesis by (intro exI[of _ ?q] exI[of _ "pause env 200 w1"]) simp
qed

lemma probe_loop_shape:
  "\<exists>new. fst (probe_loop env route sizes quotes w) = quotes @ new \<and>
     map amountUsd new = take (length new) sizes \<and>
     (\<forall>q \<in> set (butlast new). \<not> failed q) \<and>
     (length new < length sizes \<longrightarrow> new \<noteq> [] \<and> failed (last new)) \<and>
     ((\<forall>q \<in> set new. \<not> failed q) \<longrightarrow> length new = length sizes)"
proof (induction sizes arbitrary: quotes w)
  case Nil
  then show ?case by simp
next
  case (Cons sizeUsd sizes)
  show ?case
  proof (cases "probe_succeeds env route sizeUsd w")
    case False
    show ?thesis
      by (rule exI[of _ "[failed_probe sizeUsd]"])
        (simp add: probe_loop_failure[OF False] failed_probe_def del: probe_loop.simps)
  next
    case True
    from probe_loop_success[OF True, of sizes quotes] obtain q w' where
      q: "\<not> failed q" "amountUsd q = sizeUsd"
      and step: "probe_loop env route (sizeUsd # sizes) quotes w = probe_loop env route sizes (quotes @ [q]) w'"
      by blast
    from Cons.IH[of "quotes @ [q]" w'] obtain new where
      IH: "fst (probe_loop env route sizes (quotes @ [q]) w') = (quotes @ [q]) @ new"
      "map amountUsd new = take (length new) sizes"
      "\<forall>q \<in> set (butlast new). \<not> failed q"
      "length new < length sizes \<longrightarrow> new \<noteq> [] \<and> failed (last new)"
      "(\<forall>q \<in> set new. \<not> failed q) \<longrightarrow> length new = length sizes"
      by blast
    show ?thesis
      by (rule exI[of _ "q # new"])
        (use q step IH in \<open>auto simp del: probe_loop.simps\<close>)
  qed
qed

lemma all_succeed_capacity:
  assumes "\<forall>q \<in> set (fst (probe_loop env route probeSizesUsd [] w)). \<not> failed q"
  shows "maxCapacity (fst (probe_loop env route probeSizesUsd [] w)) = Some 5000000"
proof -
  from probe_loop_shape[of env route probeSizesUsd "[]" w] obtain new where
    n: "fst (probe_loop env route probeSizesUsd [] w) = new"
    "map amountUsd new = take (length new) probeSizesUsd"
    "(\<forall>q \<in> set new. \<not> failed q) \<longrightarrow> length new = length probeSizesUsd"
    by auto
  with assms have len: "length new = 8" by (simp add: probeSizesUsd_def)
  with n(2) have m: "map amountUsd new = probeSizesUsd" by (simp add: probeSizesUsd_def)
  have ne: "new \<noteq> []" using len by auto
  have "amountUsd (last new) = last (map amountUsd new)" using ne by (simp add: last_map)
  also have "\<dots> = 5000000" by (simp add: m probeSizesUsd_def)
  finally have "amountUsd (last new) = 5000000" .
  moreover have "successfulQuotes new = new" using assms n(1) by (simp add: successfulQuotes_def)
  ultimately show ?thesis using ne by (simp add: maxCapacity_def n(1))
qed


text \<open>
  The probing of one route follows the fixed ascending sizes and stops at the first failed
  probe: a failed probe at a size ends the loop in the world left by that probe's fetch,
  whatever sizes remain. With fewer than two successful probes the score and the optimal
  range are null; when no probe fails the capacity is the largest size; and a score that
  is not null is a number between 0 and 100, or \<open>NaN\<close>.
\<close>

lemma route_intelligence_probing:
  "probeSizesUsd = [1000, 5000, 10000, 50000, 100000, 500000, 1000000, 5000000] \<and>
   (\<not> probe_succeeds env route sizeUsd w \<longrightarrow>
      probe_loop env route (sizeUsd # sizes) quotes w = probe_loop env route [sizeUsd] quotes w) \<and>
   (length (successfulQuotes quotes) < 2 \<longrightarrow>
      feeEfficiency quotes = None \<and> optimalRange quotes = None) \<and>
   ((\<forall>q \<in> set (fst (probe_loop env route probeSizesUsd [] w)). \<not> failed q) \<longrightarrow>
      maxCapacity (fst (probe_loop env route probeSizesUsd [] w)) = Some 5000000) \<and>
   (feeEfficiency quotes = Some s \<longrightarrow> s = NaN \<or> (\<exists>x. s = Num x \<and> 0 \<le> x \<and> x \<le> 100))"
  using few_successes [of quotes] all_succeed_capacity [of env route w]
    feeEfficiency_range [of quotes s]
    probe_loop_failure [of env route sizeUsd w sizes quotes]
    probe_loop_failure [of env route sizeUsd w "[]" quotes]
  by (simp add: probeSizesUsd_def del: probe_loop.simps)

lemma Number_amounts:
  "Number_of_integer_string ''0'' = Num 0"
  "Number_of_integer_string ''1000000000'' = Num 1000000000"
  by (simp_all add: Number_of_integer_string_def int_of_string_def digit_val_def)

lemma zero_output_probes:
  "fst (probe_loop zero_output_env usdc_route probeSizesUsd [] 0) = zero_rate_probes"
  by (simp add: probeSizesUsd_def zero_rate_probes_def zero_output_env_def example_env_simps
      quote_of_def token_of_def Number_of_def Number_amounts)

lemma zero_rate_score: "feeEfficiency zero_rate_probes = Some NaN"
  by (simp add: zero_rate_probes_def feeEfficiency_def successfulQuotes_def probeSizesUsd_def
      sum_rates_def js_sub_def signed_inf_def Math_max_def Math_min_def Let_def)

text \<open>
  C8, at the failing input. Every probe of the route is answered by a quote whose output
  amount is \<open>0\<close>: all eight probes succeed with rate 0, the mean rate is 0, and the score
  \<open>100 - stdDev / avgRate * 100\<close> is \<open>0 / 0\<close>, that is \<open>NaN\<close>, which \<open>Math.min\<close> and
  \<open>Math.max\<close> pass through: the score is not null and not in [0, 100].
\<close>

theorem feeEfficiencyScore_NaN:
  "map feeEfficiencyScore (fst (getRouteIntelligence zero_output_env [usdc_route] 0)) = [Some NaN]"
proof -
  have "map feeEfficiencyScore (fst (getRouteIntelligence zero_output_env [usdc_route] 0)) =
      [feeEfficiency (fst (probe_loop zero_output_env usdc_route probeSizesUsd [] 0))]"
    by (simp add: getRouteIntelligence_def intelligence_of_route_def analyse_quotes_def split_beta
        del: probe_loop.simps)
  then show ?thesis by (simp only: zero_output_probes zero_rate_score)
qed

section \<open>The snapshot\<close>

lemma getRates_fails_iff:
  "isl (fst (getRates env routes notionals sw)) = (routes = [] \<or> notionals = [])"
  by (simp add: getRates_def split: prod.splits)

lemma getSnapshot_fails_iff:
  "isl (fst (getSnapshot env params sw)) = (param_routes params = [] \<or> param_notionals params = [])"
proof (cases "param_routes params = [] \<or> param_notionals params = []")
  case True
  then show ?thesis by (auto simp add: getSnapshot_def)
next
  case False
  obtain vols sw1 where v: "getVolumes env (case includeWindows params of None \<Rightarrow> [W24h] | Some ws \<Rightarrow> ws) sw = (vols, sw1)"
    by (cases "getVolumes env (case includeWindows params of None \<Rightarrow> [W24h] | Some ws \<Rightarrow> ws) sw")
  obtain r st2 w2 where g: "getRates env (param_routes params) (param_notionals params) sw1 = (r, st2, w2)"
    by (metis prod_cases3)
  have "\<not> isl r" using getRates_fails_iff[of env "param_routes params" "param_notionals params" sw1] g False
    by simp
  then obtain rs where r: "r = Inr rs" by (cases r) auto
  have "\<not> isl (fst (getSnapshot env params sw))"
    using False by (simp add: getSnapshot_def v g r split: prod.splits)
  then show ?thesis using False by simp
qed

lemma execute_always_fails:
  assumes "always_fails fn"
  shows "\<exists>e b' w'. execute clock fn (b, w) = (Inl e, b', w')"
proof -
  obtain r w1 where fw: "fn w = (r, w1)" by (cases "fn w")
  with assms obtain e where "r = Inl e" by (cases r) (auto simp: always_fails_def dest: spec[of _ w])
  with fw show ?thesis by (auto simp: execute_def Let_def)
qed

lemma fetch_rate_fails:
  assumes "cache (quoteCache st) = []" "always_fails (http_fetchWithRetry env route notional)"
  shows "\<exists>e st' w'. fetch_rate env route notional (st, w) = (Inl e, st', w') \<and>
           cache (quoteCache st') = []"
proof -
  have g: "TTLCache_get (Date_now env w) (cacheKey route notional) (quoteCache st) = (None, quoteCache st)"
    using assms(1) by (simp add: TTLCache_get_def)
  from execute_always_fails[OF assms(2), of "Date_now env" "dlnCircuit st" w]
  obtain e b' w' where "execute (Date_now env) (http_fetchWithRetry env route notional) (dlnCircuit st, w) = (Inl e, b', w')"
    by blast
  then show ?thesis using assms(1) by (simp add: fetch_rate_def g)
qed

lemma fetch_rate_miss_fails:
  assumes "fst (TTLCache_get (Date_now env w) (cacheKey route notional) (quoteCache st)) = None"
    "always_fails (http_fetchWithRetry env route notional)"
  shows "isl (fst (fetch_rate env route notional (st, w)))"
proof -
  obtain qc where g: "TTLCache_get (Date_now env w) (cacheKey route notional) (quoteCache st) = (None, qc)"
    using assms(1) by (cases "TTLCache_get (Date_now env w) (cacheKey route notional) (quoteCache st)") auto
  from execute_always_fails[OF assms(2), of "Date_now env" "dlnCircuit st" w]
  obtain e b' w' where "execute (Date_now env) (http_fetchWithRetry env route notional) (dlnCircuit st, w) = (Inl e, b', w')"
    by blast
  then show ?thesis by (simp add: fetch_rate_def g)
qed

lemma failed_pair_omitted:
  "isl (fst (fetch_rate env route notional sw)) \<Longrightarrow>
     rates_of_notionals env route (notional # notionals) acc sw =
       (if notional = [] \<or> js_Number env notional = NaN
        then rates_of_notionals env route notionals acc sw
        else rates_of_notionals env route notionals acc (snd (fetch_rate env route notional sw)))"
  by (cases "fetch_rate env route notional sw") (auto split: sum.splits)

lemma rates_of_notionals_all_fail:
  assumes "\<And>route notional. always_fails (http_fetchWithRetry env route notional)"
  shows "cache (quoteCache st) = [] \<Longrightarrow>
     \<exists>st' w'. rates_of_notionals env route notionals acc (st, w) = (acc, st', w') \<and>
       cache (quoteCache st') = []"
proof (induction notionals arbitrary: st w)
  case Nil
  then show ?case by simp
next
  case (Cons notional notionals)
  show ?case
  proof (cases "notional = [] \<or> js_Number env notional = NaN")
    case True
    then show ?thesis using Cons.IH[OF Cons.prems] by auto
  next
    case False
    from fetch_rate_fails[OF Cons.prems assms, of route notional w]
    obtain e st1 w1 where f: "fetch_rate env route notional (st, w) = (Inl e, st1, w1)"
      "cache (quoteCache st1) = []" by blast
    from Cons.IH[OF f(2), of w1] f(1) False show ?thesis by simp
  qed
qed

lemma rates_of_routes_all_fail:
  assumes "\<And>route notional. always_fails (http_fetchWithRetry env route notional)"
  shows "cache (quoteCache st) = [] \<Longrightarrow>
     \<exists>st' w'. rates_of_routes env routes notionals acc (st, w) = (acc, st', w') \<and>
       cache (quoteCache st') = []"
proof (induction routes arbitrary: st w)
  case Nil
  then show ?case by simp
next
  case (Cons route routes)
  from rates_of_notionals_all_fail[OF assms Cons.prems, of route notionals acc w]
  obtain st1 w1 where f: "rates_of_notionals env route notionals acc (st, w) = (acc, st1, w1)"
    "cache (quoteCache st1) = []" by blast
  from Cons.IH[OF f(2), of w1] f(1) show ?case by simp
qed

lemma getVolumes_quoteCache:
  "quoteCache (fst (snd (getVolumes env ws (st, w)))) = quoteCache st"
  by (auto simp: getVolumes_def fetchDefiLlamaVolumes_def fetch_and_cache_volumes_def
      split: prod.splits sum.splits option.splits if_splits)

lemma getSnapshot_all_quotes_fail:
  assumes "param_routes params \<noteq> []" "param_notionals params \<noteq> []"
    "cache (quoteCache st) = []"
    "\<And>route notional. always_fails (http_fetchWithRetry env route notional)"
  shows "\<exists>snap. fst (getSnapshot env params (st, w)) = Inr snap \<and> snapshot_rates snap = []"
proof -
  obtain vols st1 w1 where v: "getVolumes env (case includeWindows params of None \<Rightarrow> [W24h] | Some ws \<Rightarrow> ws) (st, w) = (vols, st1, w1)"
    by (metis prod_cases3)
  have c1: "cache (quoteCache st1) = []"
    using getVolumes_quoteCache[of env "case includeWindows params of None \<Rightarrow> [W24h] | Some ws \<Rightarrow> ws" st w] v assms(3) by simp
  from rates_of_routes_all_fail[OF assms(4) c1, of "param_routes params" "param_notionals params" "[]" w1]
  obtain st2 w2 where r: "rates_of_routes env (param_routes params) (param_notionals params) [] (st1, w1) = ([], st2, w2)"
    by blast
  have g: "getRates env (param_routes params) (param_notionals params) (st1, w1) = (Inr [], st2, w2)"
    using assms(1,2) r by (simp add: getRates_def)
  show ?thesis using assms(1,2)
    by (simp add: getSnapshot_def v g split: prod.splits)
qed


lemma fetchWithRetry_always_500:
  "fst (fetchWithRetry (endpoint_always 500 ''Internal Server Error'') example_url 3 1000) =
     Inl ''Request failed after 4 attempts: HTTP 500: Internal Server Error''"
  by (simp add: fetchWithRetry_def retry_loop.simps endpoint_always_body show_nat_4
      show_nat_500 calculateBackoffDelay_def endpoint_always_random endpoint_always_URL
      example_url_def)

lemma http_500_env_fails:
  "always_fails (http_fetchWithRetry http_500_env route notional)"
  by (simp add: always_fails_def http_500_env_def example_env_simps http_500_result_def
      fetchWithRetry_always_500)

text \<open>
  C1. \<open>getSnapshot\<close> fails if and only if \<open>routes\<close> is empty or \<open>notionals\<close> is empty: every
  error of a sub-fetch is caught inside it, and \<open>getRates\<close> throws only on the empty input
  that \<open>getSnapshot\<close> has already refused. When validation passes and every quote fetch
  fails (an endpoint that always answers 500, after retry exhaustion), with no quote
  cached, the snapshot is returned with \<open>rates\<close> empty. A pair whose quote is not cached and
  whose fetch fails ends in the \<open>catch\<close> of the pair: the loop goes on to the next notional
  with the rates collected so far, nothing being added for the failed pair.
\<close>

theorem getSnapshot_degrades:
  "isl (fst (getSnapshot env params sw)) =
     (param_routes params = [] \<or> param_notionals params = []) \<and>
   (param_routes params \<noteq> [] \<and> param_notionals params \<noteq> [] \<and> cache (quoteCache st) = [] \<and>
    (\<forall>route notional. always_fails (http_fetchWithRetry env route notional)) \<longrightarrow>
      (\<exists>snap. fst (getSnapshot env params (st, w)) = Inr snap \<and> snapshot_rates snap = [])) \<and>
   (fst (TTLCache_get (Date_now env w) (cacheKey route notional) (quoteCache st)) = None \<and>
    always_fails (http_fetchWithRetry env route notional) \<and>
    notional \<noteq> [] \<and> js_Number env notional \<noteq> NaN \<longrightarrow>
      isl (fst (fetch_rate env route notional (st, w))) \<and>
      rates_of_notionals env route (notional # notionals) acc (st, w) =
        rates_of_notionals env route notionals acc (snd (fetch_rate env route notional (st, w))))"
proof (intro conjI impI)
  show "isl (fst (getSnapshot env params sw)) =
     (param_routes params = [] \<or> param_notionals params = [])"
    by (rule getSnapshot_fails_iff)
next
  assume h: "param_routes params \<noteq> [] \<and> param_notionals params \<noteq> [] \<and>
    cache (quoteCache st) = [] \<and>
    (\<forall>route notional. always_fails (http_fetchWithRetry env route notional))"
  show "\<exists>snap. fst (getSnapshot env params (st, w)) = Inr snap \<and> snapshot_rates snap = []"
    by (rule getSnapshot_all_quotes_fail) (use h in simp_all)
next
  assume h: "fst (TTLCache_get (Date_now env w) (cacheKey route notional) (quoteCache st)) = None \<and>
    always_fails (http_fetchWithRetry env route notional) \<and>
    notional \<noteq> [] \<and> js_Number env notional \<noteq> NaN"
  then show f: "isl (fst (fetch_rate env route notional (st, w)))"
    by (simp add: fetch_rate_miss_fails)
  show "rates_of_notionals env route (notional # notionals) acc (st, w) =
        rates_of_notionals env route notionals acc (snd (fetch_rate env route notional (st, w)))"
    using failed_pair_omitted [OF f, of notionals acc] h by simp
qed

lemma Number_notionals:
  "Number_of_integer_string ''1000000'' = Num 1000000"
  "Number_of_integer_string ''10000000'' = Num 10000000"
  by (simp_all add: Number_of_integer_string_def int_of_string_def digit_val_def)

text \<open>
  The scenario evaluated: one route, two notionals, a quote endpoint that always answers
  500. The snapshot is returned with every section empty, and the breaker has counted the
  two failed quote calls.
\<close>

lemma http_500_result_eq: "http_500_result = Inl ''Request failed after 4 attempts: HTTP 500: Internal Server Error''"
  by (simp add: http_500_result_def fetchWithRetry_always_500)

lemma http_500_rates: "getRates http_500_env [usdc_route] [''1000000'', ''10000000''] (initial_state, 100) =
   (Inr [], initial_state\<lparr>dlnCircuit := (dlnCircuit initial_state)\<lparr>failureCount := 2\<rparr>\<rparr>, 300)"
  by (simp add: getRates_def fetch_rate_def initial_state_def TTLCache_new_def TTLCache_get_def
      CircuitBreaker_new_def execute_def onFailure_def Let_def
      http_500_env_def example_env_simps Number_notionals http_500_result_eq)

lemma http_500_volumes: "getVolumes http_500_env ws (initial_state, 0) = ([], initial_state, 100)"
  by (simp add: getVolumes_def fetchDefiLlamaVolumes_def fetch_and_cache_volumes_def initial_state_def
      http_500_env_def example_env_simps)

lemma http_500_liquidity: "getLiquidityDepth http_500_env [usdc_route] 300 = ([], 400)"
  by (simp add: getLiquidityDepth_def liquidity_of_route_def http_500_env_def example_env_simps
      usdc_route_def usdc_ethereum_def)

lemma http_500_listed: "tokenListCache st = [] \<Longrightarrow> getListedAssets http_500_env [usdc_route] (st, 400) =
   (\<lparr>listed_assets = [], listed_measuredAt = 400\<rparr>, st, 600)"
  by (simp add: getListedAssets_def Set_of_def usdc_route_def usdc_ethereum_def usdc_polygon_def
      http_500_env_def example_env_simps TOKEN_LIST_TTL_def)

lemma http_500_snapshot:
  "getSnapshot http_500_env (example_params [usdc_route] [''1000000'', ''10000000'']) (initial_state, 0) =
     (Inr \<lparr>snapshot_volumes = [], snapshot_rates = [], snapshot_liquidity = [],
           snapshot_listedAssets = \<lparr>listed_assets = [], listed_measuredAt = 400\<rparr>,
           snapshot_routeIntelligence = None\<rparr>,
      initial_state\<lparr>dlnCircuit := (dlnCircuit initial_state)\<lparr>failureCount := 2\<rparr>\<rparr>, 600)"
  by (simp add: getSnapshot_def example_params_def http_500_volumes http_500_rates http_500_liquidity)
     (simp add: initial_state_def http_500_listed)


theorem getSnapshot_degrades_witness:
  "isl (fst (getSnapshot http_500_env (example_params [] [''1000000'']) (initial_state, 0))) \<and>
   isl (fst (getSnapshot http_500_env (example_params [usdc_route] []) (initial_state, 0))) \<and>
   fst (getSnapshot http_500_env (example_params [usdc_route] [''1000000'', ''10000000''])
          (initial_state, 0)) =
     Inr \<lparr>snapshot_volumes = [], snapshot_rates = [], snapshot_liquidity = [],
          snapshot_listedAssets = \<lparr>listed_assets = [], listed_measuredAt = 400\<rparr>,
          snapshot_routeIntelligence = None\<rparr> \<and>
   isl (fst (fetch_rate http_500_env usdc_route ''1000000'' (initial_state, 0))) \<and>
   rates_of_notionals http_500_env usdc_route [''1000000'', ''10000000''] [] (initial_state, 0) =
     rates_of_notionals http_500_env usdc_route [''10000000''] []
       (snd (fetch_rate http_500_env usdc_route ''1000000'' (initial_state, 0)))"
proof -
  have fails: "\<forall>route notional. always_fails (http_fetchWithRetry http_500_env route notional)"
    by (simp add: http_500_env_fails)
  have miss: "fst (TTLCache_get (Date_now http_500_env 0) (cacheKey usdc_route ''1000000'')
      (quoteCache initial_state)) = None"
    by (simp add: initial_state_def TTLCache_new_def TTLCache_get_def)
  have num: "js_Number http_500_env ''1000000'' \<noteq> NaN"
    by (simp add: http_500_env_def example_env_simps Number_notionals)
  have empty: "cache (quoteCache initial_state) = []"
    by (simp add: initial_state_def TTLCache_new_def)
  from getSnapshot_degrades [where env = http_500_env and params = "example_params [] [''1000000'']"
      and sw = "(initial_state, 0)"]
  have a: "isl (fst (getSnapshot http_500_env (example_params [] [''1000000'']) (initial_state, 0)))"
    by (simp add: example_params_def)
  from getSnapshot_degrades [where env = http_500_env and params = "example_params [usdc_route] []"
      and sw = "(initial_state, 0)"]
  have b: "isl (fst (getSnapshot http_500_env (example_params [usdc_route] []) (initial_state, 0)))"
    by (simp add: example_params_def)
  from getSnapshot_degrades [where env = http_500_env
      and params = "example_params [usdc_route] [''1000000'', ''10000000'']"
      and st = initial_state and w = 0 and route = usdc_route and notional = "''1000000''"
      and notionals = "[''10000000'']" and acc = "[]"] fails miss num empty
  have c: "(\<exists>snap. fst (getSnapshot http_500_env
               (example_params [usdc_route] [''1000000'', ''10000000'']) (initial_state, 0)) =
             Inr snap \<and> snapshot_rates snap = []) \<and>
      isl (fst (fetch_rate http_500_env usdc_route ''1000000'' (initial_state, 0))) \<and>
      rates_of_notionals http_500_env usdc_route [''1000000'', ''10000000''] [] (initial_state, 0) =
        rates_of_notionals http_500_env usdc_route [''10000000''] []
          (snd (fetch_rate http_500_env usdc_route ''1000000'' (initial_state, 0)))"
    by (simp add: example_params_def)
  show ?thesis using a b c by (simp add: http_500_snapshot)
qed

end
